theory Spec2Isabelle
  imports Main "HOL-Library.Word"
begin

unbundle bit_operations_syntax

section \<open>Errors and results\<close>

text \<open>
  Every exception the Python code can raise is a value of \<open>error\<close>; a
  computation that may raise returns \<open>error + 'a\<close>, with \<open>Inl\<close> the exception.
\<close>

datatype error =
  AssertionError | ValueError | IndexError | ZeroDivisionError | OverflowError | AttributeError

fun bindr :: "error + 'a \<Rightarrow> ('a \<Rightarrow> error + 'b) \<Rightarrow> error + 'b" where
  "bindr (Inl e) f = Inl e"
| "bindr (Inr x) f = f x"

type_synonym byte = "8 word"

section \<open>common.py: little-endian integer encoding\<close>

text \<open>
  Modelled from the spec: \<open>common.to_le_bytes\<close> and \<open>common.from_le_bytes\<close> are
  imported by field.py but their module is not among the sources. The spec describes
  them as the fixed-width little-endian encoding of an integer (``concatenate/parse
  ENCODED_SIZE-byte little-endian values''). As Python's \<open>int.to_bytes\<close>, the
  encoder raises when the value is negative or does not fit the width.
\<close>

fun le_digits :: "int \<Rightarrow> nat \<Rightarrow> byte list" where
  "le_digits v 0 = []"
| "le_digits v (Suc n) = word_of_int (v mod 256) # le_digits (v div 256) n"

definition to_le_bytes :: "int \<Rightarrow> nat \<Rightarrow> error + byte list" where
  "to_le_bytes val len =
     (if val < 0 \<or> 256 ^ len \<le> val then Inl OverflowError else Inr (le_digits val len))"

fun from_le_bytes :: "byte list \<Rightarrow> int" where
  "from_le_bytes [] = 0"
| "from_le_bytes (b # bs) = uint b + 256 * from_le_bytes bs"

section \<open>field.py: the field classes\<close>

text \<open>
  The five concrete subclasses of \<open>Field\<close>. A field element is the canonical
  representative of its \<open>val\<close> attribute, an integer in \<open>[0, MODULUS)\<close>; the class
  of an element, which Python reads from \<open>self.__class__\<close>, is passed explicitly.
\<close>

datatype field_class = Field2 | Field64 | Field96 | Field128 | Field255

type_synonym elem = int

fun MODULUS :: "field_class \<Rightarrow> int" where
  "MODULUS Field2 = 2"
| "MODULUS Field64 = 2 ^ 32 * 4294967295 + 1"
| "MODULUS Field96 = 2 ^ 64 * 4294966555 + 1"
| "MODULUS Field128 = 2 ^ 66 * 4611686018427387897 + 1"
| "MODULUS Field255 = 2 ^ 255 - 19"

fun ENCODED_SIZE :: "field_class \<Rightarrow> nat" where
  "ENCODED_SIZE Field2 = 1"
| "ENCODED_SIZE Field64 = 8"
| "ENCODED_SIZE Field96 = 12"
| "ENCODED_SIZE Field128 = 16"
| "ENCODED_SIZE Field255 = 32"

text \<open>\<open>GEN_ORDER\<close> is an attribute of the subclasses of \<open>FftField\<close> only.\<close>

fun GEN_ORDER :: "field_class \<Rightarrow> int option" where
  "GEN_ORDER Field64 = Some (2 ^ 32)"
| "GEN_ORDER Field96 = Some (2 ^ 64)"
| "GEN_ORDER Field128 = Some (2 ^ 66)"
| "GEN_ORDER Field2 = None"
| "GEN_ORDER Field255 = None"

definition is_elem :: "field_class \<Rightarrow> elem \<Rightarrow> bool" where
  "is_elem cls a = (0 \<le> a \<and> a < MODULUS cls)"

subsection \<open>The Sage object \<open>gf = GF(MODULUS)\<close>\<close>

text \<open>
  Sage's prime field is an external library. Its elements are modelled by their
  canonical representatives: coercing an integer reduces it modulo the order, the
  ring operations are those of the integers modulo the order, and the inverse of zero
  raises \<open>ZeroDivisionError\<close>. The inverse is computed with the B\'ezout coefficients
  of the extended Euclidean algorithm.
\<close>

definition gf :: "field_class \<Rightarrow> int \<Rightarrow> int" where
  "gf cls v = v mod MODULUS cls"

definition gf_pow :: "field_class \<Rightarrow> int \<Rightarrow> nat \<Rightarrow> int" where
  "gf_pow cls a n = (a ^ n) mod MODULUS cls"

definition gf_inv :: "field_class \<Rightarrow> int \<Rightarrow> error + int" where
  "gf_inv cls a =
     (if a mod MODULUS cls = 0 then Inl ZeroDivisionError
      else Inr (fst (bezw (nat (a mod MODULUS cls)) (nat (MODULUS cls))) mod MODULUS cls))"

subsection \<open>class Field\<close>

definition Field_init :: "field_class \<Rightarrow> int \<Rightarrow> error + elem" where
  "Field_init cls val =
     (if val < MODULUS cls then Inr (gf cls val) else Inl AssertionError)"

definition Field_add :: "field_class \<Rightarrow> elem \<Rightarrow> elem \<Rightarrow> error + elem" where
  "Field_add cls self other = Field_init cls (gf cls (self + other))"

definition Field_neg :: "field_class \<Rightarrow> elem \<Rightarrow> error + elem" where
  "Field_neg cls self = Field_init cls (gf cls (- self))"

definition Field_mul :: "field_class \<Rightarrow> elem \<Rightarrow> elem \<Rightarrow> error + elem" where
  "Field_mul cls self other = Field_init cls (gf cls (self * other))"

definition Field_inv :: "field_class \<Rightarrow> elem \<Rightarrow> error + elem" where
  "Field_inv cls self = bindr (gf_inv cls self) (Field_init cls)"

definition Field_eq :: "elem \<Rightarrow> elem \<Rightarrow> bool" where
  "Field_eq self other = (self = other)"

definition Field_sub :: "field_class \<Rightarrow> elem \<Rightarrow> elem \<Rightarrow> error + elem" where
  "Field_sub cls self other = bindr (Field_neg cls other) (Field_add cls self)"

definition Field_pow :: "field_class \<Rightarrow> elem \<Rightarrow> int \<Rightarrow> error + elem" where
  "Field_pow cls self n =
     (if 0 \<le> n then Field_init cls (gf_pow cls self (nat n))
      else bindr (gf_inv cls (gf_pow cls self (nat (- n)))) (Field_init cls))"

definition as_unsigned :: "field_class \<Rightarrow> elem \<Rightarrow> int" where
  "as_unsigned cls self = gf cls self"

text \<open>\<open>encode_vec\<close>: the loop appends the encoding of each element to \<open>encoded\<close>.\<close>

fun encode_vec_loop :: "field_class \<Rightarrow> byte list \<Rightarrow> elem list \<Rightarrow> error + byte list" where
  "encode_vec_loop cls encoded [] = Inr encoded"
| "encode_vec_loop cls encoded (x # vec) =
     bindr (to_le_bytes (as_unsigned cls x) (ENCODED_SIZE cls))
       (\<lambda>bs. encode_vec_loop cls (encoded @ bs) vec)"

definition encode_vec :: "field_class \<Rightarrow> elem list \<Rightarrow> error + byte list" where
  "encode_vec cls vec = encode_vec_loop cls [] vec"

text \<open>
  \<open>decode_vec\<close>: the loop over \<open>range(0, len(encoded), L)\<close>, with the offset \<open>i\<close>
  and the list \<open>vec\<close> built so far. The slice \<open>encoded[i:i+L]\<close> is
  \<open>take L (drop i encoded)\<close>.
\<close>

function decode_vec_loop ::
  "field_class \<Rightarrow> byte list \<Rightarrow> nat \<Rightarrow> elem list \<Rightarrow> error + elem list" where
  "decode_vec_loop cls encoded i vec =
     (if i < length encoded \<and> 0 < ENCODED_SIZE cls then
        (let encoded_x = take (ENCODED_SIZE cls) (drop i encoded);
             x = from_le_bytes encoded_x
         in if MODULUS cls \<le> x then Inl ValueError
            else bindr (Field_init cls x)
                   (\<lambda>e. decode_vec_loop cls encoded (i + ENCODED_SIZE cls) (vec @ [e])))
      else Inr vec)"
  by pat_completeness auto
termination
  by (relation "measure (\<lambda>(cls, encoded, i, vec). length encoded - i)") auto

declare decode_vec_loop.simps [simp del]

definition decode_vec :: "field_class \<Rightarrow> byte list \<Rightarrow> error + elem list" where
  "decode_vec cls encoded =
     (if ENCODED_SIZE cls = 0 then Inl ZeroDivisionError
      else if length encoded mod ENCODED_SIZE cls \<noteq> 0 then Inl ValueError
      else decode_vec_loop cls encoded 0 [])"

text \<open>
  \<open>encode_into_bit_vector\<close>: \<open>bits\<close> is a natural number (the precondition
  \<open>bits >= 0\<close>); the loop runs \<open>l\<close> over \<open>range(bits)\<close>.
\<close>

fun encode_bits_loop :: "field_class \<Rightarrow> int \<Rightarrow> nat list \<Rightarrow> elem list \<Rightarrow> error + elem list" where
  "encode_bits_loop cls val [] encoded = Inr encoded"
| "encode_bits_loop cls val (l # ls) encoded =
     bindr (Field_init cls (drop_bit l val AND 1))
       (\<lambda>e. encode_bits_loop cls val ls (encoded @ [e]))"

definition encode_into_bit_vector :: "field_class \<Rightarrow> int \<Rightarrow> nat \<Rightarrow> error + elem list" where
  "encode_into_bit_vector cls val bits =
     (if 2 ^ bits \<le> val then Inl ValueError
      else encode_bits_loop cls val [0..<bits] [])"

text \<open>\<open>decode_from_bit_vector\<close>: the loop over \<open>enumerate(vec)\<close>, whose element
  \<open>bit\<close> is written \<open>b\<close>.\<close>

fun decode_bits_loop :: "field_class \<Rightarrow> nat \<Rightarrow> elem list \<Rightarrow> elem \<Rightarrow> error + elem" where
  "decode_bits_loop cls l [] decoded = Inr decoded"
| "decode_bits_loop cls l (b # vec) decoded =
     bindr (Field_init cls (push_bit l 1))
       (\<lambda>w. bindr (Field_mul cls w b)
          (\<lambda>t. bindr (Field_add cls decoded t)
             (\<lambda>d. decode_bits_loop cls (Suc l) vec d)))"

definition decode_from_bit_vector :: "field_class \<Rightarrow> elem list \<Rightarrow> error + elem" where
  "decode_from_bit_vector cls vec =
     (let bits = length vec
      in if drop_bit bits (MODULUS cls) = 0 then Inl ValueError
         else bindr (Field_init cls 0) (decode_bits_loop cls 0 vec))"

subsection \<open>class Field2\<close>

text \<open>
  \<open>conditional_select\<close>: the mask \<open>m\<close> is built by the loop over \<open>range(8)\<close>;
  \<open>bytes(...)\<close> raises \<open>ValueError\<close> for a value outside \<open>range(256)\<close>.
\<close>

fun bytes_of_ints :: "int list \<Rightarrow> error + byte list" where
  "bytes_of_ints [] = Inr []"
| "bytes_of_ints (v # vs) =
     (if 0 \<le> v \<and> v < 256
      then bindr (bytes_of_ints vs) (\<lambda>bs. Inr (word_of_int v # bs))
      else Inl ValueError)"

definition conditional_select :: "elem \<Rightarrow> byte list \<Rightarrow> error + byte list" where
  "conditional_select self inp =
     (let v = as_unsigned Field2 self;
          m = fold (\<lambda>i m. m OR push_bit i v) [0..<8] 0
      in bytes_of_ints (map (\<lambda>x. m AND uint x) inp))"

subsection \<open>classes Field64, Field96, Field128: the generator\<close>

fun gen :: "field_class \<Rightarrow> error + elem" where
  "gen Field64 = bindr (Field_init Field64 7) (\<lambda>b. Field_pow Field64 b 4294967295)"
| "gen Field96 = bindr (Field_init Field96 3) (\<lambda>b. Field_pow Field96 b 4294966555)"
| "gen Field128 = bindr (Field_init Field128 7) (\<lambda>b. Field_pow Field128 b 4611686018427387897)"
| "gen Field2 = Inl AttributeError"
| "gen Field255 = Inl AttributeError"

section \<open>field.py: polynomial arithmetic\<close>

text \<open>
  \<open>poly_strip\<close>: the loop over \<open>reversed(range(len(p)))\<close>; the counter is one more
  than the index \<open>i\<close> examined, so that it ends at zero.
\<close>

fun poly_strip_loop :: "field_class \<Rightarrow> elem list \<Rightarrow> nat \<Rightarrow> error + elem list" where
  "poly_strip_loop field p 0 = Inr []"
| "poly_strip_loop field p (Suc i) =
     bindr (Field_init field 0)
       (\<lambda>z. if \<not> Field_eq (p ! i) z then Inr (take (i + 1) p)
            else poly_strip_loop field p i)"

definition poly_strip :: "field_class \<Rightarrow> elem list \<Rightarrow> error + elem list" where
  "poly_strip field p = poly_strip_loop field p (length p)"

text \<open>
  \<open>poly_eval\<close>: \<open>p[-1]\<close> raises \<open>IndexError\<close> on the empty list; the loop runs over
  \<open>reversed(p[:-1])\<close>.
\<close>

fun poly_eval_loop :: "field_class \<Rightarrow> elem \<Rightarrow> elem list \<Rightarrow> elem \<Rightarrow> error + elem" where
  "poly_eval_loop field eval_at [] result = Inr result"
| "poly_eval_loop field eval_at (c # cs) result =
     bindr (Field_mul field result eval_at)
       (\<lambda>r. bindr (Field_add field r c)
          (\<lambda>r'. poly_eval_loop field eval_at cs r'))"

definition poly_eval :: "field_class \<Rightarrow> elem list \<Rightarrow> elem \<Rightarrow> error + elem" where
  "poly_eval field p eval_at =
     (if length p = 0 then Field_init field 0
      else bindr (poly_strip field p)
        (\<lambda>p'. if p' = [] then Inl IndexError
              else poly_eval_loop field eval_at (rev (butlast p')) (last p')))"

text \<open>
  \<open>poly_interp\<close> calls Sage: \<open>PolynomialRing(field.gf, 'x').lagrange_polynomial\<close>
  and \<open>p.coefficients()\<close>. Both belong to the external library and are modelled by
  their documented behaviour. The interpolation polynomial is computed by Lagrange's
  formula on dense coefficient lists, lowest degree first, over the integers modulo
  \<open>MODULUS\<close>; a repeated abscissa divides by zero. \<open>coefficients()\<close>, called
  without arguments, returns only the non-zero coefficients, in increasing degree
  (Sage's default \<open>sparse=True\<close>).
\<close>

fun gf_poly_add :: "field_class \<Rightarrow> int list \<Rightarrow> int list \<Rightarrow> int list" where
  "gf_poly_add cls [] q = q"
| "gf_poly_add cls p [] = p"
| "gf_poly_add cls (a # p) (b # q) = gf cls (a + b) # gf_poly_add cls p q"

definition gf_poly_scale :: "field_class \<Rightarrow> int \<Rightarrow> int list \<Rightarrow> int list" where
  "gf_poly_scale cls c p = map (\<lambda>a. gf cls (c * a)) p"

definition gf_poly_mul_linear :: "field_class \<Rightarrow> int \<Rightarrow> int list \<Rightarrow> int list" where
  "gf_poly_mul_linear cls c p = gf_poly_add cls (0 # p) (gf_poly_scale cls (- c) p)"

definition lagrange_numerator :: "field_class \<Rightarrow> (int \<times> int) list \<Rightarrow> nat \<Rightarrow> int list" where
  "lagrange_numerator cls points i =
     fold (\<lambda>j acc. if j = i then acc else gf_poly_mul_linear cls (fst (points ! j)) acc)
       [0..<length points] [gf cls 1]"

definition lagrange_denominator :: "field_class \<Rightarrow> (int \<times> int) list \<Rightarrow> nat \<Rightarrow> int" where
  "lagrange_denominator cls points i =
     fold (\<lambda>j acc. if j = i then acc
                    else gf cls (acc * (fst (points ! i) - fst (points ! j))))
       [0..<length points] (gf cls 1)"

fun lagrange_sum :: "field_class \<Rightarrow> (int \<times> int) list \<Rightarrow> nat list \<Rightarrow> int list \<Rightarrow> error + int list" where
  "lagrange_sum cls points [] acc = Inr acc"
| "lagrange_sum cls points (i # is) acc =
     bindr (gf_inv cls (lagrange_denominator cls points i))
       (\<lambda>d. lagrange_sum cls points is
               (gf_poly_add cls acc
                  (gf_poly_scale cls (snd (points ! i) * d) (lagrange_numerator cls points i))))"

definition lagrange_polynomial :: "field_class \<Rightarrow> (int \<times> int) list \<Rightarrow> error + int list" where
  "lagrange_polynomial cls points = lagrange_sum cls points [0..<length points] []"

definition coefficients :: "int list \<Rightarrow> int list" where
  "coefficients p = filter (\<lambda>c. c \<noteq> 0) p"

text \<open>\<open>list(map(field, ...))\<close>: the constructor applied to each coefficient in turn.\<close>

fun map_field :: "field_class \<Rightarrow> int list \<Rightarrow> error + elem list" where
  "map_field field [] = Inr []"
| "map_field field (c # cs) =
     bindr (Field_init field c) (\<lambda>e. bindr (map_field field cs) (\<lambda>es. Inr (e # es)))"

definition poly_interp :: "field_class \<Rightarrow> elem list \<Rightarrow> elem list \<Rightarrow> error + elem list" where
  "poly_interp field xs ys =
     bindr (lagrange_polynomial field (zip xs ys))
       (\<lambda>p. bindr (map_field field (coefficients p)) (poly_strip field))"

section \<open>idpf.py: class Idpf\<close>

record idpf =
  SHARES :: int
  BITS :: int
  VALUE_LEN :: int
  KEY_SIZE :: int
  RAND_SIZE :: int
  field_inner :: field_class
  field_leaf :: field_class

definition current_field :: "idpf \<Rightarrow> int \<Rightarrow> field_class" where
  "current_field self level =
     (if level < BITS self - 1 then field_inner self else field_leaf self)"

text \<open>\<open>is_prefix\<close>: Python's \<open>>>\<close> raises \<open>ValueError\<close> on a negative shift count.\<close>

definition is_prefix :: "idpf \<Rightarrow> int \<Rightarrow> int \<Rightarrow> int \<Rightarrow> error + bool" where
  "is_prefix self x y level =
     (if BITS self - 1 - level < 0 then Inl ValueError
      else Inr (drop_bit (nat (BITS self - 1 - level)) y = x))"

text \<open>
  The prefix relation in the words of the specification: the top \<open>level\<close> bits of the
  \<open>BITS\<close>-bit representation of \<open>y\<close> equal the low \<open>level\<close> bits of \<open>x\<close>.
\<close>

definition spec_is_prefix :: "nat \<Rightarrow> int \<Rightarrow> int \<Rightarrow> nat \<Rightarrow> bool" where
  "spec_is_prefix bits x y level =
     (drop_bit (bits - level) (take_bit bits y) = take_bit level x)"

text \<open>
  The integer written by the top \<open>n\<close> bits of the \<open>bits\<close>-bit representation
  of \<open>y\<close>.
\<close>

definition top_bits :: "nat \<Rightarrow> nat \<Rightarrow> int \<Rightarrow> int" where
  "top_bits bits n y = drop_bit (bits - n) (take_bit bits y)"

text \<open>An instance with \<open>BITS = 4\<close>, as in the specification's example.\<close>

definition idpf_bits4 :: idpf where
  "idpf_bits4 = \<lparr>SHARES = 2, BITS = 4, VALUE_LEN = 1, KEY_SIZE = 16, RAND_SIZE = 32,
     field_inner = Field64, field_leaf = Field255\<rparr>"

section \<open>Primality and modular powers: auxiliary definitions\<close>

text \<open>
  The inverse in the prime fields exists because the moduli are prime. Primality is
  proved from Pocklington certificates; the definitions below state them.
\<close>

definition prime_nat :: "nat \<Rightarrow> bool" where
  "prime_nat p \<longleftrightarrow> 1 < p \<and> (\<forall>d. d dvd p \<longrightarrow> d = 1 \<or> d = p)"

text \<open>Trial division of \<open>n\<close> by \<open>d, d + 1, \<dots>, d + k - 1\<close>.\<close>

fun no_divisor_upto :: "nat \<Rightarrow> nat \<Rightarrow> nat \<Rightarrow> bool" where
  "no_divisor_upto n d 0 = True"
| "no_divisor_upto n d (Suc k) = (n mod d \<noteq> 0 \<and> no_divisor_upto n (Suc d) k)"

text \<open>Every prime divisor of \<open>n\<close> is congruent to 1 modulo \<open>F\<close>.\<close>

definition prime_divisors_cong :: "nat \<Rightarrow> nat \<Rightarrow> bool" where
  "prime_divisors_cong n F \<longleftrightarrow> (\<forall>P. prime_nat P \<and> P dvd n \<longrightarrow> F dvd P - 1)"

text \<open>
  A square-and-multiply run for the base \<open>a\<close> modulo \<open>M - N\<close>. The state is a pair
  of a residue and the exponent reached; each step carries the bit of the exponent,
  the quotient and the next residue, and is checked by one equation without division.
\<close>

definition sq :: "nat \<Rightarrow> nat" where
  "sq x = x * x"

fun pw_run :: "nat \<Rightarrow> nat \<Rightarrow> nat \<Rightarrow> nat \<times> nat \<Rightarrow> (bool \<times> nat \<times> nat) list \<Rightarrow> (nat \<times> nat) option" where
  "pw_run M N a (x, n) [] = Some (x, n)"
| "pw_run M N a (x, n) ((False, q, y) # st) =
     (if sq x + q * N = q * M + y then pw_run M N a (y, 2 * n) st else None)"
| "pw_run M N a (x, n) ((True, q, y) # st) =
     (if a * sq x + q * N = q * M + y then pw_run M N a (y, 2 * n + 1) st else None)"

definition pw_ok :: "nat \<Rightarrow> nat \<Rightarrow> nat \<Rightarrow> nat \<times> nat \<Rightarrow> bool" where
  "pw_ok M N a s = (fst s mod (M - N) = a ^ snd s mod (M - N))"

section \<open>The IDPF utilities\<close>

text \<open>
  C10. For every level in \<open>[0, BITS)\<close>, \<open>current_field\<close> returns the leaf field when
  \<open>level = BITS - 1\<close> and the inner field otherwise.
\<close>

theorem current_field_boundary:
  assumes "0 \<le> level" and "level < BITS self"
  shows "current_field self level =
           (if level = BITS self - 1 then field_leaf self else field_inner self)"
  using assms by (auto simp: current_field_def)

theorem current_field_boundary_witness:
  "(0::int) \<le> 3 \<and> 3 < BITS idpf_bits4 \<and> current_field idpf_bits4 3 = Field255
   \<and> (0::int) \<le> 2 \<and> 2 < BITS idpf_bits4 \<and> current_field idpf_bits4 2 = Field64"
  using current_field_boundary [of 3 idpf_bits4] current_field_boundary [of 2 idpf_bits4]
  by (simp add: idpf_bits4_def)

text \<open>
  C1, as the specification states it, fails: with \<open>BITS = 4\<close> the top two bits of
  \<open>10 = 0b1010\<close> equal the low two bits of \<open>2\<close>, but \<open>is_prefix(2, 10, 2)\<close> compares
  \<open>10 >> 1 = 5\<close> with \<open>2\<close> and returns false.
\<close>

theorem is_prefix_spec_counterexample:
  "spec_is_prefix 4 2 10 2 \<and> is_prefix idpf_bits4 2 10 2 = Inr False"
  by (simp add: spec_is_prefix_def is_prefix_def idpf_bits4_def)

text \<open>
  C1, amended. For every level in \<open>[0, BITS)\<close>, \<open>is_prefix(x, y, level)\<close> returns
  true iff \<open>y >> (BITS - 1 - level)\<close> equals \<open>x\<close>; for \<open>y\<close> in \<open>[0, 2^BITS)\<close> that is:
  iff the top \<open>level + 1\<close> bits of the \<open>BITS\<close>-bit representation of \<open>y\<close>, read as
  an integer, equal \<open>x\<close> (all of \<open>x\<close>).
\<close>

theorem is_prefix_shift:
  assumes "0 \<le> level" and "level < BITS self"
  shows "is_prefix self x y level = Inr (drop_bit (nat (BITS self - 1 - level)) y = x) \<and>
         (0 \<le> y \<and> y < 2 ^ nat (BITS self) \<longrightarrow>
            is_prefix self x y level = Inr (top_bits (nat (BITS self)) (nat (level + 1)) y = x))"
proof -
  have sh: "nat (BITS self) - nat (level + 1) = nat (BITS self - 1 - level)"
    using assms by linarith
  have "take_bit (nat (BITS self)) y = y" if "0 \<le> y" "y < 2 ^ nat (BITS self)"
    using that by (simp add: take_bit_int_eq_self)
  then show ?thesis
    using assms by (auto simp: is_prefix_def top_bits_def sh)
qed

theorem is_prefix_shift_witness:
  "(0::int) \<le> 2 \<and> 2 < BITS idpf_bits4 \<and> (0::int) \<le> 10 \<and> (10::int) < 2 ^ nat (BITS idpf_bits4)
   \<and> is_prefix idpf_bits4 5 10 2 = Inr True \<and> top_bits 4 3 10 = 5
   \<and> is_prefix idpf_bits4 2 10 2 = Inr False"
  using is_prefix_shift [of 2 idpf_bits4 5 10] is_prefix_shift [of 2 idpf_bits4 2 10]
  by (simp add: idpf_bits4_def top_bits_def)

section \<open>The constant-time selector of Field2\<close>

lemma uint_byte_less: "uint (x::byte) < 256"
  using uint_bounded [of x] by simp

lemma and_255_uint: "(255::int) AND uint (x::byte) = uint x"
proof -
  have "(255::int) = mask 8" by (simp add: mask_eq_exp_minus_1)
  then have "(255::int) AND uint x = take_bit 8 (uint x)"
    by (simp add: take_bit_eq_mask and.commute)
  also have "\<dots> = uint x"
    using uint_byte_less [of x] by (simp add: take_bit_int_eq_self)
  finally show ?thesis .
qed

lemma bytes_of_ints_uint: "bytes_of_ints (map uint (bs::byte list)) = Inr bs"
  by (induction bs) (simp_all add: uint_byte_less)

lemma bytes_of_ints_zero:
  "bytes_of_ints (map (\<lambda>x. 0) (bs::byte list)) = Inr (replicate (length bs) 0)"
  by (induction bs) simp_all

lemma is_elem_Field2: "is_elem Field2 e \<longleftrightarrow> e = 0 \<or> e = 1"
  by (auto simp: is_elem_def)

lemma select_mask:
  assumes "self = 0 \<or> self = 1"
  shows "fold (\<lambda>i m. m OR push_bit i (as_unsigned Field2 self)) [0..<8] 0
           = (if self = 1 then 255 else 0)"
  using assms by (auto simp: as_unsigned_def gf_def upt_rec numeral_eq_Suc)

text \<open>
  C8. For every element of \<open>Field2\<close> and every byte string, \<open>conditional_select\<close>
  returns a byte string of the same length: the input itself when the element is 1,
  the all-zero string when it is 0.
\<close>

theorem conditional_select_mask:
  assumes "is_elem Field2 self"
  shows "\<exists>out. conditional_select self inp = Inr out \<and> length out = length inp
           \<and> (self = 1 \<longrightarrow> out = inp)
           \<and> (self = 0 \<longrightarrow> out = replicate (length inp) 0)"
proof -
  from assms have range: "self = 0 \<or> self = 1"
    by (simp add: is_elem_Field2)
  have sel: "conditional_select self inp =
      bytes_of_ints (map (\<lambda>x. (if self = 1 then 255 else 0) AND uint x) inp)"
    unfolding conditional_select_def Let_def select_mask [OF range] ..
  show ?thesis
  proof (cases "self = 1")
    case True
    then have "conditional_select self inp = Inr inp"
      unfolding sel using bytes_of_ints_uint [of inp] by (simp add: and_255_uint)
    with True show ?thesis by simp
  next
    case False
    with range have "self = 0" by simp
    then have "conditional_select self inp = Inr (replicate (length inp) 0)"
      unfolding sel by (simp add: bytes_of_ints_zero)
    with \<open>self = 0\<close> show ?thesis by simp
  qed
qed

theorem conditional_select_mask_witness:
  "is_elem Field2 1 \<and> conditional_select 1 [0, 255, 7] = Inr [0, 255, 7]
   \<and> is_elem Field2 0 \<and> conditional_select 0 [0, 255, 7] = Inr [0, 0, 0]"
  using conditional_select_mask [of 1 "[0, 255, 7]"] conditional_select_mask [of 0 "[0, 255, 7]"]
  by (auto simp: is_elem_def)

section \<open>Facts about the field classes\<close>

lemma ENCODED_SIZE_pos: "0 < ENCODED_SIZE cls"
  by (cases cls) simp_all

lemma MODULUS_gt_1: "1 < MODULUS cls"
  by (cases cls) simp_all

lemma MODULUS_le_size: "MODULUS cls \<le> 256 ^ ENCODED_SIZE cls"
  by (cases cls) simp_all

lemma Field_init_elem: "is_elem cls x \<Longrightarrow> Field_init cls x = Inr x"
  by (simp add: Field_init_def is_elem_def gf_def)

lemma from_le_bytes_nonneg: "0 \<le> from_le_bytes bs"
  by (induction bs) simp_all

lemma from_le_bytes_less: "from_le_bytes bs < 256 ^ length bs"
proof (induction bs)
  case Nil
  show ?case by simp
next
  case (Cons b bs)
  have "uint b < 256" by (rule uint_byte_less)
  with Cons show ?case by simp
qed

lemma length_le_digits: "length (le_digits v n) = n"
  by (induction n arbitrary: v) simp_all

lemma le_digits_from_le_bytes: "le_digits (from_le_bytes bs) (length bs) = bs"
proof (induction bs)
  case Nil
  show ?case by simp
next
  case (Cons b bs)
  have b: "0 \<le> uint b" "uint b < 256" by (simp_all add: uint_byte_less)
  then have "(uint b + 256 * from_le_bytes bs) mod 256 = uint b"
    by simp
  moreover from b have "(uint b + 256 * from_le_bytes bs) div 256 = from_le_bytes bs"
    by simp
  ultimately show ?case using Cons by simp
qed

lemma from_le_bytes_le_digits:
  "0 \<le> v \<Longrightarrow> v < 256 ^ n \<Longrightarrow> from_le_bytes (le_digits v n) = v"
proof (induction n arbitrary: v)
  case 0
  then show ?case by simp
next
  case (Suc n)
  have d: "0 \<le> v div 256" "v div 256 < 256 ^ n"
  proof -
    show "0 \<le> v div 256" using Suc.prems by (simp add: div_int_pos_iff)
    have "v < 256 * 256 ^ n" using Suc.prems by simp
    then show "v div 256 < 256 ^ n" by linarith
  qed
  have "uint (word_of_int (v mod 256) :: byte) = v mod 256"
    by (simp add: uint_word_of_int_eq take_bit_int_eq_self)
  with Suc.IH [OF d] show ?case by simp
qed

section \<open>Field serialization\<close>

lemma to_le_bytes_elem:
  assumes "is_elem cls x"
  shows "to_le_bytes (as_unsigned cls x) (ENCODED_SIZE cls) = Inr (le_digits x (ENCODED_SIZE cls))"
proof -
  from assms have "as_unsigned cls x = x"
    by (simp add: as_unsigned_def gf_def is_elem_def)
  moreover from assms MODULUS_le_size [of cls] have "0 \<le> x" "x < 256 ^ ENCODED_SIZE cls"
    by (simp_all add: is_elem_def)
  ultimately show ?thesis by (simp add: to_le_bytes_def)
qed

lemma chunk_value:
  "0 \<le> from_le_bytes (take n (drop i b)) \<and> from_le_bytes (take n (drop i b)) < 256 ^ n"
proof -
  have "from_le_bytes (take n (drop i b)) < 256 ^ length (take n (drop i b))"
    by (rule from_le_bytes_less)
  also have "\<dots> \<le> (256::int) ^ n"
    by (rule power_increasing) simp_all
  finally show ?thesis by (simp add: from_le_bytes_nonneg)
qed

text \<open>Errors of the decoding loop.\<close>

lemma decode_vec_loop_error:
  "(\<exists>e. decode_vec_loop cls b i vec = Inl e)
     \<longleftrightarrow> (\<exists>j. i + j * ENCODED_SIZE cls < length b
              \<and> MODULUS cls \<le> from_le_bytes (take (ENCODED_SIZE cls) (drop (i + j * ENCODED_SIZE cls) b)))"
proof (induction cls b i vec rule: decode_vec_loop.induct)
  case (1 cls encoded i vec)
  let ?L = "ENCODED_SIZE cls"
  let ?x = "\<lambda>k. from_le_bytes (take ?L (drop k encoded))"
  have L: "0 < ?L" by (rule ENCODED_SIZE_pos)
  show ?case
  proof (cases "i < length encoded")
    case False
    then show ?thesis
      by (subst decode_vec_loop.simps) simp
  next
    case True
    show ?thesis
    proof (cases "MODULUS cls \<le> ?x i")
      case over: True
      have "decode_vec_loop cls encoded i vec = Inl ValueError"
        using True over L by (subst decode_vec_loop.simps) simp
      moreover have "i + 0 * ?L < length encoded \<and> MODULUS cls \<le> ?x (i + 0 * ?L)"
        using True over by simp
      ultimately show ?thesis by blast
    next
      case under: False
      then have el: "is_elem cls (?x i)"
        using chunk_value [of ?L i encoded] by (simp add: is_elem_def)
      have step: "decode_vec_loop cls encoded i vec
                    = decode_vec_loop cls encoded (i + ?L) (vec @ [?x i])"
        using True under L Field_init_elem [OF el]
        by (subst decode_vec_loop.simps) simp
      have IH: "(\<exists>e. decode_vec_loop cls encoded (i + ?L) (vec @ [?x i]) = Inl e)
          \<longleftrightarrow> (\<exists>j. i + ?L + j * ?L < length encoded \<and> MODULUS cls \<le> ?x (i + ?L + j * ?L))"
        using "1.IH" [OF _ refl refl _ ] True under L Field_init_elem [OF el] by simp
      have "(\<exists>j. i + ?L + j * ?L < length encoded \<and> MODULUS cls \<le> ?x (i + ?L + j * ?L))
          \<longleftrightarrow> (\<exists>j. i + j * ?L < length encoded \<and> MODULUS cls \<le> ?x (i + j * ?L))"
        (is "?A \<longleftrightarrow> ?B")
      proof
        assume ?A
        then obtain j where "i + ?L + j * ?L < length encoded" "MODULUS cls \<le> ?x (i + ?L + j * ?L)"
          by blast
        then have "i + Suc j * ?L < length encoded \<and> MODULUS cls \<le> ?x (i + Suc j * ?L)"
          by (simp add: add.assoc)
        then show ?B by blast
      next
        assume ?B
        then obtain j where j: "i + j * ?L < length encoded" "MODULUS cls \<le> ?x (i + j * ?L)"
          by blast
        with under have "j \<noteq> 0" by (cases j) auto
        then obtain k where "j = Suc k" by (cases j) auto
        with j have "i + ?L + k * ?L < length encoded \<and> MODULUS cls \<le> ?x (i + ?L + k * ?L)"
          by (simp add: add.assoc)
        then show ?A by blast
      qed
      with step IH show ?thesis by simp
    qed
  qed
qed

text \<open>What the decoding loop returns, when it returns.\<close>

lemma decode_vec_loop_result:
  assumes "decode_vec_loop cls b i vec = Inr out"
    and "i \<le> length b" and "ENCODED_SIZE cls dvd length b - i"
  shows "\<exists>ys. out = vec @ ys \<and> length ys = (length b - i) div ENCODED_SIZE cls
           \<and> (\<forall>y\<in>set ys. is_elem cls y)
           \<and> (\<forall>acc. encode_vec_loop cls acc ys = Inr (acc @ drop i b))"
  using assms
proof (induction cls b i vec arbitrary: out rule: decode_vec_loop.induct)
  case (1 cls encoded i vec)
  let ?L = "ENCODED_SIZE cls"
  let ?c = "take ?L (drop i encoded)"
  let ?x = "from_le_bytes ?c"
  have L: "0 < ?L" by (rule ENCODED_SIZE_pos)
  show ?case
  proof (cases "i < length encoded")
    case False
    with "1.prems" have "i = length encoded" and "out = vec"
      by (simp_all add: decode_vec_loop.simps [of cls encoded i vec])
    then show ?thesis by simp
  next
    case True
    have room: "i + ?L \<le> length encoded"
    proof -
      from True have "0 < length encoded - i" by simp
      with "1.prems"(3) have "?L \<le> length encoded - i" by (rule dvd_imp_le)
      with True show ?thesis by simp
    qed
    have dvd': "?L dvd length encoded - (i + ?L)"
    proof -
      have "?L dvd (length encoded - i) - ?L"
        using "1.prems"(3) by (rule dvd_diff_nat) simp
      then show ?thesis by (simp add: diff_diff_left)
    qed
    have under: "\<not> MODULUS cls \<le> ?x"
      using "1.prems"(1) True L by (subst (asm) decode_vec_loop.simps) (auto split: if_splits)
    then have el: "is_elem cls ?x"
      using chunk_value [of ?L i encoded] by (simp add: is_elem_def)
    have step: "decode_vec_loop cls encoded (i + ?L) (vec @ [?x]) = Inr out"
      using "1.prems"(1) True under L Field_init_elem [OF el]
      by (subst (asm) decode_vec_loop.simps) simp
    have cond: "i < length encoded \<and> 0 < ?L" using True L by simp
    from "1.IH" [OF cond refl refl under step room dvd']
    obtain ys where ys: "out = (vec @ [?x]) @ ys"
        "length ys = (length encoded - (i + ?L)) div ?L"
        "\<forall>y\<in>set ys. is_elem cls y"
        "\<forall>acc. encode_vec_loop cls acc ys = Inr (acc @ drop (i + ?L) encoded)"
      by blast
    have len_c: "length ?c = ?L" using room by simp
    have enc_x: "to_le_bytes (as_unsigned cls ?x) ?L = Inr ?c"
      using to_le_bytes_elem [OF el] le_digits_from_le_bytes [of ?c] len_c by simp
    have glue: "?c @ drop (i + ?L) encoded = drop i encoded"
      using append_take_drop_id [of ?L "drop i encoded"] by (simp add: add.commute)
    have enc: "\<forall>acc. encode_vec_loop cls acc (?x # ys) = Inr (acc @ drop i encoded)"
      using ys(4) enc_x glue by simp
    have len: "length (?x # ys) = (length encoded - i) div ?L"
    proof -
      obtain r where r: "length encoded = i + ?L + r"
        using room by (auto simp: le_iff_add)
      have "(?L + r) div ?L = Suc (r div ?L)"
        using L div_add_self1 [of ?L r] by auto
      then show ?thesis using ys(2) by (simp add: r)
    qed
    have out: "out = vec @ (?x # ys)"
      using ys(1) by simp
    have els: "\<forall>y\<in>set (?x # ys). is_elem cls y"
      using ys(3) el by simp
    from out len els enc show ?thesis by blast
  qed
qed

text \<open>Decoding an encoding.\<close>

lemma decode_vec_loop_encoded:
  assumes "\<forall>x\<in>set v. is_elem cls x"
  shows "decode_vec_loop cls (pre @ concat (map (\<lambda>x. le_digits x (ENCODED_SIZE cls)) v))
           (length pre) vec = Inr (vec @ v)"
  using assms
proof (induction v arbitrary: pre vec)
  case Nil
  show ?case by (subst decode_vec_loop.simps) simp
next
  case (Cons x v)
  let ?L = "ENCODED_SIZE cls"
  let ?e = "le_digits x ?L"
  let ?rest = "concat (map (\<lambda>x. le_digits x ?L) v)"
  have L: "0 < ?L" by (rule ENCODED_SIZE_pos)
  from Cons.prems have el: "is_elem cls x" by simp
  then have x: "0 \<le> x" "x < 256 ^ ?L" "x < MODULUS cls"
    using MODULUS_le_size [of cls] by (simp_all add: is_elem_def)
  have chunk: "take ?L (drop (length pre) (pre @ ?e @ ?rest)) = ?e"
    by (simp add: length_le_digits)
  have val: "from_le_bytes ?e = x"
    using x by (simp add: from_le_bytes_le_digits)
  have "decode_vec_loop cls (pre @ ?e @ ?rest) (length pre) vec
          = decode_vec_loop cls (pre @ ?e @ ?rest) (length pre + ?L) (vec @ [x])"
    using L x chunk val Field_init_elem [OF el]
    by (subst decode_vec_loop.simps) (simp add: length_le_digits)
  also have "\<dots> = decode_vec_loop cls ((pre @ ?e) @ ?rest) (length (pre @ ?e)) (vec @ [x])"
    by (simp add: length_le_digits)
  also have "\<dots> = Inr ((vec @ [x]) @ v)"
    using Cons.prems by (intro Cons.IH) simp
  finally show ?case by simp
qed

lemma encode_vec_loop_elems:
  assumes "\<forall>x\<in>set v. is_elem cls x"
  shows "encode_vec_loop cls acc v
           = Inr (acc @ concat (map (\<lambda>x. le_digits x (ENCODED_SIZE cls)) v))"
  using assms by (induction v arbitrary: acc) (simp_all add: to_le_bytes_elem)

lemma length_concat_le_digits:
  "length (concat (map (\<lambda>x. le_digits x n) v)) = n * length v"
  by (induction v) (simp_all add: length_le_digits)

text \<open>The two outcomes of \<open>decode_vec\<close>.\<close>

lemma decode_vec_outcome:
  "((\<exists>e. decode_vec cls b = Inl e) \<longleftrightarrow>
      (length b mod ENCODED_SIZE cls \<noteq> 0 \<or>
       (\<exists>j < length b div ENCODED_SIZE cls.
          MODULUS cls \<le> from_le_bytes (take (ENCODED_SIZE cls) (drop (j * ENCODED_SIZE cls) b)))))
   \<and> ((\<nexists>e. decode_vec cls b = Inl e) \<longrightarrow>
      (\<exists>vec. decode_vec cls b = Inr vec \<and> length vec = length b div ENCODED_SIZE cls
          \<and> (\<forall>y\<in>set vec. is_elem cls y)))"
proof (cases "length b mod ENCODED_SIZE cls = 0")
  case False
  then have "decode_vec cls b = Inl ValueError"
    using ENCODED_SIZE_pos [of cls] by (simp add: decode_vec_def)
  with False show ?thesis by simp
next
  case True
  let ?L = "ENCODED_SIZE cls"
  have L: "0 < ?L" by (rule ENCODED_SIZE_pos)
  from True have dv: "?L dvd length b" by (simp add: dvd_eq_mod_eq_0)
  have loop: "decode_vec cls b = decode_vec_loop cls b 0 []"
    using True L by (simp add: decode_vec_def)
  have idx: "j * ?L < length b \<longleftrightarrow> j < length b div ?L" for j
    using dv L by (metis dvd_div_mult_self mult_less_cancel2)
  have err: "(\<exists>e. decode_vec cls b = Inl e) \<longleftrightarrow>
      (\<exists>j < length b div ?L. MODULUS cls \<le> from_le_bytes (take ?L (drop (j * ?L) b)))"
    unfolding loop decode_vec_loop_error [of cls b 0 "[]"] by (simp add: idx)
  have ok: "\<exists>vec. decode_vec cls b = Inr vec \<and> length vec = length b div ?L
      \<and> (\<forall>y\<in>set vec. is_elem cls y)" if "\<nexists>e. decode_vec cls b = Inl e"
  proof -
    from that obtain out where out: "decode_vec_loop cls b 0 [] = Inr out"
      unfolding loop by (cases "decode_vec_loop cls b 0 []") auto
    from decode_vec_loop_result [OF out] dv
    have "length out = length b div ?L \<and> (\<forall>y\<in>set out. is_elem cls y)" by auto
    with out show ?thesis unfolding loop by simp
  qed
  from True err ok show ?thesis by simp
qed

text \<open>
  C5. \<open>decode_vec\<close> raises if and only if the length of the input is not a multiple
  of \<open>ENCODED_SIZE\<close> or some \<open>ENCODED_SIZE\<close>-byte chunk decodes, little-endian, to
  an integer that is at least \<open>MODULUS\<close>; otherwise it returns
  \<open>len(b) / ENCODED_SIZE\<close> field elements.
\<close>

theorem decode_vec_raises_iff:
  "((\<exists>e. decode_vec cls b = Inl e) \<longleftrightarrow>
      (length b mod ENCODED_SIZE cls \<noteq> 0 \<or>
       (\<exists>j < length b div ENCODED_SIZE cls.
          MODULUS cls \<le> from_le_bytes (take (ENCODED_SIZE cls) (drop (j * ENCODED_SIZE cls) b)))))
   \<and> ((\<nexists>e. decode_vec cls b = Inl e) \<longrightarrow>
      (\<exists>vec. decode_vec cls b = Inr vec \<and> length vec = length b div ENCODED_SIZE cls
          \<and> (\<forall>y\<in>set vec. is_elem cls y)))"
  by (rule decode_vec_outcome)

theorem decode_vec_raises_iff_witness:
  "(1::nat) < length [1, 2 :: byte] div ENCODED_SIZE Field2
   \<and> MODULUS Field2 \<le> from_le_bytes (take (ENCODED_SIZE Field2) (drop (1 * ENCODED_SIZE Field2) [1, 2]))
   \<and> (\<exists>e. decode_vec Field2 [1, 2] = Inl e)
   \<and> (\<nexists>e. decode_vec Field2 [1, 0, 1] = Inl e)
   \<and> (\<exists>vec. decode_vec Field2 [1, 0, 1] = Inr vec \<and> length vec = 3)"
proof -
  have a: "\<nexists>e. decode_vec Field2 [1, 0, 1] = Inl e"
    by (simp add: decode_vec_def decode_vec_loop.simps Field_init_def gf_def)
  have b: "(1::nat) < length [1, 2 :: byte] div ENCODED_SIZE Field2
     \<and> MODULUS Field2 \<le> from_le_bytes (take (ENCODED_SIZE Field2) (drop (1 * ENCODED_SIZE Field2) [1, 2]))"
    by simp
  from decode_vec_raises_iff [of Field2 "[1, 0, 1]"] a
  have "\<exists>vec. decode_vec Field2 [1, 0, 1] = Inr vec \<and> length vec = 3"
    by auto
  moreover from decode_vec_raises_iff [of Field2 "[1, 2]"] b
  have "\<exists>e. decode_vec Field2 [1, 2] = Inl e"
    by blast
  ultimately show ?thesis using a b by blast
qed

text \<open>
  C4. For every field class, decoding the encoding of a vector of its elements gives
  the vector back; and encoding the decoding of a byte string whose length is a
  multiple of \<open>ENCODED_SIZE\<close> and whose chunks all decode below \<open>MODULUS\<close> gives
  the byte string back.
\<close>

theorem encode_decode_roundtrip:
  "((\<forall>x\<in>set v. is_elem cls x) \<longrightarrow>
       (\<exists>b. encode_vec cls v = Inr b \<and> decode_vec cls b = Inr v))
   \<and> (length b mod ENCODED_SIZE cls = 0 \<and>
        (\<forall>j < length b div ENCODED_SIZE cls.
           from_le_bytes (take (ENCODED_SIZE cls) (drop (j * ENCODED_SIZE cls) b)) < MODULUS cls) \<longrightarrow>
       (\<exists>v. decode_vec cls b = Inr v \<and> encode_vec cls v = Inr b))"
proof (intro conjI impI)
  let ?L = "ENCODED_SIZE cls"
  assume v: "\<forall>x\<in>set v. is_elem cls x"
  let ?b = "concat (map (\<lambda>x. le_digits x ?L) v)"
  have "encode_vec cls v = Inr ?b"
    using encode_vec_loop_elems [OF v, of "[]"] by (simp add: encode_vec_def)
  moreover have "decode_vec cls ?b = Inr v"
    using decode_vec_loop_encoded [OF v, of "[]" "[]"] ENCODED_SIZE_pos [of cls]
    by (simp add: decode_vec_def length_concat_le_digits)
  ultimately show "\<exists>b. encode_vec cls v = Inr b \<and> decode_vec cls b = Inr v"
    by blast
next
  let ?L = "ENCODED_SIZE cls"
  assume b: "length b mod ?L = 0 \<and>
        (\<forall>j < length b div ?L. from_le_bytes (take ?L (drop (j * ?L) b)) < MODULUS cls)"
  then have "\<nexists>e. decode_vec cls b = Inl e"
    using decode_vec_outcome [of cls b] by (auto simp: not_le)
  then obtain out where out: "decode_vec cls b = Inr out"
    by (cases "decode_vec cls b") auto
  then have loop: "decode_vec_loop cls b 0 [] = Inr out"
    using b ENCODED_SIZE_pos [of cls] by (simp add: decode_vec_def)
  from b have "?L dvd length b" by (simp add: dvd_eq_mod_eq_0)
  with decode_vec_loop_result [OF loop] have "encode_vec_loop cls [] out = Inr b"
    by auto
  with out show "\<exists>v. decode_vec cls b = Inr v \<and> encode_vec cls v = Inr b"
    by (simp add: encode_vec_def)
qed

theorem encode_decode_roundtrip_witness:
  "is_elem Field64 1 \<and> is_elem Field64 18446744069414584320
   \<and> encode_vec Field64 [1, 18446744069414584320]
        = Inr [1, 0, 0, 0, 0, 0, 0, 0, 0, 0, 0, 0, 255, 255, 255, 255]
   \<and> (\<exists>b. encode_vec Field64 [1, 18446744069414584320] = Inr b
          \<and> decode_vec Field64 b = Inr [1, 18446744069414584320])
   \<and> length [1, 0 :: byte] mod ENCODED_SIZE Field2 = 0
   \<and> from_le_bytes (take (ENCODED_SIZE Field2) (drop (0 * ENCODED_SIZE Field2) [1, 0 :: byte]))
        < MODULUS Field2
   \<and> from_le_bytes (take (ENCODED_SIZE Field2) (drop (1 * ENCODED_SIZE Field2) [1, 0 :: byte]))
        < MODULUS Field2
   \<and> (\<exists>v. decode_vec Field2 [1, 0] = Inr v \<and> encode_vec Field2 v = Inr [1, 0])"
proof -
  have a: "\<forall>x\<in>set [1, 18446744069414584320]. is_elem Field64 x"
    by (simp add: is_elem_def)
  have b: "length [1, 0 :: byte] mod ENCODED_SIZE Field2 = 0 \<and>
      (\<forall>j < length [1, 0 :: byte] div ENCODED_SIZE Field2.
         from_le_bytes (take (ENCODED_SIZE Field2) (drop (j * ENCODED_SIZE Field2) [1, 0]))
           < MODULUS Field2)"
    by (simp add: less_Suc_eq numeral_2_eq_2)
  have c: "encode_vec Field64 [1, 18446744069414584320]
        = Inr [1, 0, 0, 0, 0, 0, 0, 0, 0, 0, 0, 0, 255, 255, 255, 255]"
    by (simp add: encode_vec_def to_le_bytes_def as_unsigned_def gf_def numeral_eq_Suc)
  from encode_decode_roundtrip [of "[1, 18446744069414584320]" Field64 "[]"] a
  have "\<exists>b. encode_vec Field64 [1, 18446744069414584320] = Inr b
          \<and> decode_vec Field64 b = Inr [1, 18446744069414584320]"
    by blast
  moreover from encode_decode_roundtrip [of "[]" Field2 "[1, 0]"] b
  have "\<exists>v. decode_vec Field2 [1, 0] = Inr v \<and> encode_vec Field2 v = Inr [1, 0]"
    by blast
  ultimately show ?thesis using a c by simp
qed

section \<open>The bit-vector codec\<close>

lemma Field_init_bit: "Field_init cls (drop_bit l val AND 1) = Inr (drop_bit l val AND 1)"
proof -
  have "0 \<le> drop_bit l val AND 1" "drop_bit l val AND 1 < 2"
    by (simp_all add: and_one_eq)
  with MODULUS_gt_1 [of cls] have "is_elem cls (drop_bit l val AND 1)"
    by (simp add: is_elem_def)
  then show ?thesis by (rule Field_init_elem)
qed

lemma encode_bits_loop_result:
  "encode_bits_loop cls val ls encoded = Inr (encoded @ map (\<lambda>l. drop_bit l val AND 1) ls)"
  by (induction ls arbitrary: encoded) (simp_all add: Field_init_bit)

lemma Field_mul_result: "Field_mul cls a b = Inr ((a * b) mod MODULUS cls)"
  using MODULUS_gt_1 [of cls] by (simp add: Field_mul_def Field_init_def gf_def)

lemma Field_add_result: "Field_add cls a b = Inr ((a + b) mod MODULUS cls)"
  using MODULUS_gt_1 [of cls] by (simp add: Field_add_def Field_init_def gf_def)

lemma decode_bits_loop_result:
  assumes "\<forall>k<length vec. 2 ^ (l + k) < MODULUS cls"
    and "0 \<le> decoded" and "decoded < MODULUS cls"
  shows "decode_bits_loop cls l vec decoded
           = Inr ((decoded + (\<Sum>k<length vec. 2 ^ (l + k) * vec ! k)) mod MODULUS cls)"
  using assms
proof (induction vec arbitrary: l decoded)
  case Nil
  then show ?case by simp
next
  case (Cons b vec)
  let ?M = "MODULUS cls"
  have M: "1 < ?M" by (rule MODULUS_gt_1)
  from Cons.prems(1) have "2 ^ (l + 0) < ?M" by blast
  then have w: "Field_init cls (2 ^ l) = Inr (2 ^ l)"
    by (simp add: Field_init_def gf_def)
  let ?d = "(decoded + (2 ^ l * b) mod ?M) mod ?M"
  have rest: "\<forall>k<length vec. 2 ^ (Suc l + k) < ?M"
    using Cons.prems(1) by auto
  have d: "0 \<le> ?d" "?d < ?M" using M by simp_all
  have "decode_bits_loop cls l (b # vec) decoded = decode_bits_loop cls (Suc l) vec ?d"
    by (simp add: w Field_mul_result Field_add_result)
  also have "\<dots> = Inr ((?d + (\<Sum>k<length vec. 2 ^ (Suc l + k) * vec ! k)) mod ?M)"
    by (rule Cons.IH [OF rest d])
  also have "(?d + (\<Sum>k<length vec. 2 ^ (Suc l + k) * vec ! k)) mod ?M
      = (decoded + 2 ^ l * b + (\<Sum>k<length vec. 2 ^ (Suc l + k) * vec ! k)) mod ?M"
    by (simp add: mod_simps)
  also have "decoded + 2 ^ l * b + (\<Sum>k<length vec. 2 ^ (Suc l + k) * vec ! k)
      = decoded + (\<Sum>k<length (b # vec). 2 ^ (l + k) * (b # vec) ! k)"
    by (simp add: sum.lessThan_Suc_shift del: sum.lessThan_Suc)
  finally show ?case .
qed

lemma bit_sum_take_bit:
  "(\<Sum>k<n. 2 ^ k * (drop_bit k (v::int) AND 1)) = take_bit n v"
proof -
  have "drop_bit k v AND 1 = of_bool (bit v k)" for k
    by (simp add: and_one_eq bit_iff_odd_drop_bit mod_2_eq_odd)
  then have "(\<Sum>k<n. 2 ^ k * (drop_bit k v AND 1)) = (\<Sum>k = 0..<n. push_bit k (of_bool (bit v k)))"
    by (simp add: push_bit_eq_mult lessThan_atLeast0 mult.commute)
  then show ?thesis by (simp add: take_bit_sum)
qed

text \<open>
  C6. For \<open>0 \<le> v < 2^bits\<close> and \<open>MODULUS > 2^bits\<close>, \<open>encode_into_bit_vector\<close>
  succeeds and returns \<open>bits\<close> elements, the \<open>l\<close>-th being the field element of
  bit \<open>l\<close> of \<open>v\<close>, and \<open>decode_from_bit_vector\<close> maps the result to \<open>Field(v)\<close>.
\<close>

theorem bit_vector_roundtrip:
  assumes "0 \<le> v" and "v < 2 ^ bits" and "2 ^ bits < MODULUS cls"
  shows "\<exists>vec. encode_into_bit_vector cls v bits = Inr vec \<and> length vec = bits
           \<and> (\<forall>l<bits. Field_init cls (drop_bit l v AND 1) = Inr (vec ! l))
           \<and> decode_from_bit_vector cls vec = Field_init cls v
           \<and> Field_init cls v = Inr v"
proof -
  let ?M = "MODULUS cls"
  let ?vec = "map (\<lambda>l. drop_bit l v AND 1) [0..<bits]"
  have enc: "encode_into_bit_vector cls v bits = Inr ?vec"
    using assms(2) by (simp add: encode_into_bit_vector_def encode_bits_loop_result)
  have el: "is_elem cls v"
    using assms by (simp add: is_elem_def)
  have init: "Field_init cls v = Inr v"
    using el by (rule Field_init_elem)
  have pw: "\<forall>k<length ?vec. 2 ^ (0 + k) < ?M"
  proof (intro allI impI)
    fix k assume "k < length ?vec"
    then have "(2::int) ^ (0 + k) \<le> 2 ^ bits" by (simp add: power_increasing)
    then show "2 ^ (0 + k) < ?M" using assms(3) by (rule le_less_trans)
  qed
  have nz: "drop_bit (length ?vec) ?M \<noteq> 0"
  proof -
    have "0 < ?M div 2 ^ bits"
      using assms(3) by (simp add: pos_imp_zdiv_pos_iff)
    then show ?thesis by (simp add: drop_bit_eq_div)
  qed
  have "decode_bits_loop cls 0 ?vec 0
      = Inr ((0 + (\<Sum>k<length ?vec. 2 ^ (0 + k) * ?vec ! k)) mod ?M)"
    using MODULUS_gt_1 [of cls] by (intro decode_bits_loop_result [OF pw]) simp_all
  also have "(\<Sum>k<length ?vec. 2 ^ (0 + k) * ?vec ! k) = (\<Sum>k<bits. 2 ^ k * (drop_bit k v AND 1))"
    by simp
  also have "\<dots> = v"
    using assms(1,2) by (simp add: bit_sum_take_bit take_bit_int_eq_self)
  finally have "decode_bits_loop cls 0 ?vec 0 = Inr v"
    using el by (simp add: is_elem_def)
  moreover have "Field_init cls 0 = Inr 0"
    using MODULUS_gt_1 [of cls] by (simp add: Field_init_def gf_def)
  ultimately have dec: "decode_from_bit_vector cls ?vec = Field_init cls v"
    using nz unfolding init by (simp add: decode_from_bit_vector_def)
  have bits: "\<forall>l<bits. Field_init cls (drop_bit l v AND 1) = Inr (?vec ! l)"
    by (simp add: Field_init_bit)
  from enc dec init bits show ?thesis by simp
qed

theorem bit_vector_roundtrip_witness:
  "(0::int) \<le> 11 \<and> (11::int) < 2 ^ 4 \<and> 2 ^ 4 < MODULUS Field64
   \<and> encode_into_bit_vector Field64 11 4 = Inr [1, 1, 0, 1]
   \<and> decode_from_bit_vector Field64 [1, 1, 0, 1] = Inr 11
   \<and> (\<exists>vec. encode_into_bit_vector Field64 11 4 = Inr vec \<and> length vec = 4
          \<and> decode_from_bit_vector Field64 vec = Field_init Field64 11)"
proof -
  have e: "encode_into_bit_vector Field64 11 4 = Inr [1, 1, 0, 1]"
    by (simp add: encode_into_bit_vector_def upt_rec Field_init_def gf_def drop_bit_eq_div)
  have d: "decode_from_bit_vector Field64 [1, 1, 0, 1] = Inr 11"
    by (simp add: decode_from_bit_vector_def Field_init_def Field_mul_def Field_add_def gf_def
        drop_bit_eq_div)
  from bit_vector_roundtrip [of 11 4 Field64]
  have "\<exists>vec. encode_into_bit_vector Field64 11 4 = Inr vec \<and> length vec = 4
          \<and> decode_from_bit_vector Field64 vec = Field_init Field64 11"
    by auto
  with e d show ?thesis by simp
qed

section \<open>Polynomial evaluation and interpolation\<close>

text \<open>
  C3. On the non-empty all-zero polynomial \<open>[Field64(0)]\<close> the test \<open>len(p) == 0\<close>
  fails, \<open>poly_strip\<close> returns the empty list and \<open>p[-1]\<close> raises: \<open>poly_eval\<close> does
  not return the field zero.
\<close>

theorem poly_eval_all_zero_raises: "poly_eval Field64 [0] 5 = Inl IndexError"
  by (simp add: poly_eval_def poly_strip_def Field_init_def gf_def Field_eq_def)

text \<open>
  C2. The points \<open>(0, 0)\<close> and \<open>(1, 1)\<close> over \<open>Field64\<close> are interpolated by the
  polynomial \<open>x\<close>, with coefficients \<open>[0, 1]\<close>. \<open>coefficients()\<close> drops the zero
  constant term, so \<open>poly_interp\<close> returns \<open>[1]\<close>, the constant polynomial 1, whose
  value at \<open>xs[0] = 0\<close> is 1 and not \<open>ys[0] = 0\<close>.
\<close>

theorem poly_interp_drops_zero_coefficient:
  "poly_interp Field64 [0, 1] [0, 1] = Inr [1] \<and> poly_eval Field64 [1] 0 = Inr 1"
  by (simp add: poly_interp_def lagrange_polynomial_def lagrange_numerator_def
      lagrange_denominator_def gf_poly_mul_linear_def gf_poly_scale_def coefficients_def
      gf_inv_def gf_def upt_rec poly_strip_def poly_eval_def Field_init_def Field_eq_def
      bezw.simps numeral_2_eq_2)

section \<open>Prime numbers\<close>

lemma prime_nat_gt_1: "prime_nat p \<Longrightarrow> 1 < p"
  by (simp add: prime_nat_def)

lemma prime_nat_coprime:
  assumes "prime_nat p" and "\<not> p dvd a"
  shows "coprime p a"
proof -
  have "gcd p a dvd p" by simp
  with assms(1) have "gcd p a = 1 \<or> gcd p a = p"
    by (simp add: prime_nat_def)
  moreover have "gcd p a \<noteq> p"
  proof
    assume "gcd p a = p"
    then have "p dvd a" by (metis gcd_dvd2)
    with assms(2) show False ..
  qed
  ultimately show ?thesis by (simp add: coprime_iff_gcd_eq_1)
qed

lemma prime_nat_dvd_mult:
  assumes "prime_nat p" and "p dvd a * b"
  shows "p dvd a \<or> p dvd b"
proof (cases "p dvd a")
  case False
  with assms(1) have "coprime p a" by (rule prime_nat_coprime)
  with assms(2) show ?thesis by (simp add: coprime_dvd_mult_right_iff)
qed simp

lemma prime_factor_exists: "1 < n \<Longrightarrow> \<exists>p. prime_nat p \<and> p dvd n"
proof (induction n rule: less_induct)
  case (less n)
  show ?case
  proof (cases "prime_nat n")
    case True
    then have "prime_nat n \<and> n dvd n" by simp
    then show ?thesis ..
  next
    case False
    with less.prems obtain d where d: "d dvd n" "d \<noteq> 1" "d \<noteq> n"
      by (auto simp: prime_nat_def)
    from d(1) less.prems have "d \<noteq> 0" by (auto intro: ccontr)
    with d(2) have "1 < d" by simp
    moreover from d(1,3) less.prems have "d < n"
      by (metis dvd_imp_le le_neq_implies_less less_trans zero_less_one)
    ultimately obtain p where "prime_nat p" "p dvd d"
      using less.IH by blast
    with d(1) show ?thesis by (blast intro: dvd_trans)
  qed
qed

lemma composite_small_factor:
  assumes "1 < n" and "\<not> prime_nat n"
  shows "\<exists>p. prime_nat p \<and> p dvd n \<and> p * p \<le> n"
proof -
  from assms obtain d where d: "d dvd n" "d \<noteq> 1" "d \<noteq> n"
    by (auto simp: prime_nat_def)
  then obtain e where n: "n = d * e" by (auto simp: dvd_def)
  with assms(1) d have "1 < d" "1 < e"
    by (cases d; cases e; auto)+
  show ?thesis
  proof (cases "d \<le> e")
    case True
    from \<open>1 < d\<close> obtain p where p: "prime_nat p" "p dvd d"
      using prime_factor_exists by blast
    have "p \<le> d" by (rule dvd_imp_le [OF p(2)]) (use \<open>1 < d\<close> in simp)
    then have "p * p \<le> d * d" by (simp add: mult_le_mono)
    also have "\<dots> \<le> d * e" using True by simp
    finally have "p * p \<le> n" by (simp add: n)
    moreover have "p dvd n" using p(2) by (simp add: n)
    ultimately show ?thesis using p(1) by blast
  next
    case False
    from \<open>1 < e\<close> obtain p where p: "prime_nat p" "p dvd e"
      using prime_factor_exists by blast
    have "p \<le> e" by (rule dvd_imp_le [OF p(2)]) (use \<open>1 < e\<close> in simp)
    then have "p * p \<le> e * e" by (simp add: mult_le_mono)
    also have "\<dots> \<le> d * e" using False by simp
    finally have "p * p \<le> n" by (simp add: n)
    moreover have "p dvd n" using p(2) by (simp add: n)
    ultimately show ?thesis using p(1) by blast
  qed
qed

text \<open>Fermat's little theorem.\<close>

lemma mod_cancel_coprime:
  fixes p :: nat
  assumes "(x * w) mod p = (y * w) mod p" and "coprime w p"
  shows "x mod p = y mod p"
proof -
  have *: "x mod p = y mod p" if le: "y \<le> x" and eq: "(x * w) mod p = (y * w) mod p"
    for x y :: nat
  proof -
    from le have "y * w \<le> x * w" by simp
    with eq have "p dvd x * w - y * w"
      by (simp add: mod_eq_dvd_iff_nat)
    then have "p dvd (x - y) * w" by (simp add: diff_mult_distrib)
    with assms(2) have "p dvd x - y"
      by (simp add: coprime_dvd_mult_left_iff coprime_commute)
    with le show ?thesis by (simp add: mod_eq_dvd_iff_nat)
  qed
  show ?thesis
  proof (cases "y \<le> x")
    case True
    then show ?thesis using assms(1) by (rule *)
  next
    case False
    then have "x \<le> y" by simp
    then have "y mod p = x mod p" using assms(1) [symmetric] by (rule *)
    then show ?thesis by simp
  qed
qed

lemma fermat_little:
  assumes p: "prime_nat p" and a: "\<not> p dvd a"
  shows "a ^ (p - 1) mod p = 1"
proof -
  let ?S = "{1..<p}"
  let ?f = "\<lambda>x. (a * x) mod p"
  have p1: "1 < p" using p by (rule prime_nat_gt_1)
  have cop_a: "coprime a p"
    using prime_nat_coprime [OF p a] by (simp add: coprime_commute)
  have ndvd: "\<not> p dvd x" if "x \<in> ?S" for x
    using that by (auto dest: dvd_imp_le)
  have cop: "coprime x p" if "x \<in> ?S" for x
    using prime_nat_coprime [OF p ndvd [OF that]] by (simp add: coprime_commute)
  have inj: "inj_on ?f ?S"
  proof (rule inj_onI)
    fix x y assume x: "x \<in> ?S" and y: "y \<in> ?S" and "?f x = ?f y"
    then have "(x * a) mod p = (y * a) mod p" by (simp add: mult.commute)
    then have "x mod p = y mod p" using cop_a by (rule mod_cancel_coprime)
    with x y show "x = y" by simp
  qed
  have "?f ` ?S \<subseteq> ?S"
  proof
    fix y assume "y \<in> ?f ` ?S"
    then obtain x where x: "x \<in> ?S" and y: "y = (a * x) mod p" by blast
    have "\<not> p dvd a * x"
      using prime_nat_dvd_mult [OF p, of a x] a ndvd [OF x] by blast
    then have "y \<noteq> 0" by (simp add: y dvd_eq_mod_eq_0)
    moreover have "y < p" using p1 by (simp add: y)
    ultimately show "y \<in> ?S" by simp
  qed
  moreover have "card (?f ` ?S) = card ?S"
    using inj by (rule card_image)
  ultimately have img: "?f ` ?S = ?S"
    by (intro card_subset_eq) simp_all
  have "(\<Prod>x\<in>?S. ?f x) = (\<Prod>y\<in>?f ` ?S. y)"
    using inj by (simp add: prod.reindex)
  also have "\<dots> = \<Prod>?S" by (simp only: img)
  finally have "(\<Prod>x\<in>?S. ?f x) mod p = \<Prod>?S mod p" by simp
  moreover have "(\<Prod>x\<in>?S. ?f x) mod p = (\<Prod>x\<in>?S. a * x) mod p"
    by (rule mod_prod_eq)
  moreover have "(\<Prod>x\<in>?S. a * x) = a ^ (p - 1) * \<Prod>?S"
    by (simp add: prod.distrib)
  ultimately have "(a ^ (p - 1) * \<Prod>?S) mod p = (1 * \<Prod>?S) mod p"
    by simp
  moreover have "coprime (\<Prod>?S) p"
    by (rule prod_coprime_left) (simp add: cop)
  ultimately have "a ^ (p - 1) mod p = 1 mod p"
    by (rule mod_cancel_coprime)
  with p1 show ?thesis by simp
qed

section \<open>Pocklington's criterion\<close>

text \<open>
  If \<open>n - 1 = F * R\<close>, if for every prime \<open>q\<close> dividing \<open>F\<close> some \<open>a\<close> has
  \<open>a ^ (n - 1) = 1\<close> modulo \<open>n\<close> and \<open>a ^ ((n - 1) div q) - 1\<close> coprime to \<open>n\<close>, and if
  \<open>n < (F + 1)\<^sup>2\<close>, then \<open>n\<close> is prime.
\<close>

text \<open>The least positive exponent with power 1 divides every such exponent.\<close>

lemma power_one_order:
  fixes P a m :: nat
  assumes "0 < m" and "a ^ m mod P = 1"
  obtains d where "0 < d" and "a ^ d mod P = 1" and "\<And>k. a ^ k mod P = 1 \<Longrightarrow> d dvd k"
proof -
  define d where "d = (LEAST k. 0 < k \<and> a ^ k mod P = 1)"
  have d: "0 < d \<and> a ^ d mod P = 1"
    unfolding d_def by (rule LeastI [of _ m]) (use assms in simp)
  have least: "d \<le> k" if "0 < k" "a ^ k mod P = 1" for k
    unfolding d_def by (rule Least_le) (use that in simp)
  have "d dvd k" if k: "a ^ k mod P = 1" for k
  proof -
    have "a ^ k = (a ^ d) ^ (k div d) * a ^ (k mod d)"
      by (simp flip: power_mult power_add)
    then have "a ^ k mod P = ((a ^ d mod P) ^ (k div d) mod P * (a ^ (k mod d) mod P)) mod P"
      by (simp add: mod_mult_eq power_mod)
    also have "\<dots> = a ^ (k mod d) mod P"
      using d by (simp add: mod_mult_eq)
    finally have "a ^ (k mod d) mod P = 1" using k by simp
    moreover have "k mod d < d" using d by simp
    ultimately have "k mod d = 0"
      using least [of "k mod d"] by (cases "k mod d = 0") simp_all
    then show ?thesis by (simp add: dvd_eq_mod_eq_0)
  qed
  with d that show thesis by blast
qed

lemma pocklington_step:
  fixes n q a c :: nat
  assumes q: "prime_nat q" and n: "1 < n" and qe: "n - 1 = q ^ e * R" and e: "0 < e"
    and m: "n - 1 = q * m" and c: "a ^ m mod n = c" and one: "a ^ (n - 1) mod n = 1"
    and cop: "coprime (c - 1) n"
  shows "prime_divisors_cong n (q ^ e)"
  unfolding prime_divisors_cong_def
proof (intro allI impI)
  fix P assume "prime_nat P \<and> P dvd n"
  then have P: "prime_nat P" and Pn: "P dvd n" by simp_all
  have P1: "1 < P" using P by (rule prime_nat_gt_1)
  let ?N = "n - 1"
  have N0: "0 < ?N" using n by simp
  have mod_P: "x mod n mod P = x mod P" for x
    using Pn by (rule mod_mod_cancel)
  have aN: "a ^ ?N mod P = 1"
    using mod_P [of "a ^ ?N"] one P1 by simp
  have "\<not> P dvd a"
  proof
    assume "P dvd a"
    moreover from N0 obtain N' where "?N = Suc N'" by (cases ?N) simp_all
    ultimately have "P dvd a ^ ?N" by simp
    then have "a ^ ?N mod P = 0" by simp
    with aN show False by simp
  qed
  with P have fermat: "a ^ (P - 1) mod P = 1" by (rule fermat_little)
  from N0 aN obtain d where d: "0 < d" "a ^ d mod P = 1"
      and d_dvd: "\<And>k. a ^ k mod P = 1 \<Longrightarrow> d dvd k"
    by (rule power_one_order) blast
  from d_dvd [OF aN] obtain k where k: "?N = d * k" by (auto simp: dvd_def)
  have "\<not> q dvd k"
  proof
    assume "q dvd k"
    then obtain k' where k': "k = q * k'" by (auto simp: dvd_def)
    have q0: "0 < q" using prime_nat_gt_1 [OF q] by simp
    have "q * m = q * (d * k')" using m k k' by (simp add: mult_ac)
    with q0 have "m = d * k'" by simp
    then have "a ^ m mod P = (a ^ d mod P) ^ k' mod P"
      by (simp add: power_mult power_mod)
    then have "a ^ m mod P = 1" using d(2) P1 by simp
    then have cP: "c mod P = 1" using mod_P [of "a ^ m"] c by simp
    then have "1 \<le> c" by (cases c) simp_all
    with cP P1 have "P dvd c - 1"
      by (simp add: mod_eq_dvd_iff_nat [symmetric])
    with cop have "is_unit P"
      using Pn by (rule coprime_common_divisor)
    with P1 show False by simp
  qed
  with q have "coprime q k" by (rule prime_nat_coprime)
  then have "coprime (q ^ e) k" by simp
  moreover have "q ^ e dvd d * k" using qe k by (metis dvd_triv_left)
  ultimately have "q ^ e dvd d" by (simp add: coprime_dvd_mult_left_iff)
  moreover have "d dvd P - 1" using fermat by (rule d_dvd)
  ultimately show "q ^ e dvd P - 1" by (rule dvd_trans)
qed

lemma prime_divisors_cong_mult:
  assumes "prime_divisors_cong n F" and "prime_divisors_cong n G" and "coprime F G"
  shows "prime_divisors_cong n (F * G)"
  using assms unfolding prime_divisors_cong_def by (blast intro: divides_mult)

lemma pocklington:
  assumes "1 < n" and "prime_divisors_cong n F" and "n < (F + 1) * (F + 1)"
  shows "prime_nat n"
proof (rule ccontr)
  assume "\<not> prime_nat n"
  with assms(1) obtain P where P: "prime_nat P" "P dvd n" "P * P \<le> n"
    using composite_small_factor by blast
  from assms(2) P(1,2) have "F dvd P - 1"
    by (simp add: prime_divisors_cong_def)
  moreover have "0 < P - 1" using prime_nat_gt_1 [OF P(1)] by simp
  ultimately have "F \<le> P - 1" by (rule dvd_imp_le)
  then have le: "F + 1 \<le> P" using \<open>0 < P - 1\<close> by simp
  from le le have "(F + 1) * (F + 1) \<le> P * P" by (rule mult_le_mono)
  with P(3) assms(3) show False by simp
qed

lemma bezout_coprime:
  fixes x n :: nat
  assumes "u * x = v * n + 1"
  shows "coprime x n"
proof (rule coprimeI)
  fix d assume "d dvd x" "d dvd n"
  then have "d dvd u * x" "d dvd v * n" by simp_all
  with assms have "d dvd 1" by (metis dvd_add_right_iff)
  then show "is_unit d" by simp
qed

lemma prime_nat_coprime_powers:
  assumes "prime_nat p" and "prime_nat q" and "p \<noteq> q"
  shows "coprime (p ^ i) (q ^ j)"
proof -
  have "\<not> p dvd q"
    using assms prime_nat_gt_1 [OF assms(1)] by (auto simp: prime_nat_def)
  with assms(1) have "coprime p q" by (rule prime_nat_coprime)
  then show ?thesis by simp
qed

lemma pocklington_cert:
  fixes n q a c :: nat
  assumes "prime_nat q" and "n = E + 1" and "E = q ^ e * R" and "0 < e" and "E = q * m"
    and "a ^ m mod n = c" and "a ^ E mod n = 1" and "u * (c - 1) = v * n + 1"
  shows "prime_divisors_cong n (q ^ e)"
proof -
  have "1 < n"
  proof (rule ccontr)
    assume "\<not> 1 < n"
    with assms(2) have "n = 1" by simp
    with assms(7) show False by simp
  qed
  moreover have "n - 1 = E" using assms(2) by simp
  moreover have "coprime (c - 1) n" using assms(8) by (rule bezout_coprime)
  ultimately show ?thesis
    using assms(1,3,4,5,6,7) by (intro pocklington_step [where R = R and m = m and a = a and c = c]) simp_all
qed

text \<open>Small primes, by trial division.\<close>

lemma no_divisor_upto_iff:
  "no_divisor_upto n d k \<longleftrightarrow> (\<forall>i. d \<le> i \<and> i < d + k \<longrightarrow> \<not> i dvd n)"
proof (induction k arbitrary: d)
  case 0
  show ?case by auto
next
  case (Suc k)
  have "(\<forall>i. d \<le> i \<and> i < d + Suc k \<longrightarrow> \<not> i dvd n)
      \<longleftrightarrow> \<not> d dvd n \<and> (\<forall>i. Suc d \<le> i \<and> i < Suc d + k \<longrightarrow> \<not> i dvd n)"
    (is "?A \<longleftrightarrow> ?B")
  proof
    assume a: ?A
    then have "\<not> d dvd n" by simp
    moreover have "\<not> i dvd n" if "Suc d \<le> i \<and> i < Suc d + k" for i
      using a that by simp
    ultimately show ?B by blast
  next
    assume b: ?B
    show ?A
    proof (intro allI impI)
      fix i assume i: "d \<le> i \<and> i < d + Suc k"
      show "\<not> i dvd n"
      proof (cases "i = d")
        case True
        with b show ?thesis by simp
      next
        case False
        with i have "Suc d \<le> i \<and> i < Suc d + k" by simp
        with b show ?thesis by blast
      qed
    qed
  qed
  with Suc show ?case by (simp add: dvd_eq_mod_eq_0)
qed

lemma prime_nat_trial:
  assumes "1 < n" and "no_divisor_upto n 2 k" and "n < (k + 2) * (k + 2)"
  shows "prime_nat n"
proof (rule ccontr)
  assume "\<not> prime_nat n"
  with assms(1) obtain P where P: "prime_nat P" "P dvd n" "P * P \<le> n"
    using composite_small_factor by blast
  have "2 \<le> P" using prime_nat_gt_1 [OF P(1)] by simp
  moreover have "P < 2 + k"
  proof (rule ccontr)
    assume "\<not> P < 2 + k"
    then have le: "k + 2 \<le> P" by simp
    from le le have "(k + 2) * (k + 2) \<le> P * P" by (rule mult_le_mono)
    with P(3) assms(3) show False by simp
  qed
  ultimately have "\<not> P dvd n"
    using assms(2) by (simp add: no_divisor_upto_iff)
  with P(2) show False by simp
qed

lemma no_divisor_upto_numeral:
  "no_divisor_upto n d (numeral k)
     = (n mod d \<noteq> 0 \<and> no_divisor_upto n (Suc d) (pred_numeral k))"
  by (simp add: numeral_eq_Suc)

lemma prime_2: "prime_nat 2"
  by (rule prime_nat_trial [of _ 0]) simp_all
lemma prime_3: "prime_nat 3"
  by (rule prime_nat_trial [of _ 0]) simp_all

section \<open>Modular powers by checked runs\<close>

lemma sq_numeral: "sq (numeral k) = numeral (Num.sqr k)"
  by (simp add: sq_def numeral_sqr)

lemma pw_step:
  fixes M N :: nat
  assumes "t + q * N = q * M + y" and "N \<le> M"
  shows "t mod (M - N) = y mod (M - N)"
proof -
  from assms(2) have "q * M = q * (M - N) + q * N"
    by (simp flip: distrib_left)
  with assms(1) have "t = q * (M - N) + y" by simp
  then show ?thesis by simp
qed

lemma sq_mod_power:
  assumes "x mod p = a ^ n mod p"
  shows "sq x mod p = a ^ (2 * n) mod p"
proof -
  have "sq x mod p = ((x mod p) * (x mod p)) mod p"
    by (simp add: sq_def mod_mult_eq)
  also have "\<dots> = ((a ^ n mod p) * (a ^ n mod p)) mod p"
    by (simp only: assms)
  also have "\<dots> = (a ^ n * a ^ n) mod p"
    by (simp add: mod_mult_eq)
  also have "\<dots> = a ^ (2 * n) mod p"
    by (simp add: power_add mult_2)
  finally show ?thesis .
qed

lemma pw_run_sound:
  assumes "pw_run M N a s steps = Some s'" and "N \<le> M" and "pw_ok M N a s"
  shows "pw_ok M N a s'"
  using assms
proof (induction M N a s steps rule: pw_run.induct)
  case (1 M N a x n)
  then show ?case by simp
next
  case (2 M N a x n q y st)
  let ?p = "M - N"
  from "2.prems"(1) have eq: "sq x + q * N = q * M + y"
    and run: "pw_run M N a (y, 2 * n) st = Some s'"
    by (simp_all split: if_splits)
  from "2.prems"(3) have x: "x mod ?p = a ^ n mod ?p" by (simp add: pw_ok_def)
  have "y mod ?p = sq x mod ?p"
    using pw_step [OF eq "2.prems"(2)] by simp
  also have "\<dots> = a ^ (2 * n) mod ?p"
    using x by (rule sq_mod_power)
  finally have "pw_ok M N a (y, 2 * n)" by (simp add: pw_ok_def)
  with "2.IH" eq run "2.prems"(2) show ?case by simp
next
  case (3 M N a x n q y st)
  let ?p = "M - N"
  from "3.prems"(1) have eq: "a * sq x + q * N = q * M + y"
    and run: "pw_run M N a (y, 2 * n + 1) st = Some s'"
    by (simp_all split: if_splits)
  from "3.prems"(3) have x: "x mod ?p = a ^ n mod ?p" by (simp add: pw_ok_def)
  have "y mod ?p = (a * sq x) mod ?p"
    using pw_step [OF eq "3.prems"(2)] by simp
  also have "\<dots> = (a * (sq x mod ?p)) mod ?p"
    by (simp add: mod_mult_right_eq)
  also have "\<dots> = (a * (a ^ (2 * n) mod ?p)) mod ?p"
    by (simp only: sq_mod_power [OF x])
  also have "\<dots> = (a * a ^ (2 * n)) mod ?p"
    by (simp add: mod_mult_right_eq)
  also have "\<dots> = a ^ (2 * n + 1) mod ?p"
    by simp
  finally have "pw_ok M N a (y, 2 * n + 1)" by (simp add: pw_ok_def)
  with "3.IH" eq run "3.prems"(2) show ?case by simp
qed

lemma pw_ok_start: "pw_ok M N a (a, 1)"
  by (simp add: pw_ok_def)

lemma pw_chain:
  assumes "pw_ok M N a s" and "pw_run M N a s steps = Some s'" and "N \<le> M"
  shows "pw_ok M N a s'"
  using assms(2,3,1) by (rule pw_run_sound)

lemma pw_ok_compose:
  assumes "pw_ok M N a (d, E)" and "pw_ok M N d (x, k)"
  shows "pw_ok M N a (x, E * k)"
proof -
  let ?p = "M - N"
  have "x mod ?p = d ^ k mod ?p" using assms(2) by (simp add: pw_ok_def)
  also have "\<dots> = (d mod ?p) ^ k mod ?p" by (simp add: power_mod)
  also have "\<dots> = (a ^ E mod ?p) ^ k mod ?p" using assms(1) by (simp add: pw_ok_def)
  also have "\<dots> = a ^ (E * k) mod ?p" by (simp add: power_mod power_mult)
  finally show ?thesis by (simp add: pw_ok_def)
qed

lemma pw_ok_residue:
  assumes "pw_ok M N a (x, E')" and "E' = E" and "M = N + n * h" and "x = k * n + c" and "c < n"
  shows "a ^ E mod n = c"
proof -
  from assms(3) have p: "M - N = n * h" by simp
  have "a ^ E mod n = a ^ E mod (n * h) mod n"
    by (simp add: mod_mod_cancel)
  also have "\<dots> = x mod (n * h) mod n"
    using assms(1,2) by (simp add: pw_ok_def p)
  also have "\<dots> = x mod n" by (simp add: mod_mod_cancel)
  also have "\<dots> = c" using assms(4,5) by simp
  finally show ?thesis .
qed

lemma sq_one: "sq 1 = 1"
  by (simp add: sq_def)

lemmas pw_eval = pw_run.simps sq_numeral sq_one le0 Num.sqr.simps arith_simps rel_simps if_True if_False
  numeral_plus_one one_plus_numeral mult_1 mult_1_right mult_zero_right add_0_right
  option.inject prod.inject simp_thms

section \<open>The moduli are prime\<close>

text \<open>
  The certificates: for each prime the runs of the powers, their residues, the
  congruence of the prime divisors for each prime power of the factored part, and the
  criterion. The modulus \<open>2^255 - 19\<close> rests on the prime
  \<open>r = (2^255 - 20) div (12 * 65147)\<close>, whose runs are computed modulo \<open>2^255 - 20\<close>.
\<close>

lemma pkp64_d_1:
  "pw_ok 18446744073709551617 4294967296 7 (18446744069414584320, 9223372034707292160)"
  by (rule pw_chain [OF pw_ok_start, where steps = "[(True, 0, 343),
     (True, 0, 823543),
     (True, 0, 4747561509943),
     (True, 8553020, 11074261478625843323),
     (True, 46538016023229720673, 12148266161370408270),
     (True, 56002435508678139577, 7007601668316978083),
     (True, 18634473742308562026, 8125271997680889877),
     (True, 25052676695413524112, 2624486902016877951),
     (True, 2613768603856235308, 8253119735826302939),
     (True, 25847265827672469332, 3543566522599720475),
     (True, 4764962617243911856, 11981551684735969599),
     (True, 54475904345860342852, 10062120588441922115),
     (True, 38419999349886321742, 10485806445487905393),
     (True, 41723620970151811147, 4139485063330164956),
     (True, 6502359206338864843, 12134830135347446949),
     (True, 55878626223541897244, 4326791766630348883),
     (True, 7104120296206835795, 206761543466863628),
     (True, 16222502457426627, 10086585273483141421),
     (True, 38607052533218672533, 1855730417186139594),
     (True, 1306796883947548869, 7626447102712710903),
     (True, 22071042257716239407, 7790920094560990216),
     (True, 23033281637127610743, 5901922255895126089),
     (True, 13217985964617414221, 8935258787870022506),
     (True, 30296508974182092522, 13093775858033092690),
     (True, 65059110649923945754, 11243737384857129666),
     (True, 47973312218535118729, 2063617152444052883),
     (True, 1615982210782367681, 13064848991504552222),
     (True, 64771970039786058224, 16593403251012455084),
     (True, 104483870589968102175, 5859133952941131217),
     (True, 13027022755088247160, 15659105665374529263),
     (True, 93049110738273779291, 1753635133440165772),
     (False, 166708887468903991, 4614640910117430873),
     (False, 1154399424049971884, 9123114210336311365),
     (False, 4511973093009996851, 16116352524544190054),
     (False, 14080361158478670879, 6414415596519834757),
     (False, 2230460144622294524, 1213594585890690845),
     (False, 79841288704448195, 17096174751763063430),
     (False, 15844486704156700236, 5456943929260765144),
     (False, 1614281465338340559, 9713644485405565297),
     (False, 5114988793349933654, 16905767614792059275),
     (False, 15493518941330557636, 5416168637041100469),
     (False, 1590247178281506213, 17654865857378133588),
     (False, 16896981237942002723, 3511170319078647661),
     (False, 668319404399374695, 18146160046829613826),
     (False, 17850473948468743512, 9306717745644682924),
     (False, 4695408299218975106, 12380578893860276750),
     (False, 8309256808156222390, 6115771955107415310),
     (False, 2027602620068516376, 17776499369601055404),
     (False, 17130607366173278638, 16207902636198568418),
     (False, 14240784545824149997, 1532612707718625687),
     (False, 127334216977357403, 17492915097719143606),
     (False, 16588405924890216597, 455906449640507599),
     (False, 11267608529812975, 11353340290879379826),
     (False, 6987592784692205430, 1803076106186727246),
     (False, 176241586724885086, 13797081185216407910),
     (False, 10319406422896923811, 17870292113338400769),
     (False, 17311854006015885313, 549755813888),
     (False, 16384, 70368744161280),
     (False, 268435455, 17293822564807737345),
     (False, 16212958654255595520, 18446744069397807105),
     (False, 18446744069381029889, 281474976710656),
     (False, 4294967296, 18446744069414584320)]"])
    (simp only: pw_eval)+

lemma pkp64_d2_1:
  "pw_ok 18446744073709551617 4294967296 18446744069414584320 (1, 2)"
  by (rule pw_chain [OF pw_ok_start, where steps = "[(False, 18446744069414584319, 1)]"])
    (simp only: pw_eval)+

lemma pkp64_r2: "(7::nat) ^ 9223372034707292160 mod 18446744069414584321 = 18446744069414584320"
  by (rule pw_ok_residue [OF pw_ok_compose [OF pkp64_d_1 pw_ok_start], where h = 1 and k = 0]) simp_all

lemma pkp64_one: "(7::nat) ^ 18446744069414584320 mod 18446744069414584321 = 1"
  by (rule pw_ok_residue [OF pw_ok_compose [OF pkp64_d_1 pkp64_d2_1], where h = 1 and k = 0]) simp_all

lemma pkp64_cong1: "prime_divisors_cong 18446744069414584321 (2 ^ 32)"
  by (rule pocklington_cert [where E = 18446744069414584320 and R = 4294967295 and m = 9223372034707292160 and a = 7
        and c = 18446744069414584320 and u = 9223372034707292160 and v = 9223372034707292159, OF prime_2 _ _ _ _ pkp64_r2 pkp64_one])
    simp_all

lemma prime_p64: "prime_nat 18446744069414584321"
  by (rule pocklington [OF _ pkp64_cong1]) simp_all

lemma pkp96_d_1:
  "pw_ok 79228162514264337593543950337 13669037358618777747456 3 (79228148845226978974766202880, 39614074422613489487383101440)"
  by (rule pw_chain [OF pw_ok_start, where steps = "[(True, 0, 27),
     (True, 0, 2187),
     (True, 0, 14348907),
     (True, 0, 617673396283947),
     (True, 14, 35367189597659789239222856093),
     (True, 47363397413727544204971822028, 65684911959460590042888811279),
     (True, 163370256228648919384904599366, 71678078314091676348652874077),
     (True, 194542482148776516723765404962, 1450447383915115019239710265),
     (True, 79660990853742845748056029, 65704381892429969867869891126),
     (True, 163467121072071721529404990939, 6499964448500986306039948369),
     (True, 1599792691647193992658424455, 38348768431907810264215425628),
     (True, 55685816026712034047459178288, 49988778274274869709439335424),
     (True, 94620838292064587516585761633, 71723348663717126151559914655),
     (True, 194788297537525117076451417097, 58409963150149879178397250618),
     (True, 129186047317603181779207374023, 61559147211018227909636985509),
     (True, 143491751123102618698345835404, 9795121019081631185131368319),
     (True, 3632966206210995464813839475, 44030177971305844411294129808),
     (True, 73407870830304987550876882959, 9723532299068449694376745713),
     (True, 3580056397217840557223007251, 565383413480328939591544976),
     (True, 12103970958470504601968594, 42859601244381044508898202414),
     (True, 69556544445428405158738364728, 46153163239722730149723900820),
     (False, 26885829191764842859768125590, 22372881408535715278168847610),
     (True, 18953332741557217506390316873, 25328943865961917025612625187),
     (False, 8097568941290487941585231969, 23141989920399542722045682280),
     (False, 6759613916034816116194514076, 40283202515066313725279745444),
     (False, 20481816482168195002315890168, 73977460398391530962637583128),
     (True, 207224252747082168741234211765, 6292630871604165891223698187),
     (True, 1499361168854999644957322654, 16950521592921605603059894733),
     (False, 3626491170876459578156826810, 55102891689756267065401101679),
     (True, 114971587125095282773021947820, 18675280042881838304774187703),
     (True, 13206142883435742758739672415, 34233996298771126927060021012),
     (False, 14792299449955900033922226754, 24987100834724104505031425870),
     (False, 7880471994169073642777748958, 77171208508368191098990908902),
     (False, 75167670953362378907637751492, 24248854016905801938530397152),
     (False, 7421692033747833025716034714, 29514064848121205969086900070),
     (False, 10994577515129979897422325614, 60217801065951876886999110966),
     (False, 45768879092484448757571669466, 54757966724559194881552521610),
     (False, 37845575890778492814017677694, 30617258695428089159444755686),
     (False, 11831862080408062728340873186, 56415363390252335219060481730),
     (False, 40171243085227803427524085450, 16985253648973798510983611450),
     (False, 3641367944662739183608208516, 43296845887053430560363167904),
     (False, 23660995379676727038278641622, 11675575328246435086952840234),
     (False, 1720588720454109872402105797, 39611249464160456629400973599),
     (False, 19804212353580415433353509372, 48128598010419588668808112069),
     (False, 29236603154436963856993532948, 64778519404612361004937437573),
     (False, 52964213318314069096804871455, 52025915746795248213616468474),
     (False, 34163311256712518439133801924, 30955655675760019148783745632),
     (False, 12094850533339735649655795809, 60993913882151982914475553695),
     (False, 46956259673956721383226802473, 33089736736120401943597628312),
     (False, 13819970467878968757953095278, 57609540095293041994432873426),
     (False, 41889898456098005931846900772, 25237551194352129340509453344),
     (False, 8039238573298005875210846922, 72321911080658473207626400054),
     (False, 66017683091099693633350767405, 64679939481446825244379309111),
     (False, 52803134142337774415272002291, 38718892352245543581684809950),
     (False, 18921969613519417748231042372, 45801842655639582920559528768),
     (False, 26478074033384991875637373095, 71935751793402704055558711129),
     (False, 65314568893828044594113934413, 71971080949983409864182810788),
     (False, 65378739357244479908603439324, 66683598046411699975651688500),
     (False, 56125282658087617853944367125, 39369777225509231846135562875),
     (False, 19563493295976488716490322354, 23043974590509949800824763751),
     (False, 6702475984456366197175862847, 1206890639775695689931327794),
     (False, 18384690764688219406069266, 24687506895425428127382151090),
     (False, 7692632045490422374974391862, 21062700061322505381700833678),
     (False, 5599491346691505614991069310, 28581948840592688445626325574),
     (False, 10311080233896853567739455000, 74835079150771599506276574476),
     (False, 70685597898323658583108910224, 29908026564444056026375519232),
     (False, 11290053674318291087085308081, 48021578862217324919167088463),
     (False, 29106726208195192518377345730, 43044409499833488785008654239),
     (False, 23385895242975588793398966281, 58063853239002916684928613560),
     (False, 42553197343365378966103216778, 40440904549632481413144736182),
     (False, 20642496191440577910870377630, 73982888847764322716715985094),
     (False, 69084888666944970792800748283, 62220247579223436227439785513),
     (False, 48863431308771340314127828361, 3415402864477301492972965128),
     (False, 147232731001546064635630697, 47478163948837405759010618327),
     (False, 28451706682636754761679913196, 30076485760834844340263161253),
     (False, 11417596004784069509565978691, 8914072760495216918451721238),
     (False, 1002935122649780896827319226, 12284163262503251170392362538),
     (False, 1904634517646254211581892698, 55347364577436725676585338506),
     (False, 38664676763456211113270852498, 72570340443352259709312665298),
     (False, 66472010122969330896009634328, 2820553221824003454703329836),
     (False, 100412802685608101982774661, 12009874488622058374575788555),
     (False, 1820528276057839105864363289, 62724240327865526966806552416),
     (False, 49658238669612081023988643555, 21220171641980285138632355101),
     (False, 5683531561424735803606008468, 25011199341608725140668723893),
     (False, 7895679775728787225523126156, 65096200462229471748215420013),
     (False, 53484971899277808087999238843, 54655079473165785820687213486),
     (False, 37703489930751140884487619867, 44394107931210420406412035369),
     (False, 24875462165069770617941323882, 55177589423018603057964462119),
     (False, 38427836809399735076143574931, 7109353705969920469214393950),
     (False, 637941323295642666496879782, 4827928059179354731317550558),
     (False, 294199595526906619323116863, 73261611155129637180555829061),
     (False, 67744403312141259915376761631, 6842929534790684348929682810),
     (False, 591023333254764269547601684, 31328124933109400694288244496),
     (False, 12387660523809366471894425856, 79228148845226978974766202880)]"])
    (simp only: pw_eval)+

lemma pkp96_d2_1:
  "pw_ok 79228162514264337593543950337 13669037358618777747456 79228148845226978974766202880 (1, 2)"
  by (rule pw_chain [OF pw_ok_start, where steps = "[(False, 79228148845226978974766202879, 1)]"])
    (simp only: pw_eval)+

lemma pkp96_r2: "(3::nat) ^ 39614074422613489487383101440 mod 79228148845226978974766202881 = 79228148845226978974766202880"
  by (rule pw_ok_residue [OF pw_ok_compose [OF pkp96_d_1 pw_ok_start], where h = 1 and k = 0]) simp_all

lemma pkp96_one: "(3::nat) ^ 79228148845226978974766202880 mod 79228148845226978974766202881 = 1"
  by (rule pw_ok_residue [OF pw_ok_compose [OF pkp96_d_1 pkp96_d2_1], where h = 1 and k = 0]) simp_all

lemma pkp96_cong1: "prime_divisors_cong 79228148845226978974766202881 (2 ^ 64)"
  by (rule pocklington_cert [where E = 79228148845226978974766202880 and R = 4294966555 and m = 39614074422613489487383101440 and a = 3
        and c = 79228148845226978974766202880 and u = 39614074422613489487383101440 and v = 39614074422613489487383101439, OF prime_2 _ _ _ _ pkp96_r2 pkp96_one])
    simp_all

lemma prime_p96: "prime_nat 79228148845226978974766202881"
  by (rule pocklington [OF _ pkp96_cong1]) simp_all

lemma pkp128_d_1:
  "pw_ok 340282366920938463463374607431768211457 516508834063867445248 7 (134362479177651918469895907702663350227, 1208925819614629172871168)"
  by (rule pw_chain [OF pw_ok_start, where steps = "[(True, 0, 343),
     (True, 0, 823543),
     (True, 0, 4747561509943),
     (True, 0, 157775382034845806615042743),
     (True, 512079129490058, 138168539492013749092024080976370898221),
     (True, 392714492809854447846066149008860273941, 246241336917393361962797664460850694218),
     (True, 1247327552963307824465644964868548202861, 182458411037157256602083705475904496719),
     (True, 684835668730298221895786307988794309268, 218702484336427975043156181756662429715),
     (True, 983934135682881304057750058753994669787, 208028010678886735333778400311962041092),
     (True, 890230003188757786986613561317526970952, 206933595511710413427982725743189706280),
     (True, 880887814940683005616222341688049429626, 240593502353296461443580127797875760966),
     (True, 1190765884488288723502010241203224516805, 80344894333325735970010028501688129847),
     (True, 132792994027021576263928254253882846187, 4988341338905565521217153143331608780),
     (True, 511883253811119362186573843447008531, 205963612852967891047675372996952089821),
     (True, 872649004481397807303632241981764648700, 153817092168911059657867594575046905987),
     (True, 486707220246809853571553583019929470085, 217271256288780513073757622140470751418),
     (True, 971098193112989411334469619891246832380, 299439384306622640238709346616652027648),
     (True, 1844490561755534557980702010255542043391, 97102712410001453670787433565870308609),
     (True, 193964083119802827680822062626009007989, 48260032540800130381035766825194360466),
     (True, 47910843378086403564185775566760140276, 198145608584774050960965010974485426408),
     (True, 807657998552326019750818698906327394030, 152866173770254727630847319227834144978),
     (True, 480708039803042506539470486183499892795, 243473399038802856953214805444399779233),
     (True, 1219443358265366603290893549189556161486, 15743216350342741770808917037630451449),
     (True, 5098536380461322553224729852513894584, 107732714457087429632575581516568085151),
     (True, 238755728324067814358606561789379450673, 197353699923408386522957199759286140950),
     (True, 801215127839863542611972341534445355575, 93490296963474975824378014318918552325),
     (True, 179800822293111935975496194706086552552, 87194578492899777715761883764196024007),
     (True, 156400292238023813909887775335151220522, 126635940052512692596714983825917411245),
     (True, 329892583640594381398501072848583010166, 254434540200255248876901075486130869481),
     (True, 1331713279265200447138095377148917017163, 202930824725571865387182378644897020460),
     (True, 847138921640278504724662274218264732682, 160610802344369589453168465189246738662),
     (True, 530649914192788866823964389561734701890, 189767762018118874013440776908078416698),
     (True, 740804252628602778208258849253958532861, 139810965386712628346924362350271668479),
     (True, 402106472735165417185607166933236545211, 271682307087220482685430911070405638988),
     (True, 1518382914062923211725289212012964177587, 41383309015298705930693034633254891325),
     (True, 35229706328495231084130051317817663516, 258179834346595343386875959972376858531),
     (True, 1371207659875769211223515409477588942355, 197593591826865036305804530964279463532),
     (True, 803164134510653641687032001365855227316, 260236346100630221363858038807758840124),
     (True, 1393139160022337304535633309494053112950, 54936621721402546378205824041926041082),
     (True, 62084400770704156699097850944124102312, 124173886951707913972313934697753739860),
     (True, 317189751504068583842288478978690841800, 272316059078083977619637898364665001000),
     (True, 1525475025108591836184886594380598552610, 231440332433692646030893881054610244510),
     (True, 1101886047554864791629345910270283418936, 121718516483514244839448339951356447076),
     (True, 304769776121629803515720152111943833900, 105676913624502523294849715306893963332),
     (True, 229730594681583436760402794463510163066, 15198072205155123102166325720791158774),
     (True, 4751553264137915345261404216513766321, 156698817908986043488750574067461234443),
     (True, 505114732490532204101666937620536796504, 280210667634747283142858696313954108407),
     (True, 1615206020715955377958755270149335010496, 193238810893599066988187486132699413879),
     (True, 768152251361694236069020252745044874567, 33939882174034822527855650523367679984),
     (True, 23696229948303572664707903895374932472, 221591269791778166434579279062005243144),
     (True, 1010098874783565562592496904631879990260, 282173937773648529964715220636455908812),
     (True, 1637918894105683984171227461329483048351, 125066671563196461287406378752120788049),
     (True, 321767205694541881820700758115002764426, 19617192489672253984547147662940503773),
     (True, 7916483338861527750290701053863195472, 48481425791158507679766383979251243055),
     (True, 48351434357537556582214511932195876945, 150171153562410216253920414402621979670),
     (True, 463907750978269743641960061222862448442, 112097950925385493840356957703694865922),
     (True, 258496069037065438080765051415631302835, 230158313498060216014718343429484468073),
     (True, 1089712488664021536858845525758458333532, 239379735762339985214573752610217113115),
     (False, 168397376602712618054127328489659713593, 299663198465169943366244344860512624288),
     (False, 263892699839012205907137408482198842023, 98334600469170680375682206666399906137),
     (True, 198916729534053759929266611787403765649, 145091266659756586618791329697897684742),
     (False, 61864726789747861467551789429419761060, 86625320208583566086826203984317585024),
     (False, 22052115627205304229861349021853928152, 311886411077723284703901582682233664808),
     (False, 285860047040119267602179680704883068883, 100456552961230745129130100547471902317),
     (False, 29656309035834439707499679607311842578, 120623656016030334670045309349000121687),
     (False, 42758802115815151149730197945320507768, 193986265507002547199640545612671314457),
     (False, 110586603548859271525517931694060449319, 8113803720761984513834422645264943178),
     (False, 193468181777244178475545219294188521, 103092366084974087736042506450776252795),
     (False, 31232990534204329642567675834854253317, 326319039648717633123606039734865546772),
     (False, 312928690959769813646084636367459444197, 165426264980336397945438772700940880811),
     (False, 80421002689518380468152326818655879586, 320700491280423486116039102908266308247),
     (False, 302245473481736337369918946957820146699, 15969955439487489491340182655538118918),
     (False, 749493660359051676715799370922777415, 231903488175481704286424705201049120989),
     (False, 158042946258366954673261365849240132302, 330139941075877292379205440111229355003),
     (False, 320299819469949574876191726529706099497, 102054183934057294722319268856311633136),
     (False, 30607100075997303807879906276337782192, 215288127941631455376249369110897644368),
     (False, 136207404609305075621427161877122009149, 168592440810298607532676059676794073283),
     (False, 83528897943095483585230314017508106801, 11527933618270417271153319037870510680),
     (False, 390538171900414172135088507122841197, 134362479177651918469895907702663350227)]"])
    (simp only: pw_eval)+

lemma pkp128_d_2:
  "pw_ok 340282366920938463463374607431768211457 516508834063867445248 7 (340282366920938462946865773367900766208, 170141183460469231473432886683950383104)"
  by (rule pw_chain [OF pkp128_d_1, where steps = "[(False, 53053809323477114148087520958635759565, 74607240671693018256114645921460412444),
     (False, 16357710248139864986821100506513862427, 334148062884068942674517408093273723893),
     (False, 328124342555539198382048820265751481170, 103391040357211099386554923247963290919),
     (False, 31414226140698354968997501409932993674, 99666088690084148870055939366877902695),
     (False, 29191431000853590798315804205135052546, 289561285648662405709988593885012044911),
     (False, 246400478829357224568710689389549145777, 318535357410237596781192254130144348528),
     (False, 298178171377426184425610642064847038383, 159346507187555487195719333287403366737),
     (False, 74618351760710287184503048112811090258, 155922031875079272327617044971662535247),
     (False, 71445606318184086428494776815124970110, 156463924233492022818011865070294338019),
     (False, 71943074241727789292134027805733209568, 31769637856510632840609960425458956649),
     (False, 2966095183440220873484345884989686947, 287838268957986932976524821991315335278),
     (False, 243476821401033911826839178128450492897, 208247103343522621288279093603539219811),
     (False, 127443735752089934624387972079384036647, 200467131140562697033943509875939614498),
     (False, 118099186365024507480679983093958099925, 19174378191971045916276784955566357679),
     (False, 1080446167033264378432499290519764793, 274676736149104596651512253707399987304),
     (False, 221719714906809512522919204844548415425, 64696717124614176587478565245026814591),
     (False, 12300564512280022979348327322124228360, 240132284097975523489668647485403010041),
     (False, 169457836995439806410826197327231407790, 145432500667824378249016714272415453571),
     (False, 62156063042228961886467008011129803232, 298353500773512692450176587485452064553),
     (False, 261591019920500984661368799532660603109, 270548877918352914568302939620931546028),
     (False, 215105754686038201004071675709349741343, 340016569969094368294240872476617898097),
     (False, 339750980633120143344272492790208951402, 135965727464040418926996694396031446391),
     (False, 54327466956643475125222797113941063139, 117085996218356758227256787041360254830),
     (False, 40287513674284056697997651931414468455, 332064765402393997366770722859577891805),
     (False, 324045613704592885363192790595278625536, 228559068280161436879543619393492845001),
     (False, 153517351386099931674861757725388120151, 230098631070884707291510166521957912442),
     (False, 155592487791165771622070689431733016631, 21022521936390201372706724542698581485),
     (False, 1298763825363567799070744031045027276, 226945609434932365251557460011480688541),
     (False, 151357562567323459760713901469027480703, 57121312379300619600318677664786743754),
     (False, 9588637687746349330155077632911454432, 271340726413788793770043530061069124228),
     (False, 216366749993451372158083137448594616016, 299198373529429211116086663456353592640),
     (False, 263074656299939670797890062398792402837, 147080871988918913690578634374576834667),
     (False, 63573035243542120439688816902706066958, 335126421064327517058514051787995178667),
     (False, 330048597908921597410663825150346100482, 113927287885849408930564061574147684151),
     (False, 38143107568194570002738768634956956129, 168312455792500806162843739362957945840),
     (False, 83251691914687265892332908502874655598, 133072755800590304806537840801182217618),
     (False, 52040187966830258542100483050910077482, 327496357679086322773617020908952188186),
     (False, 315190778950904354393899046727396564649, 262214957784317516135383084956054824955),
     (False, 202057734310418771122460348712534511141, 209900187991866741754100435606543917556),
     (False, 129475086580838020576896655792715265449, 197141068896844615245736127921800600295),
     (False, 114212797440721560163353956285672981630, 188322392423650108177730013335772346355),
     (False, 104223218526064018823968285856792549424, 71091572554006798545592074489980172409),
     (False, 14852405471177020250943760555365209157, 164768177341742407652166710271521887468),
     (False, 79782424549866838255544325328076962428, 277977706631875512274059312402750455572),
     (False, 227080839020584358773386291150440502899, 139471514523600095951509360044160107293),
     (False, 57165181785709042155162896740817690090, 296799510782421792440573396836765619039),
     (False, 258873095299562832321657068267420302657, 340282366920938462946865773367900766208)]"])
    (simp only: pw_eval)+

lemma pkp128_d2_1:
  "pw_ok 340282366920938463463374607431768211457 516508834063867445248 340282366920938462946865773367900766208 (1, 2)"
  by (rule pw_chain [OF pw_ok_start, where steps = "[(False, 340282366920938462946865773367900766207, 1)]"])
    (simp only: pw_eval)+

lemma pkp128_r2: "(7::nat) ^ 170141183460469231473432886683950383104 mod 340282366920938462946865773367900766209 = 340282366920938462946865773367900766208"
  by (rule pw_ok_residue [OF pw_ok_compose [OF pkp128_d_2 pw_ok_start], where h = 1 and k = 0]) simp_all

lemma pkp128_one: "(7::nat) ^ 340282366920938462946865773367900766208 mod 340282366920938462946865773367900766209 = 1"
  by (rule pw_ok_residue [OF pw_ok_compose [OF pkp128_d_2 pkp128_d2_1], where h = 1 and k = 0]) simp_all

lemma pkp128_cong1: "prime_divisors_cong 340282366920938462946865773367900766209 (2 ^ 66)"
  by (rule pocklington_cert [where E = 340282366920938462946865773367900766208 and R = 4611686018427387897 and m = 170141183460469231473432886683950383104 and a = 7
        and c = 340282366920938462946865773367900766208 and u = 170141183460469231473432886683950383104 and v = 170141183460469231473432886683950383103, OF prime_2 _ _ _ _ pkp128_r2 pkp128_one])
    simp_all

lemma prime_p128: "prime_nat 340282366920938462946865773367900766209"
  by (rule pocklington [OF _ pkp128_cong1]) simp_all

lemma prime_991: "prime_nat 991"
  by (rule prime_nat_trial [of _ 30]) (simp_all add: no_divisor_upto_numeral)

lemma prime_103: "prime_nat 103"
  by (rule prime_nat_trial [of _ 9]) (simp_all add: no_divisor_upto_numeral)

lemma prime_47: "prime_nat 47"
  by (rule prime_nat_trial [of _ 5]) (simp_all add: no_divisor_upto_numeral)

lemma prime_419: "prime_nat 419"
  by (rule prime_nat_trial [of _ 19]) (simp_all add: no_divisor_upto_numeral)

lemma prime_97: "prime_nat 97"
  by (rule prime_nat_trial [of _ 8]) (simp_all add: no_divisor_upto_numeral)

lemma pk8574133_d_1:
  "pw_ok 8574133 0 2 (4321357, 83244)"
  by (rule pw_chain [OF pw_ok_start, where steps = "[(False, 0, 4),
     (True, 0, 32),
     (False, 0, 1024),
     (False, 0, 1048576),
     (False, 128235, 7682521),
     (True, 13767252, 8138366),
     (False, 7724746, 1554738),
     (True, 563837, 7068967),
     (False, 5828028, 7247365),
     (False, 6125902, 950259),
     (True, 210631, 6126239),
     (False, 4377212, 6427925),
     (True, 9637877, 375609),
     (True, 32908, 6672998),
     (False, 5193399, 8559937),
     (False, 8545764, 4321357)]"])
    (simp only: pw_eval)+

lemma pk8574133_d103_1:
  "pw_ok 8574133 0 4321357 (1, 103)"
  by (rule pw_chain [OF pw_ok_start, where steps = "[(True, 9411746528550, 1889143),
     (False, 416235, 7025194),
     (False, 5756074, 6703794),
     (True, 22650158796794, 2240050),
     (True, 2528979767163, 6797821),
     (True, 23289994145892, 1)]"])
    (simp only: pw_eval)+

lemma pk8574133_r103: "(2::nat) ^ 83244 mod 8574133 = 4321357"
  by (rule pw_ok_residue [OF pw_ok_compose [OF pk8574133_d_1 pw_ok_start], where h = 1 and k = 0]) simp_all

lemma pk8574133_one: "(2::nat) ^ 8574132 mod 8574133 = 1"
  by (rule pw_ok_residue [OF pw_ok_compose [OF pk8574133_d_1 pk8574133_d103_1], where h = 1 and k = 0]) simp_all

lemma pk8574133_q1_1:
  "pw_ok 8574133 0 2 (3435729, 8652)"
  by (rule pw_chain [OF pw_ok_start, where steps = "[(False, 0, 4),
     (False, 0, 16),
     (False, 0, 256),
     (False, 0, 65536),
     (True, 1001, 7227459),
     (True, 12184593, 6260493),
     (True, 9142329, 430341),
     (False, 21599, 677614),
     (False, 53551, 7336713),
     (True, 12555755, 2003323),
     (True, 936142, 69772),
     (False, 567, 6598573),
     (False, 5078200, 3435729)]"])
    (simp only: pw_eval)+

lemma pk8574133_rq1: "(2::nat) ^ 8652 mod 8574133 = 3435729"
  by (rule pw_ok_residue [OF pk8574133_q1_1, where h = 1 and k = 0]) simp_all

lemma pk8574133_cong1: "prime_divisors_cong 8574133 (991 ^ 1)"
  by (rule pocklington_cert [where E = 8574132 and R = 8652 and m = 8652 and a = 2
        and c = 3435729 and u = 1014251 and v = 406419, OF prime_991 _ _ _ _ pk8574133_rq1 pk8574133_one])
    simp_all

lemma pk8574133_cong2: "prime_divisors_cong 8574133 (103 ^ 1)"
  by (rule pocklington_cert [where E = 8574132 and R = 83244 and m = 83244 and a = 2
        and c = 4321357 and u = 3531099 and v = 1779671, OF prime_103 _ _ _ _ pk8574133_r103 pk8574133_one])
    simp_all

lemma pk8574133_comb1: "prime_divisors_cong 8574133 (991 ^ 1 * 103 ^ 1)"
  by (rule prime_divisors_cong_mult [OF pk8574133_cong1 pk8574133_cong2])
    (rule prime_nat_coprime_powers [OF prime_991 prime_103], simp)

lemma prime_8574133: "prime_nat 8574133"
  by (rule pocklington [OF _ pk8574133_comb1]) simp_all

lemma pk569003_d_1:
  "pw_ok 569003 0 2 (439588, 5866)"
  by (rule pw_chain [OF pw_ok_start, where steps = "[(False, 0, 4),
     (True, 0, 32),
     (True, 0, 2048),
     (False, 7, 211283),
     (True, 156907, 458457),
     (True, 738775, 450373),
     (True, 712951, 420405),
     (False, 310614, 66183),
     (True, 15396, 8790),
     (False, 135, 448695),
     (True, 707649, 2103),
     (False, 7, 439588)]"])
    (simp only: pw_eval)+

lemma pk569003_d97_1:
  "pw_ok 569003 0 439588 (1, 97)"
  by (rule pw_chain [OF pw_ok_start, where steps = "[(True, 149287322548, 365828),
     (False, 235201, 50981),
     (False, 4567, 425660),
     (False, 318427, 517319),
     (False, 470329, 335774),
     (True, 87101453229, 1)]"])
    (simp only: pw_eval)+

lemma pk569003_r97: "(2::nat) ^ 5866 mod 569003 = 439588"
  by (rule pw_ok_residue [OF pw_ok_compose [OF pk569003_d_1 pw_ok_start], where h = 1 and k = 0]) simp_all

lemma pk569003_one: "(2::nat) ^ 569002 mod 569003 = 1"
  by (rule pw_ok_residue [OF pw_ok_compose [OF pk569003_d_1 pk569003_d97_1], where h = 1 and k = 0]) simp_all

lemma pk569003_q1_1:
  "pw_ok 569003 0 2 (236160, 1358)"
  by (rule pw_chain [OF pw_ok_start, where steps = "[(False, 0, 4),
     (True, 0, 32),
     (False, 0, 1024),
     (True, 3, 390143),
     (False, 267505, 412934),
     (False, 299672, 221340),
     (True, 172200, 474600),
     (True, 791718, 402846),
     (True, 570418, 246178),
     (False, 106508, 236160)]"])
    (simp only: pw_eval)+

lemma pk569003_rq1: "(2::nat) ^ 1358 mod 569003 = 236160"
  by (rule pw_ok_residue [OF pk569003_q1_1, where h = 1 and k = 0]) simp_all

lemma pk569003_cong1: "prime_divisors_cong 569003 (419 ^ 1)"
  by (rule pocklington_cert [where E = 569002 and R = 1358 and m = 1358 and a = 2
        and c = 236160 and u = 533245 and v = 221318, OF prime_419 _ _ _ _ pk569003_rq1 pk569003_one])
    simp_all

lemma pk569003_cong2: "prime_divisors_cong 569003 (97 ^ 1)"
  by (rule pocklington_cert [where E = 569002 and R = 5866 and m = 5866 and a = 2
        and c = 439588 and u = 345875 and v = 267208, OF prime_97 _ _ _ _ pk569003_r97 pk569003_one])
    simp_all

lemma pk569003_comb1: "prime_divisors_cong 569003 (419 ^ 1 * 97 ^ 1)"
  by (rule prime_divisors_cong_mult [OF pk569003_cong1 pk569003_cong2])
    (rule prime_nat_coprime_powers [OF prime_419 prime_97], simp)

lemma prime_569003: "prime_nat 569003"
  by (rule pocklington [OF _ pk569003_comb1]) simp_all

lemma pk2773320623_n_1:
  "pw_ok 2773320623 0 2 (1, 2773320622)"
  by (rule pw_chain [OF pw_ok_start, where steps = "[(False, 0, 4),
     (True, 0, 32),
     (False, 0, 1024),
     (False, 0, 1048576),
     (True, 792, 2553322136),
     (False, 2350775412, 46680820),
     (True, 1571472, 2205677744),
     (False, 1754219930, 1230313146),
     (True, 1091594260, 1234410652),
     (False, 549438692, 2173319988),
     (False, 1703127914, 2737149722),
     (True, 5402901156, 1324014380),
     (True, 1264198638, 2559657326),
     (False, 2362455163, 2084743727),
     (True, 3134261773, 1590256479),
     (True, 1823745619, 1724354245),
     (False, 1072143457, 2136906314),
     (False, 1646534683, 1964399087),
     (False, 1391423602, 2250889523),
     (False, 1826872667, 1765055988),
     (False, 1123354658, 800144210),
     (True, 461706988, 1989434676),
     (True, 2854232069, 356790965),
     (True, 91803155, 2393296885),
     (False, 2065347198, 1882038871),
     (True, 2554389335, 1983153577),
     (False, 1418118798, 1610523775),
     (True, 1870527921, 473886467),
     (True, 161949095, 2171797993),
     (True, 3401486639, 1),
     (False, 0, 1)]"])
    (simp only: pw_eval)+

lemma pk2773320623_one: "(2::nat) ^ 2773320622 mod 2773320623 = 1"
  by (rule pw_ok_residue [OF pk2773320623_n_1, where h = 1 and k = 0]) simp_all

lemma pk2773320623_q1_1:
  "pw_ok 2773320623 0 2 (2039232613, 4874)"
  by (rule pw_chain [OF pw_ok_start, where steps = "[(False, 0, 4),
     (False, 0, 16),
     (True, 0, 512),
     (True, 0, 524288),
     (False, 99, 319165267),
     (False, 36730865, 2254052394),
     (False, 1832010389, 1533178889),
     (False, 847589523, 1700641492),
     (True, 2085717360, 386856848),
     (False, 53963548, 285844700),
     (True, 58923726, 536378702),
     (False, 103739217, 2039232613)]"])
    (simp only: pw_eval)+

lemma pk2773320623_rq1: "(2::nat) ^ 4874 mod 2773320623 = 2039232613"
  by (rule pw_ok_residue [OF pk2773320623_q1_1, where h = 1 and k = 0]) simp_all

lemma pk2773320623_cong1: "prime_divisors_cong 2773320623 (569003 ^ 1)"
  by (rule pocklington_cert [where E = 2773320622 and R = 4874 and m = 4874 and a = 2
        and c = 2039232613 and u = 2440407146 and v = 1794440137, OF prime_569003 _ _ _ _ pk2773320623_rq1 pk2773320623_one])
    simp_all

lemma prime_2773320623: "prime_nat 2773320623"
  by (rule pocklington [OF _ pk2773320623_cong1]) simp_all

lemma pkA_d_1:
  "pw_ok 1919519569386763 0 2 (621931926534591, 40840841901846)"
  by (rule pw_chain [OF pw_ok_start, where steps = "[(False, 0, 4),
     (False, 0, 16),
     (True, 0, 512),
     (False, 0, 262144),
     (True, 0, 137438953472),
     (False, 9840725, 1717025027531609),
     (False, 1535892101434417, 6006141706710),
     (True, 37586215609, 1496913289464533),
     (False, 1167349076254216, 501441651565281),
     (False, 130993053644587, 1893327660207080),
     (True, 3734986281020757, 1511716800213209),
     (False, 1190551907098792, 566961959987385),
     (False, 167461623835088, 944892956998081),
     (True, 930256418766088, 1186794774871978),
     (True, 1467535793983494, 145010055175046),
     (True, 21909561577002, 123295058179706),
     (True, 15839037657108, 1503168552431468),
     (True, 2354251275219634, 401574155965306),
     (True, 168023087975880, 443358816070832),
     (True, 204808581191519, 1240006995881451),
     (True, 1602085620128551, 293740593960389),
     (True, 89901179353714, 991667755574860),
     (True, 1024636532110014, 320285696694518),
     (False, 53441980557596, 344188889750576),
     (True, 123432960744006, 702677336670974),
     (True, 514457312491745, 952272318445917),
     (True, 944843264888482, 1691937785978012),
     (True, 2982677037811832, 696931069364472),
     (True, 506077586487622, 473730321529982),
     (True, 233829778154954, 630715279366746),
     (False, 207240275103712, 893498705664260),
     (True, 831812240683492, 823117265278804),
     (True, 705928757596889, 1020864416760525),
     (False, 542929686171811, 1851652871137832),
     (True, 3572371347366186, 1660785461124530),
     (True, 2873852803453099, 1259848073513263),
     (True, 1653765029175665, 234428221091943),
     (False, 28630388416352, 1150347897966673),
     (False, 689391401609468, 106867844016845),
     (False, 5949788825782, 1474761059830359),
     (True, 2266108893369390, 1911620580753192),
     (False, 1903754097139329, 475448918886837),
     (True, 235529429421633, 1253794847685159),
     (True, 1637911428622803, 1497241229553873),
     (False, 1167860612221926, 621931926534591)]"])
    (simp only: pw_eval)+

lemma pkA_d47_1:
  "pw_ok 1919519569386763 0 621931926534591 (1, 47)"
  by (rule pw_chain [OF pw_ok_start, where steps = "[(False, 201508402108450, 1267407599089931),
     (True, 520454683481121190248550948314, 1715815380200169),
     (True, 953874898682077588910468763061, 1109299229292008),
     (True, 398701371939674386806739954420, 1675631384023364),
     (True, 909719029734528815283443897645, 1)]"])
    (simp only: pw_eval)+

lemma pkA_r47: "(2::nat) ^ 40840841901846 mod 1919519569386763 = 621931926534591"
  by (rule pw_ok_residue [OF pw_ok_compose [OF pkA_d_1 pw_ok_start], where h = 1 and k = 0]) simp_all

lemma pkA_one: "(2::nat) ^ 1919519569386762 mod 1919519569386763 = 1"
  by (rule pw_ok_residue [OF pw_ok_compose [OF pkA_d_1 pkA_d47_1], where h = 1 and k = 0]) simp_all

lemma pkA_q1_1:
  "pw_ok 1919519569386763 0 2 (1059928654987441, 223873314)"
  by (rule pw_chain [OF pw_ok_start, where steps = "[(True, 0, 8),
     (False, 0, 64),
     (True, 0, 8192),
     (False, 0, 67108864),
     (True, 4, 1329120977193940),
     (False, 920314958071172, 1050703024027364),
     (True, 1150263703800570, 1672969091722082),
     (True, 2916173011720386, 925947007178930),
     (False, 446662734664136, 1131232746713132),
     (False, 666670737639295, 1867384059597339),
     (False, 1816664587145774, 439825148891359),
     (False, 100778426374213, 1175992818124362),
     (False, 720471481685335, 1417188017686439),
     (False, 1046314874568149, 230433742489034),
     (False, 27663020749752, 1384618485920380),
     (True, 1997550201756923, 708183098878551),
     (False, 261275430339817, 821990456217230),
     (False, 351998656793099, 1538409348524363),
     (True, 2465932998415072, 1639521232619602),
     (False, 1400365964004865, 1373123636036409),
     (False, 982260639543366, 280066608751023),
     (True, 81725976216389, 1337932286834251),
     (False, 932557725746660, 661679051269421),
     (False, 228087889215254, 1001669444392439),
     (False, 522704582871222, 1817493499934335),
     (True, 3441780615301434, 364420849266308),
     (False, 69185309437821, 1059928654987441)]"])
    (simp only: pw_eval)+

lemma pkA_rq1: "(2::nat) ^ 223873314 mod 1919519569386763 = 1059928654987441"
  by (rule pw_ok_residue [OF pkA_q1_1, where h = 1 and k = 0]) simp_all

lemma pkA_cong1: "prime_divisors_cong 1919519569386763 (8574133 ^ 1)"
  by (rule pocklington_cert [where E = 1919519569386762 and R = 223873314 and m = 223873314 and a = 2
        and c = 1059928654987441 and u = 1290547218147893 and v = 712619969572013, OF prime_8574133 _ _ _ _ pkA_rq1 pkA_one])
    simp_all

lemma pkA_cong2: "prime_divisors_cong 1919519569386763 (47 ^ 2)"
  by (rule pocklington_cert [where E = 1919519569386762 and R = 868954083018 and m = 40840841901846 and a = 2
        and c = 621931926534591 and u = 1820496789554984 and v = 589848154525293, OF prime_47 _ _ _ _ pkA_r47 pkA_one])
    simp_all

lemma pkA_comb1: "prime_divisors_cong 1919519569386763 (8574133 ^ 1 * 47 ^ 2)"
  by (rule prime_divisors_cong_mult [OF pkA_cong1 pkA_cong2])
    (rule prime_nat_coprime_powers [OF prime_8574133 prime_47], simp)

lemma prime_A: "prime_nat 1919519569386763"
  by (rule pocklington [OF _ pkA_comb1]) simp_all

lemma pkB_n_1:
  "pw_ok 72106336199 0 2 (1, 72106336198)"
  by (rule pw_chain [OF pw_ok_start, where steps = "[(False, 0, 4),
     (False, 0, 16),
     (False, 0, 256),
     (False, 0, 65536),
     (True, 0, 8589934592),
     (True, 2046615600, 65958308528),
     (False, 60334482282, 56336800666),
     (False, 44016036267, 64939114423),
     (True, 116968599552, 64260463010),
     (False, 57268297405, 30328996505),
     (False, 12756826618, 50442070043),
     (True, 70573615700, 2611319398),
     (True, 189137026, 12307160634),
     (True, 4201189822, 1209597334),
     (False, 20291222, 34999362378),
     (True, 33976358568, 11141426736),
     (True, 3443009207, 11116843199),
     (True, 3427831983, 22422254585),
     (True, 13944891036, 48869632286),
     (True, 66242194116, 49991566508),
     (False, 34659321963, 30324675427),
     (True, 25506383716, 59200329174),
     (False, 48604313560, 30980963836),
     (True, 26622351676, 57412550268),
     (True, 91426110437, 14028934685),
     (True, 5458910236, 34813665486),
     (True, 33616776789, 67841547381),
     (True, 127658006041, 10616940163),
     (True, 3126477487, 53218281225),
     (True, 78555799832, 18835282682),
     (False, 4920065176, 9201007100),
     (False, 1174078952, 17168826552),
     (False, 4087970915, 3936556619),
     (True, 429822920, 53629541242),
     (True, 79774617473, 1),
     (False, 0, 1)]"])
    (simp only: pw_eval)+

lemma pkB_one: "(2::nat) ^ 72106336198 mod 72106336199 = 1"
  by (rule pw_ok_residue [OF pkB_n_1, where h = 1 and k = 0]) simp_all

lemma pkB_q1_1:
  "pw_ok 72106336199 0 2 (67108864, 26)"
  by (rule pw_chain [OF pw_ok_start, where steps = "[(True, 0, 8),
     (False, 0, 64),
     (True, 0, 8192),
     (False, 0, 67108864)]"])
    (simp only: pw_eval)+

lemma pkB_rq1: "(2::nat) ^ 26 mod 72106336199 = 67108864"
  by (rule pw_ok_residue [OF pkB_q1_1, where h = 1 and k = 0]) simp_all

lemma pkB_cong1: "prime_divisors_cong 72106336199 (2773320623 ^ 1)"
  by (rule pocklington_cert [where E = 72106336198 and R = 26 and m = 26 and a = 2
        and c = 67108864 and u = 8149528284 and v = 7584709, OF prime_2773320623 _ _ _ _ pkB_rq1 pkB_one])
    simp_all

lemma prime_B: "prime_nat 72106336199"
  by (rule pocklington [OF _ pkB_cong1]) simp_all

lemma pkq1_n_1:
  "pw_ok 75445702479781427272750846543864801 0 2 (69745012537714770577004439339093758, 143901257476389746232511227691)"
  by (rule pw_chain [OF pw_ok_start, where steps = "[(True, 0, 8),
     (True, 0, 128),
     (False, 0, 16384),
     (True, 0, 536870912),
     (False, 0, 288230376151711744),
     (False, 1, 7631047256775814783737094723656735),
     (False, 771851547816808051379443778815459, 22009193676612644322150778486101566),
     (False, 6420572549171516046176593860100809, 33022602890864803253515466140928347),
     (True, 28908003129270132855419763652819504, 70920670989751728757172309344426114),
     (True, 133334077576771846642839878728962976, 3666131857123157179898322131674216),
     (True, 356296577592744755834612203261588, 25401643620139515029795923209865324),
     (True, 17104844342260377155191118617761288, 53020601934196140453117330471626264),
     (True, 74522050615615866528901395825227785, 28575338561705314560517295720499607),
     (False, 10823015056886887261668044373608357, 48331021020716018721794112955412492),
     (False, 30961174939432559984738738584029315, 848533773164639574462622689008749),
     (False, 9543413879590745612390818824318, 45310555848504975522005669435514283),
     (False, 27212238786572118819693610976292909, 72659396762334320014469372026007980),
     (True, 139951985715319802782717575504616292, 75115654692204849562303423817422908),
     (False, 74787050744880317833576541907568545, 16253006180525765547641381402891919),
     (True, 7002657572841888628464483393536952, 17986039111192952197589181705378570),
     (False, 4287820144507981290238773629741760, 27776406887544879715908757031455140),
     (True, 20452557381627174631868233265512926, 8878805395285718583017608002921474),
     (False, 1044899611988915660444025085319451, 15425342777689016851465101770788425),
     (False, 3153807201582730232094456086824652, 67408165950774277419106926032106373),
     (True, 120453801541971900053355372750195147, 10005173418326397981809162040109511),
     (False, 1326828326074791530425417056591862, 11328494954179109637847746107809659),
     (False, 1701021976185506177894356976435511, 2653889685712704246275783694347970),
     (False, 93353633572697574796185448788719, 8917658717885293657369277093140981),
     (True, 2108129009203334261133622343411113, 72164657861411213226753396050351209),
     (True, 138052604007502018451222615905547201, 72558332017281532167041635227551361),
     (True, 139562927299694608715632413544391673, 45958847638036517107644543883702569),
     (False, 27996500884623667420435143924148067, 671042825854817169564334903710094),
     (True, 11937021177631509171511817293558, 72730494059566331181901874714725714),
     (True, 140226006048951515550643993067215071, 62579464969018112921471466292003721),
     (True, 103814778233606042352647539079357791, 29585290492468826343356455945677091),
     (True, 23203161605085027457686910115065657, 73885246701094968368169048238205305),
     (False, 72357066083977699180045520576918136, 41118096192318202911291004101212089),
     (True, 44818930142079864549256404367283342, 33981126060794659516081780212042900),
     (True, 30610542162267458784582308358080773, 40288467135992077388000188531248827),
     (True, 43028576335488475641251044159569169, 36330444707391624204415264033831489),
     (False, 17494716985245889738608394253763934, 17328165532291647471499732182069987),
     (False, 3979886340046577149477472973859038, 33422583774579774592479576262258731),
     (False, 14806265558573926326230418156236496, 18214631634308223648371789179753065),
     (False, 4397504359674470949521980787952437, 64511884726821717771000457030424188),
     (False, 55162628674867767836158767029343180, 1568420735889759100484093464052164),
     (False, 32605483465784016117553503132009, 31025647283008206690781557961567687),
     (True, 25517445200741491635749351223738569, 373269120475705429462412059850169),
     (False, 1846756431727114921091744224038, 58443280288287018208066001403042123),
     (True, 90545038314690585729151912632905452, 39403710217996611059649496120899206),
     (False, 20579732548185144847843165374966669, 18955090873233773816598658194112567),
     (True, 9524610632629136865444052036528022, 42633892693946410887213151918705356),
     (True, 48184290065455906893236368133099501, 50883925065132556536787338661609171),
     (False, 34318373942212199395003219355572734, 60096831411452045530469413933371307),
     (True, 95741149647704955959868512600149897, 53089291438676901358685779159701001),
     (False, 37357633010522906255630588371906398, 51886847680512235165321472581505203),
     (False, 35684537007819210446477302226859212, 49840655314755229486864938926674397),
     (False, 32925545664710938880561163616926857, 45520326194272497356190822741453152),
     (False, 27464786312888658465645388256308953, 12912471922656530731785220892871751),
     (True, 4419918581792659853936465172959736, 54300938652674903527848974066959466),
     (False, 39082304778748024630635265073521629, 42251550788399836408018112961724327),
     (True, 47323929272264168801660546544978889, 63923979436728860874743583272019769),
     (True, 108323602610033582017702304908250862, 47120619430889036148662387133918260),
     (True, 58859622286523375400773844436846332, 23801074297811254038167421302095268),
     (True, 15017187702155587466082072505627193, 39222906842721171021682631194850055),
     (False, 20391306206010426744923801599057214, 27744432708764247686018176453778611),
     (False, 10202748745529044120012868028398902, 31767803252733235124306576616240819),
     (True, 26752837877672897617525915342998659, 74062341163093794085330143583279663),
     (False, 72704344956274686391157189808741468, 4776198761470204658446448715125701),
     (False, 302364135520944856992216994587885, 18710024028905304295913796078205516),
     (True, 9279918872941165399340898018341428, 10169410796074325407272506376376684),
     (True, 2741492557963194209676007709349556, 42122498252050953737874994404293356),
     (False, 23517639847936053940406944463800117, 115754809044341432461161369761019),
     (True, 355200505170795452952356421100, 43065186470477596355140615720135622),
     (True, 49164106762317459954868940441862303, 38510769545584726525888116656157065),
     (True, 39315145124152939114948633505931618, 59466506355214148198268088155650432),
     (True, 93743321670108453423228119801881632, 31186897834198124570994992750338016),
     (False, 12891689845175253577576619877130907, 23092477347457125080713115068311749),
     (False, 7068162831219294747801995350537192, 18698798374500036049255497881260209),
     (False, 4634393333986200328317558958439351, 21869121206656224245178971064539530),
     (False, 6339108082128186258628870511208919, 12652077428391528779183729931260781),
     (True, 4243450799518041716040183281473006, 28598385840957074477577761062398116),
     (True, 21680961163491933049892391326433752, 71375989008579367626260943189535560),
     (True, 135051610350320963652278521676015308, 43061262500733731668528957050653492),
     (False, 24577573900302943555059758083120298, 32672444468793351880644993920963366),
     (False, 14149097860841839966656012334961331, 70209680790526841665283081887039825),
     (True, 130674090496504969134018827651768795, 52503834489303885292749499281376455),
     (True, 73076465470487655495873936216625714, 17400049045635351684533718020641136),
     (True, 8025949705263923730563316570232921, 64908780416863095875975808887427271),
     (False, 55843469365715368362468480707808829, 69878509489605860253502975384379412),
     (False, 64722123699458232616333721538099691, 42111761612063696322752344005589253),
     (True, 47011305025532297537912876921461014, 49087257122501680141152876489827804),
     (False, 31937654930793781474880405364272074, 60893762817002960278746117535595142),
     (True, 98297191970798516002569059625159782, 43505566370828698512508536837366946),
     (False, 25087370692238060902812612345126444, 67404298166118396548341553467469272),
     (True, 120439979003033448417266417710996846, 23086303469702392307886813367002322),
     (True, 14128767852298133961808644817361610, 69745012537714770577004439339093758)]"])
    (simp only: pw_eval)+

lemma pkq1_n_2:
  "pw_ok 75445702479781427272750846543864801 0 2 (1, 75445702479781427272750846543864800)"
  by (rule pw_chain [OF pkq1_n_1, where steps = "[(False, 64475067684465982501133245190500532, 47172212163931318384902249787988432),
     (True, 58988584566106527512851937131785000, 16904542676557169922233050131852248),
     (True, 7575343689857589041504428760550448, 46920499357148902318201176553326160),
     (False, 29180366642012458176251648635799663, 10454444063557555172302156146983537),
     (False, 1448663039585902268113875523803170, 37698059884210767352741902333811199),
     (True, 37673284821342637999663428757360586, 40901371546101489892846476765501816),
     (False, 22173856685880343095672505025355721, 27768446176039279899917307143421335),
     (False, 10220417832788193175143522916513345, 21857673977610154683191029340912880),
     (False, 6332473500919813117686273409683965, 3778066346658827974554880652278435),
     (True, 378385642935227281731222357250068, 47402446319426680179615426392041982),
     (True, 59565802775003540489587975525891621, 50973463510006534321207876498244227),
     (True, 68878515191830318193214070706977873, 10766594200423649952741019267106785),
     (True, 3072926538331623821743296868229081, 66188423355148447244671870825594569),
     (True, 116134047195448747364847061652810939, 47449036182200125127963758294733383),
     (False, 29841474870263003462022108898837555, 68050878837970674823646249073223134),
     (False, 61380860120709968955617829202648356, 75445702479781427272750846543864800),
     (False, 75445702479781427272750846543864799, 1),
     (False, 0, 1),
     (False, 0, 1)]"])
    (simp only: pw_eval)+

lemma pkq1_one: "(2::nat) ^ 75445702479781427272750846543864800 mod 75445702479781427272750846543864801 = 1"
  by (rule pw_ok_residue [OF pkq1_n_2, where h = 1 and k = 0]) simp_all

lemma pkq1_q1_1:
  "pw_ok 75445702479781427272750846543864801 0 2 (56747016255153332959347766392083459, 39304471641247389600)"
  by (rule pw_chain [OF pw_ok_start, where steps = "[(False, 0, 4),
     (False, 0, 16),
     (False, 0, 256),
     (True, 0, 131072),
     (False, 0, 17179869184),
     (False, 0, 295147905179352825856),
     (False, 1154635, 37249017818367551225803357327630101),
     (False, 18390568088419540713180144552603353, 102469992448),
     (True, 0, 21000198704586354065408),
     (False, 5845373972, 57540172156127493524011025089846892),
     (True, 87768323520986892609440763078941370, 54651969301387637110966512518401958),
     (True, 79178472738596464028603992035732427, 61606591580989321780200720816865501),
     (True, 100612016363528196112949330697066484, 51294626676562810936092654843532318),
     (False, 34874600400109785010110741815565865, 70907221727050507061373817639835259),
     (True, 133283511924261151466384833446453474, 32799974849867834837920162526425488),
     (False, 14259769805182405020291244956113789, 38671091502185017926787332828197155),
     (True, 39643167703849810160785550627061568, 64134687226725695320034102205120082),
     (True, 109038897391729833739089875975893259, 49129946330668696747602969976096989),
     (False, 31993228866829677464604812351954812, 52731668160668534429276816145493709),
     (False, 36856026726665311569831140646019472, 53232007837694667884745803777171609),
     (False, 37558755042300401026910323427360228, 6815899006979597721589967479114253),
     (True, 1231520888437489561043967924920373, 27351563169514572318976779253005245),
     (False, 9915846538991804092978480448020986, 36418643877802785581023883602796239),
     (False, 17579763701632442834351678143176982, 25515915370493845880933608929334539),
     (False, 8629543046122224655388998502785386, 57793553327652931187992881475744335),
     (True, 88543010309470439154820839753932743, 62153849922490962393205786330105307),
     (False, 51203725768512740208766088776196223, 61109090482572984699313167350717626),
     (True, 98993602468160378399605572779308692, 74425325943528844932868703682001460),
     (True, 146837499280623176155056190186076751, 12989690226474060391927371730921649),
     (False, 2236470025910010689164230430725332, 9010903371459702397200566003040269),
     (True, 2152445451523061074391132479695943, 41483535797710063532135253890982379),
     (True, 45619132322111234617260342837222865, 36992927490348523016874968511124417),
     (False, 18138563752825011389988221154025764, 513309348704093895960925166856925),
     (True, 6984797776589922606771900453178, 25107384053856714034524019378123672),
     (False, 8355422685563742011965376336700514, 48786791113838861753548469283555870),
     (True, 63095733990234880993683556426399714, 23550372780047042618185787221846886),
     (True, 14702495698222504060133497094678883, 34192708828629508492652582794096709),
     (False, 15496460349782741374426957909312839, 23725588849222751655399262015150642),
     (True, 14922084300115426627936480004087657, 74284037970676428699992465145163071),
     (False, 73140260026178284946026360103387949, 1679490236568257179254066873467892),
     (False, 37386986428869317886938646893687, 57875049575816904056842656006512377),
     (True, 88792900146987093422421437432117938, 69140185463195222053869748749479920),
     (True, 126723327870560004734161261178324345, 12685289843374237635476675559532455),
     (True, 4265758634921249914798644829340890, 13171760403748371563029534295641160),
     (True, 4599208872904276656265734953986787, 38784832849308944787944580903906813),
     (False, 19938355793717465847682208159383547, 3782964574628778339320135515987822),
     (True, 379367425910877502586785532538328, 38877602689008559621761620122014640),
     (True, 40067702762777282563722963685911553, 14314454708794176124149993472713247),
     (True, 5431816707254639246062512913804549, 72466306610823254233320016583786269),
     (False, 69604568864888641168444927591077276, 52923723913192322483970867785578285),
     (False, 37124984734424324294785152761527766, 43675134191290428119386496951976659),
     (False, 25283313481485823676523318387740688, 11400356044965588482423009162079193),
     (True, 3445341846656232865445853964758427, 18935679146042012693248632693634471),
     (False, 4752556248222889451123733574281160, 60679732404325505920101321558000681),
     (True, 97607413110038762878864400532412072, 41712449112149596090570426404649850),
     (True, 46123989935674606507037057687651255, 6531672565481006475695702252069745),
     (True, 1130952329964462953850246691678513, 13823227504923762148479631860009137),
     (True, 5065407634161494487114558160920292, 72088510220800202732826346861527646),
     (False, 68880706720798111363682571039351209, 1888738652562569663194994370406907),
     (True, 94566915819754618137492420024240, 67921444504051573029934253803837058),
     (False, 61147586567349870743199647966593842, 44692679468887818587537417286939922),
     (False, 26475140829181573416469200498415960, 25373835843271755692855209936742124),
     (False, 8533707345012022015661890767769502, 65810772782638593774538249456932274),
     (False, 57406289184049389055471778293765177, 2709456275567807824939095492976299),
     (False, 97303796875390224746540460292342, 56747016255153332959347766392083459)]"])
    (simp only: pw_eval)+

lemma pkq1_rq1: "(2::nat) ^ 39304471641247389600 mod 75445702479781427272750846543864801 = 56747016255153332959347766392083459"
  by (rule pw_ok_residue [OF pkq1_q1_1, where h = 1 and k = 0]) simp_all

lemma pkq1_q2_1:
  "pw_ok 75445702479781427272750846543864801 0 2 (71619851993489548214160924360205394, 1046311689884858398375200)"
  by (rule pw_chain [OF pw_ok_start, where steps = "[(True, 0, 8),
     (False, 0, 64),
     (True, 0, 8192),
     (True, 0, 134217728),
     (True, 0, 36028797018963968),
     (False, 0, 1298074214633706907132624082305024),
     (True, 44667797139233332466603749887692, 18945849740373176885994182569351860),
     (True, 9515325872431011643233728327932585, 35174267790444862888561132888478615),
     (False, 16398934252424649126653533786109182, 852709155732988206381590479615443),
     (False, 9637565565324590277499799172905, 59644466011146709757737371221669344),
     (True, 94305234329501901632220145750357296, 71398807172283815870711609670842576),
     (False, 67568986676094842354364931032594417, 56143571204456704410311860658899759),
     (False, 41779723483052284131646995553882959, 44025236727901084080438618136431922),
     (False, 25690283279781925462357491746430220, 23262642768922920307643727279927864),
     (False, 7172715354324441471112480629495949, 75366276882256799653077842010411347),
     (True, 150573869800342572941884501778622780, 61587216817563693039822783993942038),
     (False, 50274371510426007619363184844720267, 19406592731618551445728396990971577),
     (True, 9983758625664295862958514231110596, 34183862630530025763128452541202462),
     (False, 15488443025049722141408803208539531, 55979202244163397260844013346913113),
     (True, 83070896840883304567425494113894437, 73161440958009031984643720628689501),
     (False, 70946339779746570380936224446865252, 40411865777412442940929031314834149),
     (True, 43292562516712092465829248751266907, 61823816608461112047218961879667895),
     (True, 101322783787742796229384471167396333, 34760369849629135448465628652287317),
     (True, 32030540438186314196497587258946097, 40766637153727290653602875323485281),
     (False, 22028010213955304615493039172207790, 16781711301517776791640142584649171),
     (False, 3732828046540648610302109530760569, 45359179436666607275040542913155472),
     (True, 54541348056745654989799293139753073, 15936658254533981979046899850802095),
     (True, 6732711552122376068487230135428933, 67146611469296497700268452017090717),
     (True, 119520854962333487953493764420055060, 67831626329970243326589635599205118),
     (False, 60985972419062062554108059562076968, 70178462797941184829210568089390556),
     (False, 65278955312290480399383751303759917, 69778877950225495669089627691007619),
     (True, 129075391916387178485698350027849435, 16715392017148382717658823607860887),
     (True, 7406765954941568658448152529461193, 34314330403712176828441383520685945),
     (True, 31213793028719563095717435049525686, 74074424176800384559404378280307564),
     (True, 145456139628231497971412627001594142, 35789940512051074457352072149632450),
     (False, 16978035855646335567461361244854661, 57603664321261641870847471614315039),
     (False, 43981062329240366730864826195895108, 62358751208901947907024257212278013),
     (False, 51541886741340019136512639746900896, 55986404941332609170493674633466473),
     (True, 83092275245097651571383121675119621, 31498308668990286609379667503759037),
     (False, 13150430261721952571788696740102147, 58970019007109712197103160461339622),
     (True, 92184525490522153815838511063908755, 26637449779235385282324810333973013),
     (False, 9404826350863913576474848920923181, 39211296045629881283598956841446188),
     (True, 40758470980903613956902058944865545, 15173471924049406584441646996281143),
     (True, 6103309868222532829979863633311128, 57885347342992765047725562193967370),
     (False, 44412250491230721600556686683939521, 24590376019435277665282337140016579),
     (True, 16029716018331635545232390131211339, 21759907754091860548161364015547943),
     (True, 12551903419375752109922569452567240, 67653957024126718626966284141343258),
     (True, 121333826860422788719829551436821622, 67283426567092766289110453642581906),
     (False, 60004206227950015849506937725819859, 33254436664119081059215217741709777),
     (False, 14657661357772689413988024815717315, 37269063999070173846404962102660414),
     (True, 36820735594291003106199245600152654, 51919597068534404581052960467970938),
     (True, 71459194391658498960430590248785536, 55396715947041836056967775596881352),
     (True, 81351118403056582820605395399001262, 74648442910010801128490107774316946),
     (False, 73859608244518336930388315451382108, 15461500608639026224518653520386408),
     (False, 3168609916979827292787075668946007, 9149301093535496016503677654342857),
     (True, 2219071670055774328603427064094894, 11110128685353471462157597243418804),
     (True, 3272153491796121661443023725150787, 53105536773056455100588166814832445),
     (True, 74760998791421731568678626140360192, 68473961868737258335784480958954258),
     (True, 124292923251865718975641034621611253, 63460492156760160023663145460455475),
     (True, 106758474834467073339796206492019613, 1466221033251887189234236002609237),
     (True, 56989438700669643421710374554271, 57587650503565635120865484174329267),
     (False, 43956612259121893790028862077601868, 61927348672728082486759434835709021),
     (True, 101662424434615640583463601732344310, 20775937065621299836744638139924572),
     (False, 5721194803247161494122231976213067, 28311822029188745446545119431828517),
     (True, 21248639492150416739438421760529453, 60468535444516253602174169578354725),
     (True, 96929146621296368094525410605390126, 26212444211284783670492089455296324),
     (True, 18214217879775190882665180102737883, 15812751277808065955009113002869669),
     (True, 6628425337833636648387211560397531, 65488085439360156722389129322132791),
     (True, 113689426794382483034507476004214511, 48553321122870082448084519888572051),
     (False, 31246643805752947481173622292138943, 69649633557439525740758139719301258),
     (True, 128597688012399034646988230074270239, 36268898619762225541986654766807689),
     (False, 17435492862474321177554204524212644, 16057327969371216587988210598776877),
     (False, 3417527745666477043354550284310927, 6527436858193186822658590694892602),
     (True, 1129485988923417845918236039945590, 42921622290763612044151000272483218),
     (False, 24418430732548107656923082070771800, 47737893794339556564413331168223724),
     (False, 30205915367152471560564481541778868, 68635775994563306067118444085602908),
     (False, 62440531289881368778115168009631612, 51967105050013198655014547114367252),
     (False, 35795014407915830545320948512247069, 56828263175517436959394684085513235),
     (False, 42804976153695787927573973595351031, 71619851993489548214160924360205394)]"])
    (simp only: pw_eval)+

lemma pkq1_rq2: "(2::nat) ^ 1046311689884858398375200 mod 75445702479781427272750846543864801 = 71619851993489548214160924360205394"
  by (rule pw_ok_residue [OF pkq1_q2_1, where h = 1 and k = 0]) simp_all

lemma pkq1_cong1: "prime_divisors_cong 75445702479781427272750846543864801 (1919519569386763 ^ 1)"
  by (rule pocklington_cert [where E = 75445702479781427272750846543864800 and R = 39304471641247389600 and m = 39304471641247389600 and a = 2
        and c = 56747016255153332959347766392083459 and u = 74602835786463724888147869570305675 and v = 56113048138023733339996598108928949, OF prime_A _ _ _ _ pkq1_rq1 pkq1_one])
    simp_all

lemma pkq1_cong2: "prime_divisors_cong 75445702479781427272750846543864801 (72106336199 ^ 1)"
  by (rule pocklington_cert [where E = 75445702479781427272750846543864800 and R = 1046311689884858398375200 and m = 1046311689884858398375200 and a = 2
        and c = 71619851993489548214160924360205394 and u = 55965016733432503242248684386325671 and v = 53127031540805846987153763991134102, OF prime_B _ _ _ _ pkq1_rq2 pkq1_one])
    simp_all

lemma pkq1_comb1: "prime_divisors_cong 75445702479781427272750846543864801 (1919519569386763 ^ 1 * 72106336199 ^ 1)"
  by (rule prime_divisors_cong_mult [OF pkq1_cong1 pkq1_cong2])
    (rule prime_nat_coprime_powers [OF prime_A prime_B], simp)

lemma prime_q1: "prime_nat 75445702479781427272750846543864801"
  by (rule pocklington [OF _ pkq1_comb1]) simp_all

lemma pkr_d_1:
  "pw_ok 57896044618658097711785492504343953926634992332820282019728792003956564819968 20 2 (8069038195235900655660018320873360449941893561626726997713763914063632828280, 15002128)"
  by (rule pw_chain [OF pw_ok_start, where steps = "[(True, 0, 8),
     (True, 0, 128),
     (False, 0, 16384),
     (False, 0, 268435456),
     (True, 0, 144115188075855872),
     (False, 0, 20769187434139310514121985316880384),
     (False, 0, 431359146674410236714672241392314090778194310760649159697657763987456),
     (True, 6427752177035961102167848369364650410088811975131171341205504, 128555043540719222043356967387293008201776239502623426824110080),
     (True, 570899077082383952423314387779798054553098649600, 11417981541647679048466287755595961091061972992000),
     (True, 4503599627370496000000, 90071992547409920000000),
     (False, 0, 8112963841460668169578900514406400000000000000),
     (True, 2273736754432320, 34435849292530710583578468289479481873477661150105813493790150337928248080640),
     (False, 20482016073957017494932383635313571219301746088121408233458585094873304223945, 20651271697531255897588894942710483941456069094243426231686985887067147554740),
     (True, 14732440723172160203142756381687830694675085644755598222273241241813157596145, 38430384600183730353920633149434098028972637235711182843226752286332169034740),
     (False, 25509418998238121159796083852015994971393914937110169278940854873934556345863, 29198019049361764629587017652706440768644282496082325440489436015401917192476),
     (False, 14725087387613183616352545399040854351139401821841453607808232460990492490173, 51087972851182014378595319750782389014274540422805126016282406766608126639572),
     (False, 45080471165762414166049060588275333030485055072980981908029637951967581918409, 56710210280149722439496401284215770156960466447885793747395144718287684720452),
     (False, 55548664355256608551725133339371987405704782232344236841755739533828373191171, 23260099259415526645091204988845751080910311840468580996452981194307588805196),
     (True, 18689781698264922385777300111274926786387923681778671062071882441734045324518, 11728180033100128649838360985276226346232754762896583107083785956573773311768),
     (False, 2375813542959727054013896943748191061295894342470162606965428138941265554019, 37860717778715614107737889876097172139217183908655268372255551628779324514812),
     (False, 24758754422017999578479635736498873409623452175105215787620582314395715014431, 22330551342723771890891663147589414059706652870990908654187470764049470725756),
     (False, 8612911755103247633495967409156437535134962872023802262929063745119425358306, 21472676764482702791035403006058351667246649003448113007470839331621085483448),
     (False, 7963857470210752927053597768909480455400287857692072655117931822851389038838, 8069038195235900655660018320873360449941893561626726997713763914063632828280)]"])
    (simp only: pw_eval)+

lemma pkr_d_2:
  "pw_ok 57896044618658097711785492504343953926634992332820282019728792003956564819968 20 2 (3063041996031605754327431150836512191401466658431096131888846755445165077604, 125846975634314)"
  by (rule pw_chain [OF pkr_d_1, where steps = "[(True, 2249182230842523218216961741429234631350321241747312901324615287646101335623, 488207479523401042446392770967718301528268917185835241966449626446622109196),
     (False, 4116801840825242786019680871000784082449494197299004110325365794337488690, 13756089541320198913660044223637288004522520475850504453949405877987411378296),
     (False, 3268444342186305532753699957685651715633104362787699841486635572394975179903, 21141801856422021801064793659844205503735436145040335682682453359564316758572),
     (False, 7720316451327371483603133980847686665373880164667026864641231783558511801204, 24428261409035172126520576064955349628421471772851665550176571247671505861792),
     (True, 20614187355930228508733452589250417583344244735698084209115009820418728518098, 49730301561663028472034095057241453570618276407192906266576594162526981483624),
     (True, 85432533766458372772740744953798800522183673302284069378100753960482310561325, 14291165332877965833742951999428166546839484010097906607296587209236923035652),
     (True, 7055314673632595782285647013826106964445002802151345132015728986224667851685, 55605986012420509025144283650010475561546926576170609069419699838951732717828),
     (False, 53406509905463238188516759737935336757887646520555657072605418560045851137162, 27573674871678214159832330280392752043998503775542063843659054782491887330008),
     (True, 26264576481412861939769819433161235353971355843636281829915764571065641520324, 710533815342683126649890015878144388519266512918360486788283518958151936976),
     (False, 8720082797896869915855376863673843465600289524858888385573301230853246073, 20411240643474547521071564214737081191168541127815027621725601135630092960372),
     (True, 14391958806511074641169843974476129921123868418157391639117514769947060460738, 28351614125473611490251011971078848555030911399909482954776756968986631555144),
     (True, 27767493576261011512352024095974190285026118728899531591115774721721838920186, 13648703895718405355323283563744836916565012117936318551903900994555993051144),
     (False, 3217613901951502579623290960712171322153298397873218886257744935691316981188, 31328623193888600057870559394699188144820535157959697239447840611320476570512),
     (True, 33904997748614880939850502879235128473290480332322568182903641581608965781801, 9172198240373956269418306205240606550434610649317887833007077208299195717940),
     (True, 2906216516684349237998901939908038829973326887316968159708796453861278947987, 55654860031125564135951008791878469757038641782999003175545267136076563642524),
     (True, 107000865619961938705294905550046520070457562660137585989505324187954272117668, 50105056022476013669586822823809357336354751132256688962720120070598632539888),
     (False, 43362489709813410597241493389261703793774258570617993403608511875591298924570, 11600190366281774022770917863730965329503234285422430732882776606009827730184),
     (False, 2324241965410717278400853117804460691076239868352816105946548460216732178400, 47836574070646168558235749529896795769550804847628977999162742800435689950656),
     (False, 39524942228591504003058953187532537177587934101015591681082272924878262913163, 57292818018447530751188766712203374148890374245673925978615557864856660654812),
     (True, 113391753033059838433041909573276049976567496853857207729394115861093967062573, 4244534381713668610113944056711991594352787333433681973794536039665042904484),
     (False, 311179671015788431914979527842408335160781021214988908591343577828273463363, 33767137008097690147616234182798031812451500143480388364051046121980277741132),
     (True, 39388512608551613101930709630867135200744941179422966260399985056632320846292, 14386680791145078116656313949723409190806306549600185048423518959038845850032),
     (False, 3574969335981212153512718375263601494408162204805610906648638070778280884165, 3063041996031605754327431150836512191401466658431096131888846755445165077604)]"])
    (simp only: pw_eval)+

lemma pkr_d_3:
  "pw_ok 57896044618658097711785492504343953926634992332820282019728792003956564819968 20 2 (43083077590441566255456912387404398792984578097330582289821352193805301895940, 1055680946581816059492)"
  by (rule pw_chain [OF pkr_d_2, where steps = "[(True, 324105949940134020145629107520290928167543451399440680620380990334958096982, 14006068355813165761635063306907122556862145552718955525397037520639132564696),
     (False, 3388313520894507390189834335523485802869343384859485256633767705833725980375, 28052192174493417484354257325244910349482536832612010661439160326504969051916),
     (False, 13592042271245384484570864685388635193212597764870317277863511044265364809391, 44433698772475222447621507444092150269709522632540524558088465624306648739388),
     (False, 34101700722518671438566975188971874555265296701122755962228582410281522434861, 33657065014710097174378366920663395447662145545933885598569457115114519207316),
     (True, 39132138745083002079097895103347782219683260239541743311156955362177347082475, 20791018389870573712749826858611234177044605590198015462045722431568494636412),
     (False, 7466251771345193560472196236594043952501735894304997151985394750687038437613, 38266010022941479620493263943677253894553190419572609436001585561577500329620),
     (True, 50583335449619415623014197088401402774942026153751691207577531342685579965256, 4727473786318488464894854809327133973045464478980551921594594693355562962112),
     (True, 772039214337833157767960973908226560404825053945464072251482949129760541073, 48693597975150226240798604229389869499884395663618359821214252036869791276884),
     (False, 40953859618268863544127184744986170305176485289625613872145983027544462558274, 53217312465750387282983051190876932313116152524229494495864902549702885099704),
     (True, 97833362010523922779681112760931748034744130633813819291688081811484873592503, 22576148993397786973261599260831098805669165205587374240940968708631924125388),
     (False, 8803408017407825870980207922267664228757095043549330389106031114895092513948, 26037015548882890898698358446177111193558560094369187057102588297917447515840),
     (False, 11709369494203665655109726374877130899653110642748445201019499336499124067251, 14217313629134432326215732244827764422174691416788186733769121478320792582652),
     (True, 6982584325424912098955664426695739510230765222798352869663728294943661959037, 45415881292322844478324648442993788539578059224187058329133139032075646236132),
     (True, 71251923586284077377474701492878869598060835047245854930234490028674903842136, 57206315168285196618148374991300230655586814379276273109974333790840348913920),
     (False, 56524802630101118736141647262461419564731285356534260815259573570316404475676, 56264206988614886175937727007701277546181663681283225107253227032769284181552),
     (False, 54678363762306241288558723512111733853742205459986440433004768568237763726409, 7121941921673326385703286487750438599129691168267628554597061480539879521972),
     (True, 1752176925721858688872762661833689435010974048270435846991898675765600320102, 50816213840728963627764604824967567510148632813391524255160305172929666542872),
     (True, 89204283509015493945165119696661865973095981044496859299252877339765545713368, 36536245762595031635284362285178775985711984688902027140238045861328291351904),
     (False, 23056795385889754954686603003139576826385395762304436354294414955294464552208, 41656691014414804524462745998970472702850137234345463212044204095041998580032),
     (False, 29972339521639795692780614181124775939814218125927260507032954469897541595861, 7158909595387151741325831826110772731383939888424661030584780569086262085796),
     (True, 1770414090720454955192387718463013037957517732971005771983650746000507215531, 56917314274302522033722733830007780593258084286015659635047822253667085694844),
     (False, 55955129327707222333122028619284883719430547432980651078525041810709419579333, 51590534117784299611052113774944417534305365511568646481082139278245241249652),
     (False, 45971762459581223367712140895773669702666495347878697939307387293109130577593, 43083077590441566255456912387404398792984578097330582289821352193805301895940)]"])
    (simp only: pw_eval)+

lemma pkr_d_4:
  "pw_ok 57896044618658097711785492504343953926634992332820282019728792003956564819968 20 2 (26664612809068053577337030073963514100755239614596305120411960740265964731104, 8855693633943794851183556383)"
  by (rule pw_chain [OF pkr_d_3, where steps = "[(False, 32060075725204692982809321640857823600360283688836349238736064098847180636655, 9193354094281964548770432939918821282961476143046624139711846410236504489660),
     (False, 1459819233931112295803572248725036549330755008547271681791559497679237988271, 42352981208859160430937922185876354918609789407319484264258407908046196085692),
     (False, 30982686798260120740294863099171296572399331218161177623399931408590651231022, 16124875105241349682547049802124201296341723190634782498045550700638625092008),
     (False, 4491007958699799721424082113430459508253575923835755574856956305960970610015, 36991935715599164376685042585878896817333629894181716684076858612908264892844),
     (True, 47271046476498919906767730916281540123628821060504827920749303421198263801418, 19875873849982343356889348583295737471551584701384963558408441390230407730408),
     (True, 13646886031765267555314073534592467649271801819540859237733363133621087713379, 20914751133621955093506657113281653229303566108654678042602451002233050008636),
     (True, 15110766818787885685029978226240396606066765776039385587468844581063826815410, 56812892289049205077204562675094161059236510809072285649411871929958467362312),
     (False, 55750004192979317957733729067742032169060956160001124493177963228282449460996, 5337064185735048448386387219426343557510244465910392559719059379274289237136),
     (True, 983979279077594359670121983819010959780034535202402814460976890308178842710, 56106029478003884201015007820091583580065954606771773031377876354623520585912),
     (True, 108742715137820475716371757115451301916551080791646547971828202338303940875755, 20632977212438640924973524060448430785830922345580743350754766723668532182748),
     (True, 14706350026261240356851610204651310900404001877908792288741955670824483473057, 44590815578645751142752048565589605204230813362912053716623784669739623521972),
     (False, 34343293174263170553899941318132515871921323402796836436152255299772960638196, 19514396450235572398999571830919482071577480201478769910407444047417655234976),
     (True, 13155015038600510228239598579162683581922802516434748318068006685059414241708, 15699219481985057662155587182677566610500211111262886160082955167955575449968),
     (True, 8514070139572574736708104489598279890752546293631048293582089038901698273150, 55066296291891898509917449330463598393933766595861295583694224009939069605848),
     (True, 104749711565933548250021877273185343590029793987815740663079234514038937377355, 40035312625388305140805140447799994181365964034353142148656365087203244120668),
     (False, 27684555440183474736492132776311583795715774033640178706591613040191355544070, 290584650552498624975793553852838161671566477549252522825833128737415657864),
     (False, 1458466458164665876805013085634661533547991771562607017578190257388169768, 45299564563587001304232827019577424351365305709225235079496721952123728110432),
     (False, 35443708860713344910222036652104569519949674383103676277199396305127156546835, 34800787474779586270218957890518678791965819445530815697719919865641982962044),
     (True, 41836875622224371308227330442524452636133642566031940988077268350046324634154, 30929740599704837519130685996075746739662888812844255151273231758897908011880),
     (True, 33047122989701840085503236895471235246458018053100316809583611345444508062488, 24292000699252185848265641352170969887935094459758096576492167473320389358176),
     (True, 20384857095481004878237334162364696558389915019317283431716800870109615747139, 3956577007458239317622473741154739995220027256037902465846267054375404965180),
     (True, 540779658405273388617332122488681934344989995138654144084189241502502961742, 40443930674658839166952529068375346967881113244890011590477510827521062435384),
     (True, 56505121867668007943736924550630323574374964567402520945424417743330352480696, 26664612809068053577337030073963514100755239614596305120411960740265964731104)]"])
    (simp only: pw_eval)+

lemma pkr_d_5:
  "pw_ok 57896044618658097711785492504343953926634992332820282019728792003956564819968 20 2 (25694946731416177490952640617551521376572453793105206968896228059896878345272, 74286942463249989038997190543891900)"
  by (rule pw_chain [OF pkr_d_4, where steps = "[(False, 12280658910995491065627305904485680681078194728918185262254163113330686624503, 6731988165292400963432522361862394831690886362295042799305333051298945072972),
     (False, 782776525687418479929151402172959101744986303429855974777004940447196027837, 35526896420997884995296941901649928755318717360900448695735433317873704020308),
     (False, 21800459385813676617774443534537857917570954116119989031995853269337405274854, 12221819253218401070650126215697887766904583388065460370079899810140114427272),
     (True, 5160036988440545648811636653476447319415146622249967020562276028289743886086, 26695653869401688839062639420590939035728827478316725614755393712632742280440),
     (True, 24618536212929262338294274898897559886596828555976731578451219908788372219514, 30648440899373707437362046809253353951178613222105588798125958495408671121928),
     (True, 32448742768160957310706663601601739915403680120759308428218332288617792415892, 20638270889319284584809908529333071841547927362207908123420601462809571060752),
     (True, 14713897231026284918132397108427789234355698174228757528917677539643426776468, 16538350407761765318292061666166730255991353341805876154253530552402486227344),
     (False, 4724278420252697207409119974812740588157842827644981855904888867424889611036, 46935425557781810637777796850474377329298817482306111449782272675178959548208),
     (True, 76099643310698316681422342554802447977727936664306464546504994368174814924167, 23590695821501200979671893351095395666944841447759955219050609564593323139212),
     (False, 9612417100480898936009429636605545834205136229068920106930207516481741226161, 9428679291391647284905195446821304809990801957816381775109365745156619721316),
     (True, 3071021302594063159917144937435770617655831002204377861972498829190719945385, 32720239937139563473804548616418240434931104467053314666079768625508091003732),
     (True, 36984015353579342052221731419782742716592204194703490278424018435793749187567, 8547522824392002712264395087238419104157579293244060241342053376883840669132),
     (True, 2523838957038430300706117648323386727605007894041556813443179406715716400446, 20705561038614556451972090069631027180033000984262693052475861398944338370040),
     (False, 7405000820826883928936788812164204412009299005217484259905047328405131542297, 37079619122427723217060026508754886050975564802551379851943458322218618261044),
     (True, 47495408825259219503889383602106814583444226853318579161143459202724317499948, 41349040223317454508810642596650715982792267225425364105183004532860936577168),
     (True, 59062519336200996356049497955425035910147299880104544735878257437164802052555, 20178125955109695144474089405926338077899203592579471033059964645168829433308),
     (False, 7032548937359661383025506973010991832518051162939856011900671930786161331752, 18316923019864705449510928841828873772845235588211513754864657217668644433968),
     (True, 11590072210477923072916704376376969448357745208416909731561061573397537071675, 7423617902144955667644417049597612665536102895155157648880895758322678677148),
     (True, 1903760545993734343612389990357159250388782012557857332774183760645034337529, 4604800195716282011180774249180608002601101916923005164521230102261090599316),
     (True, 732491657491754062099056529273056915738056676729102128244219881104512627686, 43482888299069411247987206038262334634452823392822614038682558899625169455384),
     (True, 65315742630888251126722927947958782516834799651449323625046280492987109274075, 1553338418161814186992517440764753873396933503270484371690263088700973926812),
     (False, 41675735488152107122418894818633548106379825414948956528633860431862647262, 38418237879864222619951234448739457867552355659355376145462376495793467300968),
     (False, 25493295984475212863770280777056781768163215186026875474920569608155404524774, 25694946731416177490952640617551521376572453793105206968896228059896878345272)]"])
    (simp only: pw_eval)+

lemma pkr_d_6:
  "pw_ok 57896044618658097711785492504343953926634992332820282019728792003956564819968 20 2 (11615275972287389853445370199158601373565215194958534158513590531423894365220, 623164039842758564052444144574015951811515)"
  by (rule pw_chain [OF pkr_d_5, where steps = "[(True, 22807440193161077516603277182656001246770903014272574539604812940743193466657, 2010195451250845193835413351652280419364429303689837561105084917398543034132),
     (True, 139591081872537355117811290057545514624946177711964460129371724014718464425, 37844436101869009448659097997161245525666737089555719963549139386669865636948),
     (True, 49474928841922731246325239868337585607341889279802462898253893887970149534110, 3037032822123378063978279670010729457379928861099081098326984214931251083128),
     (True, 318625164237289551202342420308922453633940397172347672261220282802083053865, 49311653008264107636866006651492027240777933201823657048517666287430622029748),
     (True, 84000181305090428269320195233599546058015318737636412060394733381017064484666, 19377236574663505964918606668572935227519431890796760913122991824537096969640),
     (True, 12970740911356573257795367102656934256918333930934597743770193844405837933476, 12363808776883786085971258985187190057886388618902367762048120729403821679952),
     (True, 5280629047397317230042392832799347337131702560717894465502887718219699996924, 35252618702026905388598260253849826841744823602194934697099912994328823604656),
     (False, 21465147291771955005831591174854936008046735343728455099247632395183456011875, 41519499524541425047718707582985502978817819111916448904503945054377859995836),
     (False, 29775243751502260886585862502884507574785618037613240861202167696186344728326, 40548394267507815640703865769359892863373182007190388513814578455762771891848),
     (True, 56797395694399302904957123551803113671911490695468430732959201801866150113007, 30428092102085651250547726842301182704498535085345075253586721081273209846572),
     (True, 31983835685888234961465589629637111387198651225351068477724670852603403959819, 43617915570814120329164730508613920399074109602910405201799894522619598632956),
     (False, 32861010994342520843346495900083927486662133243735636342600929958538821075053, 55603567655195490412895102804998588860895128254396853015752912039683269740692),
     (False, 53401864606645769372668604958322827601397335522633880302229855345263113613772, 8256887449628355724879842353011636464450095202869422012527606561632127515008),
     (True, 2355124285428617452649506229731679898102915436174422745407732264289708602836, 8720759493042909285664272325139638681483710802625596342102080123173548307600),
     (True, 2627179339674231761130638350867076554916205814835142493484635609692186514716, 54739636344693654724612526359051487549481870650094045002179156041904243165232),
     (True, 103510621731960281578281241475540176753262643207566204889747376433369117890741, 4850212009466841925125135669195417751480866833508266622030051382321905926180),
     (False, 406324070870899296069553474116188862921866788010946012267688924116323981657, 22850377066005093606519786702485067640348223740673147987875813337440949698564),
     (True, 18037146941480079106378948412777233436338506288190710684224278761540176527311, 8143377041564970700127785643585905880326210459905774050389784650982307724364),
     (True, 2290815895209405069843807084098276302762212019358779585069601595158346524185, 49392525310367301065430804929224998189340237827982514899318357078944245966612),
     (True, 84275931891522004404756816335931348757448506102098477423691568763262260459664, 33157627997808280788455504180881140826988850237953946072875929176086560939616),
     (False, 18989696130065644821256625320087811099212429299509454563647558645114052206273, 19701997314901219426779477830553629032409832073435240198187055662000397093652),
     (True, 13409161221741912914517383387010069230331288661890337286676025688154730960614, 35747481527700594612817116071616704642111054313453172671859558316624927866136),
     (True, 44144032428822379429495059974749240333259037462738727114681496117073488042389, 11615275972287389853445370199158601373565215194958534158513590531423894365220)]"])
    (simp only: pw_eval)+

lemma pkr_d_7:
  "pw_ok 57896044618658097711785492504343953926634992332820282019728792003956564819968 20 2 (18913747691385030817251721032787883490139421131282986471062336825307375897404, 5227478849937283232478845370726746805493692460243)"
  by (rule pw_chain [OF pkr_d_6, where steps = "[(False, 2330291072577313358876244911616970230435061540932403936440122734584948518177, 54840105405796304171792731458096654376897335153530391673811486173435335453604),
     (True, 103890936962199500476822234224659454734997321050041881024773091816737617990750, 5412606062353378146497795869765472471096865566843254801930245967021593696632),
     (True, 1012031290883151346874855141648597490526834007243853849608456505561629418503, 56338992949526896296986201275187063105355039450548886794814571207647561589004),
     (False, 54823816505487720396539992217361520717872965302042930576700631927484089570004, 45204095860766281619415094920384102227121603287802196052726217031804412072224),
     (False, 35294471255309548068726084360363472103095108666414020639426792186538599561973, 39841090081768804827664067456445618574810820465284801609486454557935379668772),
     (False, 27416595889386113715965875455617425505536521085313849085886201893955284124093, 33645014332524226278041029667446540405988252105114167261764136754812998180820),
     (True, 39104121771764572152637412537670819555587209686269160178880787646460511813424, 2384891994341802732653082192173956354976942206414337841370106581403302362848),
     (False, 98240041476730673658100727125981971763522853094274105096000463616690596757, 15053121494548952463238425089026435221635788250119251385218701409295472962468),
     (True, 7827701122664489659480295110462376523927229313190854159199624188111666527608, 18871188655115331456533371944316233930278299239824891581440319823667382177664),
     (True, 12302110225408614703526499569167720630261397520926539555819786001607772364436, 3954002235785673434276639523786600268780210236359445103078060402993142424464),
     (False, 270038027357048642931154260670252080310943607515276349085645205784670666132, 49042944743227105142328468623570580628257105951153995687653378123198144086160),
     (True, 83087210704273310511480557477495932998317140258417879255267157121945835459585, 53584809259383186546055291524484774399061617253214002947284793919003651289620),
     (True, 99189221034942238386703255130350516484751483901487932490142015923804297334016, 7189360718819181732062226468130154400680932369370783408474706402106783737632),
     (False, 892753691305591813270727105386768684477105750529712156640967091560949864707, 32440617724416824513068850819981397022367980372551761155213431028353398192188),
     (False, 18177298384950346334132947319592033504998647164128900600401509728624395373567, 37224291923545369270643362462939326672162636766897996501150813832265030712828),
     (True, 47866755607783738171423513307803773123409410698956025631502205067877564187036, 26336273975666366729155150465704659505364475906444441215303126879331271721040),
     (True, 23960162787971736669382822992842549695147581826420763540738034229757264622249, 27416404130819279598983991460591739018290794537063583614631471088002237540148),
     (False, 12982911361481299351098019726867183532439615509528066214228234587462060549784, 3934952594083068032929026009287230189216992931612955153492903196708061570672),
     (True, 534884620172864162311140418352108711011522848372311783320502733211724396083, 559693008974430098080771912617815446579525285394705008927095622265369599484),
     (False, 5410667798779102119093757929593080579982409053277695167542858205389009088, 27122639211582276359620698268265326097005200370041409749200787280737717378832),
     (False, 12706179889266343764182764404554449130078484463952663326017347291811296893729, 17075897866691865477956904308369427873605585349709242513545967821504026378132),
     (True, 10072753324489548792290599454126296520202916668402710392395242460032873240979, 2822380917423195462698818249666781476182259802140194980748472338539345369756),
     (True, 275177141910224985713028624217562783618984208196240449766006020921219836891, 18913747691385030817251721032787883490139421131282986471062336825307375897404)]"])
    (simp only: pw_eval)+

lemma pkr_d_8:
  "pw_ok 57896044618658097711785492504343953926634992332820282019728792003956564819968 20 2 (26338640174009438942792877392143266032434330474754377369816207643891740899380, 43851270900414693622237902107641354066538832521536227241)"
  by (rule pw_chain [OF pkr_d_7, where steps = "[(False, 6178830593516700413490099934867374379726007978573846218794276768053867856488, 57230626789528300759663386086795868404915021666722716128328616934485910316592),
     (True, 113145713642300618489391142074938433917326328988619871329839412205408042121091, 37680371303805653514944815295475924941851373298024660838371308547462912665660),
     (False, 24523443543414358899339115083077198969965524128811607751559885287669059077441, 54733014323112449076937130290617208502336463671568528031264742722521789642532),
     (False, 51742789626229672993579164585651404406063465125126689312842302694732588192540, 445733484243377110006825258106316140210490995007376026952045236616486583104),
     (False, 3431639247281377318999879204014195838627868763142783959809343028172903412, 2752029591994667301707948424457771279864890578760403574108895555532923412240),
     (False, 130814927428972881488699431272876051589936942821453970104665218716004558637, 51408632826200872622204958633210513971191915252795540095661429423975868526724),
     (False, 45648153452739156770507875517262459215138143763043630347734284446881500977529, 45581692128350715313493188648721995463514425622898856833512528705456423223684),
     (False, 35886573443294852813250809600798973345993562684951463518292093826425680259788, 20254401626766330708087657779555591750549282627120363598433780086568613880832),
     (True, 14171634278661817778238880983933657277679112614163410348351354919886907437382, 39738654064447506267335176670688952157887558367218702696349903649800879528312),
     (False, 27275794698156562269706476923632558114477406883188510346343911670045669352733, 48629565628349307511984346576575104975536866495356134952694956312067762851460),
     (False, 40846221339960408808699779731220231443955366584614527807308263080364191624284, 26606210043024287781639421088825709997953489856000201792134018876195899714368),
     (False, 12226921847876899192116873631188579426641880378322859530777120424020048940489, 18111542040825000981105605159087580370663445787914880298359880257455533564852),
     (True, 11331618843987770995099539313464236567198297509341764149487322724623288464880, 17040121759028743710860984671335643657049191963899555488742294093940058137568),
     (True, 10030590223393222289291889166591247246462842579578192692736277644132929284181, 6217695089819121891263481040799345046620542835496318054269423468218836266660),
     (True, 1335487855331035405276683911714534380864671446652957852831106183137985677013, 52427166095066876186639708628403402498423460208254965896946420921030027655876),
     (True, 94949759102332143270237199250866188816889859335773695572115970937519860337644, 2797255209344847714685657478014188070677400870260228292630224934275608132240),
     (False, 135149762954363385484613280409085380583727074919530211012940768254494454141, 44538231900869129999819122877426841703217740628970907789434070686671119412932),
     (True, 68524684679972990961563003366390333019974676452719152216866921218365186660441, 16753753980785041642353973231783832645884998632931532096771756157228078396180),
     (False, 4848142464609983281230474844021316168814656586961223133744860963761390086602, 43944976068315398147082691105712949503436900158045493185497410493406781455704),
     (True, 66711324905344565089397706512474780356806091722670307672448273102582184020450, 2513160807004027727833455827141430983278670998598091347472860952973628334632),
     (False, 109091688101706563358550348542856398187809701134949538109214429303171550562, 965067815461488594925094480965529427615812551742507781668688271586262364648),
     (False, 16086692874688415546804277704474932981088751204105106702925410606388433006, 40259216558555955614846506551048684461945501906635264335340875483730269760216),
     (True, 55990164046072711036930850358164104976192181192357876992751012301731212452809, 26338640174009438942792877392143266032434330474754377369816207643891740899380)]"])
    (simp only: pw_eval)+

lemma pkr_d_9:
  "pw_ok 57896044618658097711785492504343953926634992332820282019728792003956564819968 20 2 (3103647000513818581593863746595192828451575478191857725278081421564500986708, 367851121885385902237053843523377123853400182800818968126491510)"
  by (rule pw_chain [OF pkr_d_8, where steps = "[(False, 11982234205899072274317784523135857449029088249267983181168923947762692148777, 49251771667566031347128560713360921395206504816433466727412951249427050980804),
     (True, 83796294837465298060727764813343343510054076838188666165562225171548452350075, 52871445018493106292557027941530211284960572737783299436797192362766913676732),
     (False, 48282913224138841983145048577612294181398486418076644145433798609583316680580, 33437790753646776157558494497853543391039319071287598327364159922921869989984),
     (True, 38623911455406799298934952782486376674160760531401394550270417932846601289890, 926652092793543202505701061031243545883179843646913003109174220828117914792),
     (False, 14831481264990012381011367444944068038225507723487029229298493429286253984, 27343191105860846280137268228891504932940838366216828097766448715093814730432),
     (True, 25827329130207395012696868839573180902542702147619901202310751679353548545755, 17482874841420235181780776741862722048398558318428789115424195842048839092508),
     (True, 10558611205099935744907144066294719511022823146906848717354196170837126383747, 44476577043392408660698123052821640510906393549212217293348697914340554874972),
     (False, 34167548379623141917880662272409923468928786171689677872921054423663669768014, 29566339041604000884173320909186719911762891451985448300896465491951712457512),
     (False, 15098931370544088130526179850565837593267677231823820491061860031353607029989, 36291296707703634328509137924322972231221290086401471461074917238755583809572),
     (False, 22748673513045719793574519637666807173530552337949151801388253916084053214395, 40931947959292656305877243336484135591998350723257912472642550112532542071724),
     (False, 28938494413179738960130974503980479429489546723489653514190453076470941923161, 36280776565910539741640957267548114973532558208744675790391006866623144316548),
     (True, 45470973255444896007311974683857462422870362241630483587870101836182717723197, 40698815619443752434351311616650091133142051786634611617312588653901245338852),
     (False, 28609788522438621314871498078272198988217383639591842140931958813142178444617, 22954896422034865734472127742243543604147074150632412997645955663909005857988),
     (True, 18202530871220752822636044196019876344370699581466568387661818122806720789152, 36630088084959063332997348754710508636117678009197345433911868353508695212192),
     (True, 46350777914090914187232272689363116497766882344915807988667824746683593735501, 8978159433325151852876890766520719907570032281552010898323326690033010315780),
     (False, 1392277267663776922979388127177029236295598551508395302832493644470705039694, 2990747592472937590218652530867651280580768937047392841334958210388013992488),
     (True, 308987296828222866005197898220264171667637758879788248440744172061472538994, 53336438626650209090935171436945855271024231823319503043999746420413421807976),
     (True, 98271849281311406179122718466026314750862774269844436160250990552998548521405, 22688291798161466240709665183003999945478452892958171589425124202173785446212),
     (True, 17782167611244038207216346127921858604157854502176218230869222633008278418786, 17954044631328666191946247937508290173687601561981691271752358308723659554760),
     (False, 5567698462769579930349901908219713255306831713482856971253951499819212957329, 52832538998976883418634109445548004596317978825738376303771606289957946658708),
     (True, 96423760740949523581329268906996353744846804283373916746976307577683500507175, 5904341893526604014553669758954672695784325889393943004571453206422307331628),
     (True, 1204270634557947820569133845640225772921407770797442391186534912047418393379, 11853260763370043681747756825849097677100362988326924393812022527716567936476),
     (False, 2426759749303652259355120317899422132444398329920712060404616263890732640541, 3103647000513818581593863746595192828451575478191857725278081421564500986708)]"])
    (simp only: pw_eval)+

lemma pkr_d_10:
  "pw_ok 57896044618658097711785492504343953926634992332820282019728792003956564819968 20 2 (19177841986804762780126517221787278717645454478265757828899649151612083855504, 3085758863856723262592967768210949528173623600644412402577631698097537)"
  by (rule pw_chain [OF pkr_d_9, where steps = "[(True, 332755882279879517572619081342446474099026279585374922769120108582522877858, 31666453305605558566418060994459591483174439221673149505890360528782619443144),
     (False, 17320082426372481702692531063612995230197387039825653783431576075880652499564, 48781779037202773673948566553400354961071297298278374871163902376830840102064),
     (True, 82204647371284662751384249044636131638535120547449981849341548658933180468698, 30724040795184846008520528811588181364985438276264022081286107754343254132488),
     (False, 16304510765835141518914383240617891136486178669320931238002101465194875977972, 4578565188401641522006274795554841960955684708753730877982336857112862884688),
     (False, 362084479561969100839051631819506099275917604647711764835795200349758894662, 15683442484538769746826919145401213853125796642054893003710030288529256539768),
     (True, 8496966236155172707093224132694482239028886786104100508315637300640293335276, 39820786037491397553793356318325519457899167661859719398449405310201794102000),
     (False, 27388658605058653188524444634829152772127562426130492878978480868350613082298, 21258925821556284089370136059087628451977669574166053783353941904186727919496),
     (False, 7806093318865269710208318039158674307591932729918608148839602784272716512453, 27654601382296247798864802838950975083714906485791723045146366464854212081572),
     (False, 13209485771455234495477742879554104219389077449147653552735442868524017563180, 31769558959117510203030793067817525481751175010367449676375936742702767676544),
     (False, 17433054073120152875121275661021616717932402629975857179704544855613298337685, 2313655330230429037192987467131352162249900170300040767558851933992479643556),
     (True, 184917675200857145047965577930371441764919429011258296480741807168006295685, 51869204771612004773511958828932377758884547812949196248696575665037150325892),
     (False, 46469744545767821415229636066861799633325193785468213087098541965379564281832, 56891713222329603243733040659436340405510843095594233481528636848562798010928),
     (True, 111809608227665200810937424367433537500714450002452227216224678325266221593582, 35571692368728078019855088970001575368126765721458964327093939407990952468632),
     (False, 21855470547423992365413144682595813781577222998642874714310593023927483576730, 22511113863272635521968958596820780932076057684041750459980083962395451341384),
     (True, 17505522206327565576547604816448162203806665455532238371823386640054692919087, 13322099560196445347781153186722819202043128094085542600306982156923134523436),
     (True, 6130931322192278562866189587257965520691177696341094592044570140906580585969, 55933549110310041531088193299956107453730934161761230666396475170032846382580),
     (False, 54037576084553915515965461388491460761353184415010623337221888430939357978054, 22363846764361031639459688049379434107766921753085569943604063102649882035208),
     (False, 8638615045191554599087592741009802935355719404843030866639830837652464557405, 51254796779625927333810817823695405844128098811988578597075839550526816488324),
     (False, 45375365626862432081468813807098951568235060165178035389126064358579207464147, 32585940044932142039845476265196495408227297085755168968257927290718507924620),
     (False, 18340518693563963803380743259886939012964068580417849939473738874630194663938, 11740186471134483371450535629473976339630781554829779799488205733696263509176),
     (False, 2380680395091967752923420818492577289425749842379870288887424257005388176265, 922633683689728996587450973820795086533365243779394998092258936300024064756),
     (False, 14703127301455521408851074924684258439413104145992914849584705163787864595, 13072866576316974227898223546883153798462142753177571835725520333728902398476),
     (True, 5903679315153414628749924130689004310629060068560771601813577942196520383276, 19177841986804762780126517221787278717645454478265757828899649151612083855504)]"])
    (simp only: pw_eval)+

lemma pkr_d_11:
  "pw_ok 57896044618658097711785492504343953926634992332820282019728792003956564819968 20 2 (44371267973696240827924906761690991163527287493963809558368668298767066804136, 12343035455426893050371871072843798112694494402577649610310526792390151)"
  by (rule pw_chain [OF pkr_d_10, where steps = "[(True, 12705172717527044120704682998520449236902991675322311254084296311818714361219, 42084882474508997145193160255034712234847065131871013289404901739988533391420),
     (True, 61183362164345574514339474714394086371591374898688790089612674448808952660218, 44371267973696240827924906761690991163527287493963809558368668298767066804136)]"])
    (simp only: pw_eval)+

lemma pkr_d2_1:
  "pw_ok 57896044618658097711785492504343953926634992332820282019728792003956564819968 20 44371267973696240827924906761690991163527287493963809558368668298767066804136 (27651515576129525770821673925127510678052452321176151172738131811063291935280, 2)"
  by (rule pw_chain [OF pw_ok_start, where steps = "[(False, 34005940035479998118309788083519113589028713244864562897141097187648459782092, 27651515576129525770821673925127510678052452321176151172738131811063291935280)]"])
    (simp only: pw_eval)+

lemma pkr_d3_1:
  "pw_ok 57896044618658097711785492504343953926634992332820282019728792003956564819968 20 44371267973696240827924906761690991163527287493963809558368668298767066804136 (40547982344268332090846129942688432742031556616963810958335008460412961696104, 3)"
  by (rule pw_chain [OF pw_ok_start, where steps = "[(True, 1508886678011728448033726691990992978835530413849916758037200940334827400357660240095684056831909807644806802499424431109408616963350883518838226136067474, 40547982344268332090846129942688432742031556616963810958335008460412961696104)]"])
    (simp only: pw_eval)+

lemma pkr_d6_1:
  "pw_ok 57896044618658097711785492504343953926634992332820282019728792003956564819968 20 44371267973696240827924906761690991163527287493963809558368668298767066804136 (33571254355584656770626135024958495672004571378828430603201527538389522211264, 6)"
  by (rule pw_chain [OF pkr_d3_1, where steps = "[(False, 28398120856450381246411473073166655477552570495874638582555339152484640790624, 33571254355584656770626135024958495672004571378828430603201527538389522211264)]"])
    (simp only: pw_eval)+

lemma pkr_r2: "(2::nat) ^ 37029106366280679151115613218531394338083483207732948830931580377170453 mod 74058212732561358302231226437062788676166966415465897661863160754340907 = 74058212732561358302231226437062788676166966415465897661863160754340906"
  by (rule pw_ok_residue [OF pw_ok_compose [OF pkr_d_11 pkr_d3_1], where h = 781764 and k = 547514]) simp_all

lemma pkr_r3: "(2::nat) ^ 24686070910853786100743742145687596225388988805155299220621053584780302 mod 74058212732561358302231226437062788676166966415465897661863160754340907 = 30397109428614726089754189191956088611235801571633239974164411255784155"
  by (rule pw_ok_residue [OF pw_ok_compose [OF pkr_d_11 pkr_d2_1], where h = 781764 and k = 373375]) simp_all

lemma pkr_one: "(2::nat) ^ 74058212732561358302231226437062788676166966415465897661863160754340906 mod 74058212732561358302231226437062788676166966415465897661863160754340907 = 1"
  by (rule pw_ok_residue [OF pw_ok_compose [OF pkr_d_11 pkr_d6_1], where h = 781764 and k = 453309]) simp_all

lemma pkr_q1_1:
  "pw_ok 57896044618658097711785492504343953926634992332820282019728792003956564819968 20 2 (6237949726600705220301702713288698680566259893151336798572759408594685242488, 12389652)"
  by (rule pw_chain [OF pw_ok_start, where steps = "[(False, 0, 4),
     (True, 0, 32),
     (True, 0, 2048),
     (True, 0, 8388608),
     (True, 0, 140737488355328),
     (False, 0, 19807040628566084398385987584),
     (True, 0, 784637716923335095479473677900958302012794430558004314112),
     (False, 10633823966279326983230456482242756608, 212676479325586539664609129644855132160),
     (False, 0, 45231284858326638837332416019018714005183587760015845327913118753091066265600),
     (False, 35336941295567686591665950014858370316549677937512379162432124025852395520012, 11986290487456559291893090245039959211373650756404199011896976469569132560624),
     (False, 2481536702481240790899741339793429055479701133161806826681795909715484475492, 13445706162963504748128893980653609905447152455223460271305423191836836554960),
     (True, 6245228509530778267410942577683958214138966686050447550331681548454487709767, 50951419447251510849180351362583566884304167733383043895495681807792965171084),
     (True, 89679602839504999935224650452725398992239090783627092763101772731164611371898, 36767625235568764366542811557717813055041989833001066451298583253551142448808),
     (False, 23349751686276182792442282621464119999099390072340135507583558716739055338157, 8884591625269253431561499681388148582108351334427400933852462011319941465028),
     (True, 2726817310844960288607122120955565954076777876643813782427347052684917231977, 40855186631384345280173973851732273282818301452667946633355485408164341004372),
     (False, 28830057142579514028891764186149635749159764885131862159592037042952301809099, 35339818357724448466795137431499069705410694929402766038629615600058120007532),
     (False, 21571469515457630207339050484978828190859624495526294611858064575793990395884, 7006826649857536607419482706399647080083242338737650812708595844300036436992),
     (False, 847996094111959350074525647786091541589650538481887011632395459399951136980, 52866132063258515343280387277491778727979138315835081673591411613582801531024),
     (True, 96546419975267318338172073952936532702654109250654681670857139829506264461592, 37316044174341201330127627951288017080074102768860753273139244759014227539936),
     (False, 24051507525138056366822799124137554704221956677038112756869291068492714172613, 31523143363533127204403819044369720606058971720113913280051131626248337199972),
     (True, 34327338734902840675539693522821927088835612099552383022649970073242584922860, 40764351810524807464965432837523696770410271898324149979143279826190864390288),
     (False, 28702001828924810413060250823688449472206912391638455570703496328227621009071, 2172656436453575069687894903331731276469227734172218820682015540626798974636),
     (False, 81532961741256806307614309243104283211300674295484955793162486460280031346, 6237949726600705220301702713288698680566259893151336798572759408594685242488)]"])
    (simp only: pw_eval)+

lemma pkr_q1_2:
  "pw_ok 57896044618658097711785492504343953926634992332820282019728792003956564819968 20 2 (38184011651674598081121541657111272022899336997555157203836659749249163423372, 103931940682867)"
  by (rule pw_chain [OF pkr_q1_1, where steps = "[(True, 1344202943323616206922555642345974586847295991154095209751352460630128981052, 11127609490089763961381758222867560826549710215407685548972169141999637234992),
     (True, 4277449134203245544877625174585950214829577673666380734902496867131443047727, 54148254370457362258191346213015846174429981090505835788092505273507932821932),
     (False, 50643070190374481655953336742043964117226889258902215524530729249939018892977, 33702458710381436786474910867779651730596752603760173215350686196490533507428),
     (False, 19618882958351779077502408703763369501078334662628837863168378162664497020793, 11797132755741437487847873591752467074092167915105017926946482679777273996420),
     (True, 4807663189196059110339040005970650514330680124104947980390137203557191633138, 35974458891837924525403809237590069954921305428370690775676332654253305395976),
     (True, 44706394057996444832421597094523449087651387290916859978364621954304344045167, 2348270841575853207023993503464469707632750773410464996600103816698979393836),
     (True, 190492320562370635787247874893051526001026899025983400759710495405990817126, 48297958687759494680733227445835939600319790957290578129044568196010404760344),
     (True, 80582113295275732102533458914307178605232033236010441724311650128971779443288, 46742308421449182298237209240670135785629229225407013818846588365678752887648),
     (False, 37737351678455974404915951921396427524648184294858701134914609621074104311704, 28240480018880186688566115612533666652721374987330108703449913127991281900512),
     (True, 27550231348265667712532416532992396334763042729251024255735737189479721398669, 57277047997755387000152564848614673582250963144700572448047593139350619875076),
     (True, 113329338781113190196852990912066527685343052024108788925437973998102278813018, 53091299865328569814090224508496968273936027216166575358024686335561363528488),
     (True, 97370593792925964018499373506678328560192889994315742314265938817792779224112, 48543038519540906332911536132115730981123800100764629093901054529784754946112),
     (True, 81401988831210381390907203156159233131745822942339339522648959782634216405699, 43730095657436332415380487818774474121094580712704922882327557527964391749436),
     (False, 33030257572937032816462312857713155696890784881362327055882563599515326103935, 49256920113730361049194558496507178650367617743573902989959529442140997022716),
     (False, 41906907372883145663377188357729812325781301080067558277959223227769889126846, 9510902935870766527010774517134863824987822295051543654908970623409296892648),
     (False, 1562408541919694369238228432498832730525166552126265302863005571240740999791, 24520893942737246344815966696310818895199411540763644121031532939129015821036),
     (True, 20770822729302518127689565448344134647988217993966914587661220129381986652790, 15030153631823921078715454259392754828727696867646468215979617960580818371672),
     (True, 7803832530674382892320676528753102142602411572630057257955457139791321913138, 34097882242412195702393556581747773841116192915019041901933730675669198474344),
     (True, 40163903460953114229683541567003510209770795288980171359592277031246564261672, 25483285915729227432233465017214088927265780257351303318567682952786215027616),
     (False, 11216618774912351100971460708442155072109091038082914954269288142361662695364, 53326673079120583969085174775315918793950543454333468076735232732454608322384),
     (False, 49117933365191528540245889305030730034773273842218587711217316564409111988250, 46880879312052313520997184102198030967105663923582734835568754155865333832456),
     (True, 75922866909043609048159457278553393073978585103954554697955587716695354091063, 55908380629442628276511448415173177879167646314760688285040713031193567059148),
     (True, 107977912660351393794393287631060330368234529479427084925774656929782672080607, 38184011651674598081121541657111272022899336997555157203836659749249163423372)]"])
    (simp only: pw_eval)+

lemma pkr_q1_3:
  "pw_ok 57896044618658097711785492504343953926634992332820282019728792003956564819968 20 2 (30696318807572945892912462163281569162958625178686511199981274894933361642608, 871844309067829118604)"
  by (rule pw_chain [OF pkr_q1_2, where steps = "[(True, 50366782581390622058630533068512524099026005448154788957651798481225634214945, 13526937522468550336417337612947517178842342474279785739680101588936775977908),
     (False, 3160458368822651170853131750882210824395602438422255317501070095654270310399, 8945255188362226379450890709366029243813401280579953305543512672348197017212),
     (True, 2764181591746740675551903249111804273440962966946396596480573960274245096255, 6725129792039992204487691083389722355992798444471783064738953480881644411148),
     (False, 781182393679593292348975439173017026955215128268505446142945382380827252355, 53320296494197634858686477415595004050908423685167339648726708507251532700364),
     (True, 98212374850661785877040337046444551501412653692554666035578808364318005024292, 9538335153096945004450935328833996130446187563534637043261384144375265288176),
     (False, 1571434423405928913443639241478975381432616607697217144786692616959701688336, 37457240550704409159432427902993707199210441967831671405065045514898873680448),
     (False, 24233863969718873459627172776147706245522956705544093839954757442029717986130, 34092298792230825128163190487959568155614089141414542711618562488472606159464),
     (True, 40150751043333798304283052516981521405269346176857540737633903429631892868950, 3312000155346113932595949322450311826897870240010415031681212699041683719992),
     (False, 189466225219081779529890332906918536325212340974411680318176718084059262776, 20962813809154451429405095272428095007041673010698014387010604774085401824416),
     (False, 7590148268188580771552875951151024732011783196916756641593574261408838994970, 23429664355088404785278528250876956467879316998827807448525812632381966079496),
     (False, 9481635151552147308397495059386324927199757583200984034615313765210461093125, 20625721331343593615896206675251927661283394489804488501715131583369705956516),
     (False, 7348004224474125182282985710181786949240276060514331589148324727945913762101, 9382516099412822849728840857295465185537745188056263705042623909932111667508),
     (True, 3041023231744952661845528721549247831334425056569660688155425051197862550660, 48188789274411090085263147286511854643802615239124003379778872022553757294448),
     (True, 80218240366121226545746769276642811221499682966688308057697988538698570098543, 35218705558849370642769204095887204675850681592072066725121129545896531113644),
     (False, 21423868062330443500590281967447626510652720082007076218639795316799149955427, 16479418603041622736194342512225500641351271156371528844293514618270362500940),
     (True, 9381339926864548880903780834563853496579451342919026973641950141974156776227, 31968565648653861894065506335667194126243698406879453453306300907358619991004),
     (False, 17652141806297702192777239732931670501242307659716858967947534632302760453414, 53771739162546372398135399396519214775242245532876154980360693218371289025544),
     (False, 49941234355638775709132258744471277262960912634195975800667927201082007010781, 39997785048568132859815377025273465553416665180069984513445450280212124636548),
     (False, 27632678870015366333339940707177022527995268051947278358571287393595200058768, 34255120111258415489272558149650502890744576575878496999203343394170158652240),
     (True, 40535178579663664906607313664046423487324647525324991485321206224820676761936, 44949897787934623816065074347031152570958714008893055235038070927449014135872),
     (True, 69797283197983018080311137746995995510839522518740596687186836779035833676162, 38028355041245041366534768160078619338833401216706788761197527837779284721192),
     (False, 24978490269384241142349778144973986898008999125948906920409483172442681012858, 10113198805821541020767250446501171372918772492478130967472747102382131009480),
     (False, 1766559196914630144784573529772931232434853174489185859873417799943376751004, 30696318807572945892912462163281569162958625178686511199981274894933361642608)]"])
    (simp only: pw_eval)+

lemma pkr_q1_4:
  "pw_ok 57896044618658097711785492504343953926634992332820282019728792003956564819968 20 2 (37235660435835427745156901709796964145873337070012384922757354680000348218104, 7313560145800863886959849757)"
  by (rule pw_chain [OF pkr_q1_3, where steps = "[(True, 32550202506666375387289913658176734375321636821459155625980714958232507752435, 56221843051355577345028130486070732926701104413451663548531350158307908509948),
     (False, 54596054996693174565575353054187638849661345973343862001513766620417018568057, 52220796583079137574198809991250771595243737679333790635685718666980625761668),
     (True, 94203727171113121500915702786264710983074644555206187780198399941225170032175, 45473810146280782176376900990115790423145277265116044602972097567726034457548),
     (False, 35716902991220570292731356416469101513636511562843004603130577001275034132653, 36570602972087655600187880364343676558240743035341328605726839491247321610260),
     (False, 23100179132290171506456870001715143071857297007044249623353930010310191552526, 5331697208527817920636952945573610098702582286598423226860118572175562678952),
     (True, 982001285602926593086264780001891782577107867671311597482532486018711952154, 8685462524651375217866465973357291501318928995945771956495444324539446868616),
     (False, 1302977772730476894516857411204780755560224506712638317317829668159310741456, 18070893028473646889378838944647556413947243842667915551667750878966946391168),
     (False, 5640405609700290550182994546205452377097302278591182658761562501580548193291, 17916055746226638244775166810124092913567212815245918290587614593276751835356),
     (False, 5544162051416842837064516340515651268386866734312767824937863141953787543596, 22701070812561670782989750083148513703711806148454407417360469224361591193728),
     (True, 17802204604176422763247575674476766170932440146947055337114370538501254197958, 7075761443314692589911995562864136075265314943910784410182337535406633809784),
     (True, 1729527477480351923808974846153534685332558535540543736089735588735693193488, 53032616923506119317297624737143784402900531648360020827923667225082742154688),
     (False, 48577730590752301715847423463179753708419307098994621265173809359329282361126, 31306837962938658214735237411171142185132346952430697137538574569868415835896),
     (False, 16928930286920421490354240860783943343738696085278622756010273757807280499725, 57309803912542489237010216314338469661142379323847350191537592004972313608516),
     (False, 56729499331558927700395097790750853417148773979650998223510955104495414215149, 49452012090102112645734092286406358149058384210781746753289487880722388730004),
     (True, 84479052614640838885261623986311336305600782703826312922698068471800836257924, 2167436000680598102430124766276484824920662201395184891693328404682871412080),
     (False, 81141619397128165725099763035523125070467942796195609388240843612859687694, 17619384567401044590520255356575361437979682789576992038159342017734548606488),
     (False, 5362071184288193102796960651195030462541930838018882393479641569488020834418, 26892429187192148335086306202692757930325917576118742228125728613535784323880),
     (False, 12491401655357270457050165979566344026537903509780360283207895294437521765642, 4972485168221527784765819215902145289766941909608731072220983982877955627784),
     (True, 854138099106507162525606235072073606202579362511643384089514486970560930048, 27941144667178546134333769053602920834340063668502847622727778095266562503808),
     (True, 26969288505094259843604162022652018718524035943206336619006586040547374188598, 37722336014750485660774804497211740864718099929798112162171680038351564448824),
     (True, 49156195169545693158766995621091707392550848145151047836022654036403550729376, 43132949931738673343798073190165815097503611465241640633904703560408315573504),
     (False, 32134343236537950115109946121061048276024663672377075087626064337106356903883, 29131460183402856564958265885950656021157686613764074968966241307831789779932),
     (True, 29316060466890514765643196272633784233849058146295814451431394761153749852478, 37235660435835427745156901709796964145873337070012384922757354680000348218104)]"])
    (simp only: pw_eval)+

lemma pkr_q1_5:
  "pw_ok 57896044618658097711785492504343953926634992332820282019728792003956564819968 20 2 (18631522797684958326070137485252587142160549610067632940213139085711905918640, 61350589147546293209062491352442006)"
  by (rule pw_chain [OF pkr_q1_4, where steps = "[(False, 23947998817971335039208283146142573773640891374536845411528963369744293949909, 36699334111684393173075952699488595112484964717018123984950703973759637370084),
     (False, 23263093931757069084963094743059845444389237299975805005003240230550034762510, 7701944090978921718383052421967194889935755948862586173333002356616887617576),
     (True, 2049188098126073120565897952901737038843129367169936680450393620406050705208, 37393868431827861611785741960949630469453466932548092743698098560137502342368),
     (True, 48303866196974125256977947655553634491051103502405207752550660128543457873975, 2386388768944676163350953815030942257813756610476254894647809996154625641548),
     (True, 196726784845333396369661354474930525696555475203914190346643641972715322347, 17871960693812693923661983163529408539839930490888695821837234389742331894652),
     (True, 11033810034692800243131825689764845934487951019075920730677660467601551035381, 21878389261253192572667230148631128972759274997293416848633622439496809822020),
     (True, 16535289062308774646000323545178024545876178939540390755970257904288802506051, 7874927849062195311770993553098274773649296018728394839043129284882158255452),
     (True, 2142270306595348644378127259273202223799241089441913488688961030402576141753, 22806618677359913251569030800874754539022344980047433560332198545913205359764),
     (False, 8984065473220194172839518981607761417353131452776332108253332062764024580490, 68615112803047151798324761672483262666106373142340058082286343433586521176),
     (True, 162637490556915595354007210473126493971926319549932020297383073870879137, 26304255239757800824076706022794636795094423642921169320556918466926918221076),
     (False, 11950969159909472803244399210524011551712482925977884873492062818402929140921, 28012806767535478985857406763125989007186620328488864006778778030797726705668),
     (False, 13553902484426224413888119413866927400694390382390155320757542537889752853677, 36620256601723323559152610112533812910612392689517363300708493633161208577428),
     (True, 46325900237540029643950262207339104456848143092062734460017167452881020276731, 36828653000412514562567213729134810045807993346493672817379757497992793160380),
     (False, 23427328943775276814083773249221767683314714120465883204214324352886677570300, 28608352960491068358714225901495371219265979892269578559268342035358789400000),
     (False, 14136334606324401012640416256168210471165254558455809207497786012542843188166, 14321599945969047199396544873196885360328697681001534324505133130351925664632),
     (True, 7085396812972629312555509416214018207085892869604266812344817776320811481564, 28206617483788711511470353947666722605131383998392477483661274053831089952176),
     (False, 13742100606651349153176874905385470240460877674392403953288805190159392936302, 16056067823078995357709028019019940361922280961664797654256288823200304182680),
     (False, 4452762112461005641644973698428157045451916445596897493094355906439063945678, 10887193310195925560022484875459457353054145476822335606523786813968289197656),
     (True, 4094614026028854506508415662637336854903275202109779323549552630809736072437, 16098320307104898352901279361703672279402155186213826647241957019500881215396),
     (False, 4476228357517674752232455250229598675529135878049656406184320316065067014111, 22128543831897614427405120541819632748845215783677772685783886445931457150588),
     (True, 16915575333186327145164614628267232094610539781857000580206156020936463518163, 10203874480297143171812676442246190474225549480397783508528771314571494775964),
     (True, 3596758814715468660885895822672189422894428701549562085460465064947482197097, 38828982855647916180927632662923573444003553577248481427696295459257850967636),
     (False, 26041328376313952096770598456900964741475751292916902651979763922188809183272, 18631522797684958326070137485252587142160549610067632940213139085711905918640)]"])
    (simp only: pw_eval)+

lemma pkr_q1_6:
  "pw_ok 57896044618658097711785492504343953926634992332820282019728792003956564819968 20 2 (54174540803231134683060494650026597741865019527785709117939538589068012509744, 981609426360740691344999861639072106)"
  by (rule pw_chain [OF pkr_q1_5, where steps = "[(True, 11991618565555130896956518891370547443845553359398311941060311320627323697914, 5606547695939437949296974825757386599217370821810812510863278343105645710728),
     (False, 542927885210206896096497894332821071875270352791811060504929298512078368385, 24232408902890977141066462268189781277306456041627460274859129690761113746004),
     (True, 20284965755593965182210783445016363628246822805785747957082853016811076648732, 37673808689562011479017555373244592012301017884474747511251461930130029430096),
     (False, 24514902020099602578351415596879066587613433764175773011295103903191182931164, 54174540803231134683060494650026597741865019527785709117939538589068012509744)]"])
    (simp only: pw_eval)+

lemma pkr_rq1: "(2::nat) ^ 981609426360740691344999861639072106 mod 74058212732561358302231226437062788676166966415465897661863160754340907 = 69490809710348678725736597923071784769591275419387514694139338586948360"
  by (rule pw_ok_residue [OF pkr_q1_6, where h = 781764 and k = 731512]) simp_all

lemma pkr_cong1: "prime_divisors_cong 74058212732561358302231226437062788676166966415465897661863160754340907 (2 ^ 1)"
  by (rule pocklington_cert [where E = 74058212732561358302231226437062788676166966415465897661863160754340906 and R = 37029106366280679151115613218531394338083483207732948830931580377170453 and m = 37029106366280679151115613218531394338083483207732948830931580377170453 and a = 2
        and c = 74058212732561358302231226437062788676166966415465897661863160754340906 and u = 37029106366280679151115613218531394338083483207732948830931580377170453 and v = 37029106366280679151115613218531394338083483207732948830931580377170452, OF prime_2 _ _ _ _ pkr_r2 pkr_one])
    simp_all

lemma pkr_cong2: "prime_divisors_cong 74058212732561358302231226437062788676166966415465897661863160754340907 (3 ^ 1)"
  by (rule pocklington_cert [where E = 74058212732561358302231226437062788676166966415465897661863160754340906 and R = 24686070910853786100743742145687596225388988805155299220621053584780302 and m = 24686070910853786100743742145687596225388988805155299220621053584780302 and a = 2
        and c = 30397109428614726089754189191956088611235801571633239974164411255784155 and u = 39239772012169330171569421227389829580366043753099518449853970084299219 and v = 16105919921604777793241658952379587005267313854351941177392834991031175, OF prime_3 _ _ _ _ pkr_r3 pkr_one])
    simp_all

lemma pkr_cong3: "prime_divisors_cong 74058212732561358302231226437062788676166966415465897661863160754340907 (75445702479781427272750846543864801 ^ 1)"
  by (rule pocklington_cert [where E = 74058212732561358302231226437062788676166966415465897661863160754340906 and R = 981609426360740691344999861639072106 and m = 981609426360740691344999861639072106 and a = 2
        and c = 69490809710348678725736597923071784769591275419387514694139338586948360 and u = 70463328703800545008217672123162676565183935400628861884889913886334520 and v = 66117633491858138461393741777649859022484251587227054915412604379442197, OF prime_q1 _ _ _ _ pkr_rq1 pkr_one])
    simp_all

lemma pkr_comb1: "prime_divisors_cong 74058212732561358302231226437062788676166966415465897661863160754340907 (2 ^ 1 * 3 ^ 1)"
  by (rule prime_divisors_cong_mult [OF pkr_cong1 pkr_cong2])
    (rule prime_nat_coprime_powers [OF prime_2 prime_3], simp)

lemma pkr_comb2: "prime_divisors_cong 74058212732561358302231226437062788676166966415465897661863160754340907 (2 ^ 1 * 3 ^ 1 * 75445702479781427272750846543864801 ^ 1)"
  by (rule prime_divisors_cong_mult [OF pkr_comb1 pkr_cong3])
    (rule coprime_mult_left_iff [THEN iffD2], rule conjI, (rule prime_nat_coprime_powers [OF prime_2 prime_q1], simp), (rule prime_nat_coprime_powers [OF prime_3 prime_q1], simp))

lemma prime_r: "prime_nat 74058212732561358302231226437062788676166966415465897661863160754340907"
  by (rule pocklington [OF _ pkr_comb2]) simp_all

lemma pkp255_n_1:
  "pw_ok 57896044618658097711785492504343953926634992332820282019728792003956564819968 19 2 (29965682538202139238154452199528621436240239400679311591035909128474666598167, 2097151)"
  by (rule pw_chain [OF pw_ok_start, where steps = "[(True, 0, 8),
     (True, 0, 128),
     (True, 0, 32768),
     (True, 0, 2147483648),
     (True, 0, 9223372036854775808),
     (True, 0, 170141183460469231731687303715884105728),
     (True, 1, 19),
     (True, 0, 722),
     (True, 0, 1042568),
     (True, 0, 2173896069248),
     (True, 0, 9451648239783810422571008),
     (True, 0, 178667308897216803844041172019681532254433604272128),
     (True, 1102735341553402596310854, 5224276227137439182359211610032770964119227448329156370456386700117210870322),
     (True, 942829938632377296283697278013626408871977656445920132388689198435089693638, 14046422762284079012395795304813587913913707185210629010741763570782359982906),
     (True, 6815733051070227683007179917180087812609369800448030980539184427408636433503, 57667402193205334524132346572890988529514358996637946074273776214954518058325),
     (True, 114879325439831120582747090688887667074747292471742683459243989529882896618193, 6282583251470661375988401844536932193162997771953941038931304321688160879093),
     (True, 1363507734306928362696447675741476609570644136198115698492051297579001177689, 41773579711171363526115061832776734394027191205387144658354332233763888087437),
     (True, 60281560627484322310792839924240717015033807934019655554939244451219324850406, 12423445338605615203288152012494886359718374004368866621880955284358764908644),
     (True, 5331693904062729566037547984692072219510661479864448302962544173935049584407, 31860177317140150806945610515978157008538745288633840599826077183006098902229),
     (True, 35065293505473288976672381607127066069505943702778691011549454109933861234535, 29965682538202139238154452199528621436240239400679311591035909128474666598167)]"])
    (simp only: pw_eval)+

lemma pkp255_n_2:
  "pw_ok 57896044618658097711785492504343953926634992332820282019728792003956564819968 19 2 (12725503070822417001986919429249837080124537636621394363448261139776490441667, 2199023255551)"
  by (rule pw_chain [OF pkp255_n_1, where steps = "[(True, 31019118348922017079496557108320858793725621413120280228424085478614676735374, 37220419053942053202281425929749818891562230118522756619478076890995066343852),
     (True, 47856795871840759911024015570744251322235577976228105126831564726359485557293, 41673073471405172056591865107464322704643582559670806345915694214728927557751),
     (True, 59991837576878843771554544271772015880025582439139954621350529534145438039506, 14357806875099573081046010407345500900557142388859621890028323395882441450808),
     (True, 7121267769516051285566233254304252315191214831187063451453953938710815970236, 55874371979775216649385573191891013441786433360772204296104158392582684667764),
     (True, 107846588301411657130737652676825599297713318326640615414520771407115973263167, 8456664400796649213982160158192303565222228470151974305050350702246773000909),
     (True, 2470468345765169256498627346708025649968788340042232423154962042227618355247, 24730223749460300751989297794801363965226145514383745241035203824332555230159),
     (True, 21126968888001574160911701676469058525009290688311535334857835858306499080215, 1444992902726793028090455788455824656657439623120520683073984908815343121527),
     (True, 72129434840800993737594766937562980241504242759286808727511959662022683254, 831549168060017679827524564160905062311858293960840749036373044768214189412),
     (True, 23886744714801014886696507769537827772679352855246385159771542539295817218, 31481322809643635092733215727019093627902277071797746415030516831487441729606),
     (True, 34236317605904163585681062992716918235371304725150807566214975380922891374656, 37822683121557414710095899167460663848543473551043355343191920648275892017928),
     (True, 49418068814073027786939222965101384818570426595103275001994154559470811450263, 26842178458649787340962453003574671094533543717061574803129506058013583129781),
     (True, 24889525671458636133049918620134199815995737275128861818537651559096112549957, 31330852820456173428782778976368283529963853047524718861656227614838005523729),
     (True, 33909823889445468395816053112666583997348647557673551830151649432773615972057, 1410276654374142921912072096561494027695175688319923564839723865256343965789),
     (True, 68705220018839470701708344091363781623830380996174727005071506490276201279, 31212145392841138827272572664870072556204669421137992332397064300137686270271),
     (True, 33653353227861115471807244732842623038077835185459716990702003422470968482121, 2312173971283518761497399288637533573442699377561835361619694099549526195053),
     (True, 184680957350171053601008169484232251864932553604089789576768160930510728638, 45194746422429305393991597713404774341842436791187289784139113732634335346156),
     (True, 70559746098075625025131452555425960169398508764954262929862801133083377400181, 4500455057296538258870812134262857057835079713243151331317076981750702941903),
     (True, 699671138370607142638158399561479379192385640216381956865657898524272280113, 1153787188972287606307593351232234866874600405081045113565790564094448148581),
     (True, 45986729705108761893603616490337953950205357797901125778761069926574284463, 40855687261085163679075598424383040827337295504513323885754385820034201474735),
     (True, 57661527400359551235189990161715595912155971929750886157147215303049275347867, 12725503070822417001986919429249837080124537636621394363448261139776490441667)]"])
    (simp only: pw_eval)+

lemma pkp255_n_3:
  "pw_ok 57896044618658097711785492504343953926634992332820282019728792003956564819968 19 2 (28310783642159936751895284043735237400895841602549197481456743190793174377435, 2305843009213693951)"
  by (rule pw_chain [OF pkp255_n_2, where steps = "[(True, 5594110253028340288798724916772088337448547922689054508110472075031578891454, 37940261703003466530301850464572031464419938347212980071669803697540934661932),
     (True, 49725796211940085457352700556331510706638872021124800585935446561303865667288, 46131046929608509272025581854558611791457008173809605434919116803945800816936),
     (True, 73513605457459201063452174545633124813758896002802747858592922549656155836418, 38312950625439929102367916361458591974819898438434820790339388288940301753510),
     (True, 50707511896394559525332794583552196075700316238902702544794226182985420195280, 31618672342086410660348971369570541766697605926830740459969996597839974999480),
     (True, 34535707828096941879021334208018637816193227708579053180709331689349993804823, 46829877536710347127320434698448566838685447823836470715081022519073557726773),
     (True, 75757763576012600060890577488242269808913106080196825788218696325009937112779, 43507094491014531035987560149431406451208903237536722355187496825765599958787),
     (True, 65388483220840084844503722245902371806649787950636647710512328994131542996056, 57216950547371830068827719320242948460997140955201589226694955077452539901594),
     (True, 113091643876664973192676911548936802639023553217373243526750777290065189757887, 25208240221263666284244628749673508130280695788255750471349331134717349793909),
     (True, 21951598912791625014794482044960899374008813768385607956460346571117008405495, 29425705163516375894843110016508176480686115837392058736552579167725289780807),
     (True, 29911270452874792860804306021600080138446300369475900803036699849147729663689, 45046667171868977845557852166343106279028118565024834275292957446337603010637),
     (True, 70098129730927745549334358220234237641903814119017147622221604529308147930369, 33554756388950575406643830339888255401410403513173150599997540331253196160357),
     (True, 38894597506198890090533248757559052673473776389786401076392118655196940720228, 44642026779291232422354173453679535107134480188421520711687674042532114506526),
     (True, 68844445871547581578443438305970153888435062845642087781737184812917979347250, 14064963947811269298278524791691281423084908609845960596586683121720194887102),
     (True, 6833738372153958390816763840328580942651894780661843387767566082887943899746, 42377152215527182989335328374971173558542091039079385017153574542379655083854),
     (True, 62036121525276786361129582727978514126980334016848541147639853690961492930535, 21847452534710602092746359412823104712261255210105361772448459469926903743917),
     (True, 16488559292791830443437233576266510341323679343687904878891414320641194052143, 51233491304434306593820827809579342932574496836920566022732946117164516405071),
     (True, 90675300826876570257964173589869632215551221053836429204874863958324782489758, 3544437534908314905125170100574045874120208348111117397610725049021502447740),
     (True, 433986035544067378768525724930806284753631410967524787277712256961097284482, 11031103431658649564284950039691621335441819141482003785330424283625700483782),
     (True, 4203577074097247009668451653940048620250453719405284675649793245333694165784, 22694371332599253447191450960592330978402329053668220499847134565853973622032),
     (True, 17791698675592190232474878770473095402612049298441782134410277495684257472537, 28310783642159936751895284043735237400895841602549197481456743190793174377435)]"])
    (simp only: pw_eval)+

lemma pkp255_n_4:
  "pw_ok 57896044618658097711785492504343953926634992332820282019728792003956564819968 19 2 (43765620297419971205843694015456769443004566965438152645146172353629561008700, 2417851639229258349412351)"
  by (rule pw_chain [OF pkp255_n_3, where steps = "[(True, 27687572638594103054705923628922746716039573944299549405064096788681639080602, 40774605092474466487059636332982967235493057760401563919383642614545645829152),
     (True, 57432884453438137317648403559665629027897111204616886666763003208069461109571, 29681671761315073482538582626460610693621576637624872798416464178705770446329),
     (True, 30433914591206086655608294228763483276043747474712097525447955223123828159904, 18878952571897396674442432668174851814068411255301696874725003248685998027586),
     (True, 12312234887876602463302682203350084809372534625901331288256269873514451665759, 50961823044044079682291874088886034062798460829831489998068398232543870548501),
     (True, 89716229323738468356297928799983150520706210586994565637666193051278784164853, 46281085050630773963913766411004831667293261619053526625279778566314907641505),
     (True, 73992579201980196177133953064924036416258108289854623838354300765080031423563, 42518445290574344389416482979224524143612826477025266152184200731679946271763),
     (True, 62450490420720726365096473025375917461390301069702083230526517023196685986030, 10776410042155387628757347139278587990459279206029733971475795250528422943868),
     (True, 4011708024670205646904773237461208104412745582931813139880285262458445039294, 57140289167386179571914958435061541047398071664847524067297069223469617526842),
     (True, 112788798186061165568232112285415094613530685650188299178786624149805459222425, 32267931274891655478184199467643527553561737611723686052487006347161512829603),
     (True, 35968584576694150731802210657912269816102424359723198576522881775916193206618, 31270142707819730893125732811113788503899031967334786644522954160691301052736),
     (True, 33778536389074492167093623245750137635126640889871494829332431893709929059776, 34258166528311316488034424742641032338801523995662611775475450041611407899968),
     (True, 40542388745613475419412795521961885166191856346960060743357652930813232951229, 32701138785477294685022258595473138323480591694189213720300681212597505534727),
     (True, 36940847510761537049519302323760336569418914353754154818909612656321600318701, 6551952651523179037334401176720959874396649372538283057572150954033323362809),
     (True, 1482936661063965941508723763038234862371988036480666090347743413112811770965, 2265485014633511331062933614384272003015725064121437119583661948537437760177),
     (True, 177297858094954578974222487749192763172459566360835587831674896873228531320, 21840033593278604262908027835695239214198655467837862420243244211695626839978),
     (True, 16477362849130450598533503689684345657660639061566213704638782611607952819942, 544734975573418274629760138647082823830392536981593142938960017249991458010),
     (True, 10250655137755083936554601777335218503622461026677150232654266668018655170, 43584484221788900868419546690254479977558121850951190428318500286667018333870),
     (True, 65621314111920564825831336846232123239208664988423875896416652106963270576764, 49591944006784683262192128848541511732298204188838084179687636006996535288764),
     (True, 84957821439134776331261502280840113420261735806276486858221555402042411995466, 20756486169383920521134455532562552711687687217901827738778514137285634944158),
     (True, 14882941345564124828066017612008485121994852820235293373220361869233929282172, 43765620297419971205843694015456769443004566965438152645146172353629561008700)]"])
    (simp only: pw_eval)+

lemma pkp255_n_5:
  "pw_ok 57896044618658097711785492504343953926634992332820282019728792003956564819968 19 2 (24977296195056901874042652720105099310444481248060662814903730573525270877231, 2535301200456458802993406410751)"
  by (rule pw_chain [OF pkp255_n_4, where steps = "[(True, 66167888761114278329360047299677447646835902200218611490803830916393541628264, 34446819942962459076117508892498008554615060722037806425794218891933501941464),
     (True, 40990137132804309067993861405480738383748193085991310918309078030973619724934, 17428871526260863785429713356690096210201905366964099854960834977827949018226),
     (True, 10493482402112578222049733773275244280863471691002947925447218845449690248560, 48984009914529255597717947851481220773766393842112514106411440539177103850712),
     (True, 82887639150859627985695389084459401301614568515524425440814149350044640278977, 34173355633475482035240025096660577257963197104544359244241478442929630901715),
     (True, 40341900485396506810626534887925053320998289030557401725810308111996057365195, 839549009537373727335591448127933459387573416171681425111262846257465607395),
     (True, 24348555900761357856719497658816941186952571108290407458726547343078040770, 30924531555065913850500907411981598969540926802104713979980629951941826051320),
     (True, 33035992638159361878070554388821304506817225796044458999502934228030073007292, 10206601475148846935039781527637194584781325524341657018546582116449603416692),
     (True, 3598681545818014046532595030349327627238966246022107880752365188520292762450, 10078996197941591827521117654050648724757670787365913398510810294488290330678),
     (True, 3509260953049044626037840471861058536515752603446055066082547407964220423174, 24829494668832271851873095263695645243787012425653556421762256145675278781242),
     (True, 21296923116951245854307701228943322563305897622673032852674013740373971891202, 7738230911551345549198896152119266338804972681543835554519681511733634936430),
     (True, 2068542610636003040148657141626538149954058585666694678296033673991557851997, 28386134145047664064908648067853568489164700854806897628919141988772787201647),
     (True, 27835152366901602869213775208870338142669300156406924730895913480295754491170, 46946574363901951083065463873840241654700729642342945764501467377662918674888),
     (True, 76135800261391303496220006170475584376563810867234292070259099341430269826758, 55660232023739941517405710433965571046517923154926197258950504889269991229746),
     (True, 107021522777331710532511463055934353685744418295791798033768540634561326231025, 19328068596642071616388258773760056600004400873025819700775715201434807731307),
     (True, 12905000268571371168102031251766382466034814903427797583691205750547279589538, 50474905824970365894909409390984680001117021966810417657380743844501021762936),
     (True, 88010023303684465038199101971432350675823760395079792878159552348849283571707, 31033228444585348421315759418180536040465828339768681257889441578444681097249),
     (True, 33268637746747086649300906977479322187440244455853081277110274589156067877483, 34893493536391011707119872334858521129496918020628390137352446654800704427635),
     (True, 42060071605713142253378839584932387232486306678018152651713985412535598399254, 33959849040268441603383559630429610870692267676446120304775157931210777468404),
     (True, 39839382964208848360334067271390003525226080343821050650903459576745340575850, 54432116579986566612700064865178477388249008452809642039202947956959208982782),
     (True, 102350871631821708217226978349463918223567800242376397877045874881216697941533, 24977296195056901874042652720105099310444481248060662814903730573525270877231)]"])
    (simp only: pw_eval)+

lemma pkp255_n_6:
  "pw_ok 57896044618658097711785492504343953926634992332820282019728792003956564819968 19 2 (4043360565791032338078027380609862533945144841446388649871217817879889873478, 2658455991569831745807614120560689151)"
  by (rule pw_chain [OF pkp255_n_5, where steps = "[(True, 21551224416963073931958173655969196502583458339059700066971628739627552918331, 44666734350811345786922297534185848357330186680870171487507256750286031869603),
     (True, 68920672239601872127110438747516143379289217536109008933192685770761686249272, 43913945491668488238467437891642359526858952048146193627709874418675378428090),
     (True, 66617145310951226535649859049230895090316809445487499335578021564514512252907, 57608036939302764840478145776034576230768319873591038614247645218099795254457),
     (True, 114642923946157193179762947389674802568062366165219526288805946914335514412463, 12388985866120953976310377947444982970384487555830578790313727805310640105311),
     (True, 5302157403045826681819926891373769556938583205314960449317747356958154950146, 56452777568112233575728564218974371806371177993011520015533434823606779550888),
     (True, 110090978274799507594614258164302118311941260200430991148351067799459978824447, 27121771317718166130446342152088812480578842322560199196561157068188728683885),
     (True, 25410733470850677615756904457297141522519319513288968301441171753949001603956, 8693388228197790815718534177035537785053224711574691503741616077445171268206),
     (True, 2610713715728084432186256106008826940331119867475596889210724823511239868971, 7165800087628305419906348963162552686507119412646729856902501367281806014393),
     (True, 1773823798640148924971310911663430344809015098267929626626178457686530130358, 49792237624548631371459520503827467480723489230450235332529824117671677405156),
     (True, 85645468321354912537564040079950959173999572124923354990543607696877755765852, 31811642783378886829211474911892627132032788008300638327977767020779768187124),
     (True, 34958540716999933903659224261659778987741104028921057937050563883786112750261, 21880558264494216808287980994218397563141933685170264459882187058272291026063),
     (True, 16538567811302158141411194913492995872801123104428166834159714586081056640480, 57587431105925644872911601351995929038311179672182140389836888104460665624418),
     (True, 114560925300620211026059563263751061831340433501817202116617979490432906880385, 1852334911467617730563258363249118600141597140885538955656229673690870877083),
     (True, 118527773247431684770500858927808657703675953607098613768931043887889997902, 2999873641857064848050458994987355362871396067847211588725782548222771430780),
     (True, 310875878529656691448703851227893817197627909111716434032923063868271649320, 56741858940553540454691345612168397481200062484931002208351244857929594532120),
     (True, 111221365025412675747956376611849817076852491744775589072119894329333407438431, 52983284024645604748356606426061694763976161113936548640232552828396605328781),
     (True, 96974790057819721861825314266735192123796800858614364812552591900009386467466, 23441663550800467214817254139361687330701016758839580700761892247398777612688),
     (True, 18982698857871083086182549736300479685966229295121067527056855531859555548581, 44219520063360469453149303383715684669581732282357224556220104279732889728319),
     (True, 67547479884447420660787454060870603558801664896804797072970719315679249953620, 55937530409946316548552502116686273223393472796871774714777090375113360366142),
     (True, 108090538100604096118304240725110680872291140372784317374303727527994397312650, 4043360565791032338078027380609862533945144841446388649871217817879889873478)]"])
    (simp only: pw_eval)+

lemma pkp255_n_7:
  "pw_ok 57896044618658097711785492504343953926634992332820282019728792003956564819968 19 2 (9071231205899977564151271366498780104845740454626553539977526889129436116728, 2787593149816327892691964784081045188247551)"
  by (rule pw_chain [OF pkp255_n_6, where steps = "[(True, 564762749257840590673440239729974843475440910701497854226515968137418131555, 30004323796572083792199736105378546854862298935002078911621058436625125242273),
     (True, 31099169292798843622050696140956521451060393021839821803782179280418658226990, 21002727013096797169004675847215356244075625075770601455342047954896970189548),
     (True, 15238158146800529077116263893970360384118671085496816356940712432952763817373, 17683968136273031964748761461046074121640974398427507673212257537224433714631),
     (True, 10802904796157320391335265115260989674685824036037660820338680353868854321115, 33670049901019569500871006427074058907676259723424101617658397332857683009187),
     (True, 39162338906026079335215335328304674344687630835566103104216223267883526155280, 11338079573254137144714295952580911299677830590163390051859627963489637121218),
     (True, 4440788632666432019249815997819417179592159489060161313891228094890738425608, 50503907384779849179363696987365820920550266664725850379172394941928600753056),
     (True, 88111188870696254755449552974409393815014423354944383796027125958950030473209, 26963434268030124490232869225365333943046998147329985868172663616110233431931),
     (True, 25114903524586653826662315338969714662406522073540194989592059475750281158218, 4187519072817056328568485486024279769409738840626811667464950563644469086640),
     (True, 605751778060345461671016514523729909423593143178471046232124619385626244189, 7107064703472137553390016727696887278224065643217254122925776710931760452839),
     (True, 1744864231469849974112354672122145060993553896207903176120682340458473632686, 29496294275899497481912582965637454402090666302592967900353443089829135066828),
     (True, 30054950445788393613605989667092520738884439554979612480591510034787511326693, 50000476100785037372762746889064864080695006262063619269247590084856389364511),
     (True, 86363330233426273396377911430734596397474272800053473858361391588585251686947, 31135492015806444414737471008134301620896546760764129796378474588803284032539),
     (True, 33488258807715967697761766448059055738404468817230433671428649140773875457260, 46812062959751952380575244630234810940688005458028127061524926515372476693302),
     (True, 75700136442190403065218753352009466604487886460409827937139038491364131597516, 40106794658385117354770859867621150384110113681558623316461986703750067679724),
     (True, 55567007672627143614729654096522897032199591137465526892863225225929085584284, 33417327200782650993787628772606431437902672847704516142353609196254157350836),
     (True, 38576651120110702197779600441666693884358827431915363858168627966250487250875, 17648620390273356357020134462309692498714675943790013590705331000182812092417),
     (True, 10759761007217206031325290023206550541743494695725873171292104845553763856339, 13112761563863023931459458615335431701999506154879951249469996812584060497067),
     (True, 5939767283352931431985716365734046376026248774106787094486113023710149896781, 27824130243647834693943021692430694884199168506770451210322983763184031520809),
     (True, 26743872708913286202373842799721015217206051541719712602785366798746573947123, 20214254819784530476572656051887077550238535948296280650423414391220058472235),
     (True, 14115509983820132625438042482052551167784297491585821798176394036057575417378, 9071231205899977564151271366498780104845740454626553539977526889129436116728)]"])
    (simp only: pw_eval)+

lemma pkp255_n_8:
  "pw_ok 57896044618658097711785492504343953926634992332820282019728792003956564819968 19 2 (26581867791059424736998914131786935395247100185720215298147869473475247466289, 2923003274661805836407369665432566039311865085951)"
  by (rule pw_chain [OF pkp255_n_7, where steps = "[(True, 2842585745982893617293124083823514537634167012734764358418444497757315728595, 31317987425793256789907905358765479205452620350800147189927333389226957110313),
     (True, 33881980811036541472033898503473800664499624824355458435912878190270506044514, 1359025561427706785952284000887504036478567612089220490382823253603912706152),
     (True, 63802302515798422379245586793185974195111664963371835224704263527059282209, 14398822984063074768968153532697637190471276264929534688614638524962533306867),
     (True, 7162012696790284798398180312341660849474109904106232763679276648418733861101, 57536954078394898341561058596771979671434564551776157719280604183017138807529),
     (True, 114360181474381813137840557426815433171026860246966996689286650914105276457265, 40547459852214399804323473420694576591072346817955398647431362105468896192197),
     (True, 56794777995493576020240577562350491590808922494996314790896039574132059826598, 45971980921394367875587158654687982103435759201417385735055715081479896170116),
     (True, 73007510055564560104349826962464043465309804757690126818907219567773497171056, 27684301228299730442981507030630901095912202244823809002810756354766128710768),
     (True, 26475747680083983496230108936423991337635288002028276688922985176814745290899, 35757025066575975253653098954451781796433373486781824308350643199978034955497),
     (True, 44167605923106563104188016223590846343945229021755613036295058864461190317974, 38127182720244788537581039343329974557372141358442408506114334627016172570692),
     (True, 50216973258116365209524540063075467803417184657892748373851398968378418394460, 13901224617088797557110006582934073320367546309008609680113272247555915635188),
     (True, 6675552609080276611244349742173351464965958472069789748282620977888559021339, 5454410152077933777103100970173391160692099338506939472643174185754823698977),
     (True, 1027724443113446721845149397926748437689418674520782065013613455796394928743, 55362729019363284635602246820605937821515778654018841355971440409296941798951),
     (True, 105880523778775898649789442283871116994999172150061642298388401429050124189705, 21765073601240440394004195196733367356284140392914731226844435028259364975757),
     (True, 16364448797414004016935442433817151154903072771179003446381278293219766429705, 6868468521684803207615437430387374804254365021580786674773294649260505261053),
     (True, 1629674709010145781567724911074021394837156596698000293511699479921077136332, 21540161437867206792264745630437124108648831241490862309653559019023251050550),
     (True, 16027988019749990667968078807425288476783301496478787031260703591891746647388, 23310579803174567687392393518795196592504696180061856406369418281530699461788),
     (True, 18770993228959014375168938097518852292827013663389723557022526825773154578937, 9295663124364450797527547070745142724484968397426519232838479866529431499675),
     (True, 2984982946272706557730076495588203411743423818118343095025383949986404589165, 26389076693310116141985250835199949026874418449444379430995625568753508958665),
     (True, 24056336605108267934262722213082671422221194304435394145711208271514514723157, 41577931303125218655368411065379178664242088974509779353166293289040071305457),
     (True, 59718220228477775803430539865569976364492777564242064434753391855748161551541, 26581867791059424736998914131786935395247100185720215298147869473475247466289)]"])
    (simp only: pw_eval)+

lemma pkp255_n_9:
  "pw_ok 57896044618658097711785492504343953926634992332820282019728792003956564819968 19 2 (29769714498032076210166807474819013544447509023848694974789569031297101857592, 3064991081731777716716694054300618367237478244367204351)"
  by (rule pw_chain [OF pkp255_n_8, where steps = "[(True, 24409118098325100620684301060475331658149855347303882843425660276191920168233, 55590360218998282887189888048440386046650429025517689767088323422846948382925),
     (True, 106752997363902227275846233111344972455748592338486832573991598035947091827971, 7138300081214773490902001799287249147252904381900996808424164052295966117771),
     (True, 1760235207261448101400917070109583781090077042682496295978264267509801174521, 21363423181746877609111268711041542253138779060801629243052671443405792697453),
     (True, 15766045955247093706865167660048932482760871291574595400024946796442405901939, 27935597705990857044596004281158840715176448634484849678803416174709500393307),
     (True, 26958581517310207078548026223582635705116482300748825839201561774177508778390, 35579438349793358381572025108442492934664453576748305360961308541578088690388),
     (True, 43729979884628844514961163959984934689027826546456740975827991814152907761552, 57866903068063127764661670395535172659072410669887183287178532001232342380240),
     (True, 115675552371309004746650172950541549573762991964391863556167314696094380637985, 43360846569293993820275693050384192156330769926392333168517301831384209752435),
     (True, 64949618841489442485459062567039650228872921051349390588448231638339439105859, 15684242169343610675938633510107053195079618631387286693842602453664090877259),
     (True, 8497832763771902775038090377298488152418614983823215514164015516462540094787, 1536504363613701847894867300414741110172459555250118742995152291136358200299),
     (True, 81554644188702301886043824368740835519840372024765971879505442436884737630, 10174754984538454556267894105915698025200616652384454510632651876057352397932),
     (True, 3576259472552189766538554144532384344725373148939601174843544444239720922392, 53241440335614123920049335849618705599788617803539401677470731327189273355240),
     (True, 97922094252954841580436158849962182015990245232388346444910758876004225220097, 14027931116174711974312877722162477075845082495311616644575421411282769600147),
     (True, 6797799493774940782315341229939043353078157670583260907545545786492207907446, 6065461000593967686201644147469699507884414012396859043024075587031478402964),
     (True, 1270892248064565011731931979229484580348423213730173914072204635218210266200, 16440926874779247207396427489514528874519454921103911874653412964701567546792),
     (True, 9337566263196083440880237632939595892353753175270164222661303864127377219790, 6194970277937707253775099527297108592051974592490823042763801755464669391818),
     (True, 1325743649581327930090533642166358718458614003655066599811942150110280948209, 684614496836416649787906379392285011927598899598562528098251400672931668907),
     (True, 16190985493593925008338701609184484960630540785055286743058726999387120317, 54365033985168141306022265729958169761829617159194845758540630505539836345465),
     (True, 102098750948385263615548679805957788779318581884505064888051734666373773862407, 41386377741921754056700424941473791974722792115338212604641688420019397375207),
     (True, 59169232505567184305421169843227849156496285224945090245673964009779441861981, 53502266011507298565676768324199732940023720279442518681700110239273703126729),
     (True, 98883869777991591692200403316074888097861101298223795119979037365591047168210, 29769714498032076210166807474819013544447509023848694974789569031297101857592)]"])
    (simp only: pw_eval)+

lemma pkp255_n_10:
  "pw_ok 57896044618658097711785492504343953926634992332820282019728792003956564819968 19 2 (11056534755336441226498492808108261289195462485940569264063461083603937863743, 3213876088517980551083924184682325205044405987565585670602751)"
  by (rule pw_chain [OF pkp255_n_9, where steps = "[(True, 30614730492615893651777564138148123007690506370754340805410261947675162337450, 6528249132286365709654196922569572509716464893905265972235628165028866286878),
     (True, 1472226194860407327939406112525751104797216619309044555009447628076961690518, 12854018797251641308374136387378939352483716320918111721110096356924659430186),
     (True, 5707671407550746083628861245160355009642684000121147243669686455470024521054, 24023237773304088355367946030695448843319069214091389862021789217161946282946),
     (True, 19936282587661189517389820021190447876345778058782210102910438172928597695032, 37008626383577036881806629661822850263240381849752111154573360970710289084464),
     (True, 47313713253488906042808340731428985355312158499563503835177313716807217353298, 40976972857154150938827157254409068204129712880595484192193128742204960992790),
     (True, 58004387539622085164282737983403807747971906696474994356321912320073377024490, 30460314274043604819673758530503676511725237214240063293831192481254650417190),
     (True, 32051610840941404713960218040075651889489654966559030743224553634388224793791, 48311673985348507728741468902012948953142664038330626952387585498656526855541),
     (True, 80627886020193451209957314133038230128900897545505519542167669177457174326302, 24233097835806840212876053465345452678284176986654458383856149761728159806764),
     (True, 20286119184402312896158504202260467186492442673769965307943695141234975076626, 44543206194479786795328863844863295531809228891211781783131460436919471891318),
     (True, 68539992020267633820485159182892409706122368845377809604639198334172019229466, 53821164031703208189080431028209409696023511366568294270491627813890002137014),
     (True, 100066169176399347822725591111289443593712392604818543848675560599062036023280, 32059910633176193622138024243719773757257401337919911903483392576788485259672),
     (True, 35506324363858311991321119460829789107798122759392181367135885037886599880587, 51112254427615305009901759741924517510279757244838123682606985713533983665105),
     (True, 90246667795034992004292730401003788333181651450349129958268996401971357097414, 48754557550952872105209550496347674417710959653730114307448477872931425810164),
     (True, 82112928357912042852474345081823957601113537828821950574218809391071779775414, 36227438829045814509927442875215714798190109276434149535428280465454964479906),
     (True, 45337374349380054044296182014974884345690896089732339320745467038170136790065, 38725988975554836836261693331247132583308376864819596228891641900046618530987),
     (True, 51806724691223113204700370986623414773557566701137437371103298936036983839482, 45479349884507628301698123796250445596652345077353159483318819597649710961920),
     (True, 71451211547909170306290127088657338243372272262820662278598676986816170828882, 43148221398861912654878150651583556894950920730774984615012326700886961205782),
     (True, 64314203920079705065838344435537391234321221815124083317341594043375963705872, 50200440481698919585213819744643434144352553022329073818314918686710226422520),
     (True, 87055488545220954442423999313867354390128224210491086455916563780750119739487, 32130093957348876535958107736349013334990574945634455035178054147542185674637),
     (True, 35661950466832917681117845387774122029854310315808135677675700499843949427455, 11056534755336441226498492808108261289195462485940569264063461083603937863743)]"])
    (simp only: pw_eval)+

lemma pkp255_n_11:
  "pw_ok 57896044618658097711785492504343953926634992332820282019728792003956564819968 19 2 (23831477938961091992659029161882590259549528906548330511742067278450904634668, 3369993333393829974333376885877453834204643052817571560137951281151)"
  by (rule pw_chain [OF pkp255_n_10, where steps = "[(True, 4222981435127824194292833681671228515188221348082536523085798595517273828694, 5509472318170026184457828863391795017510754830936479629593488654910888123492),
     (True, 1048578894279059557835586831415461858190826159564810201554052990818311686293, 39182422482334497014118289882429877725228100176802129302739402859527968289071),
     (True, 53035133632924709134138584286381598742332730364314402303128189876192530140635, 31298399990674153193572642070113929186128749250418980644598906944843612558467),
     (True, 33839611960660277626943348216192562676643815907243995882872804003236853248769, 16016535929395975659978764171596312767014544623914800237889741581420795887397),
     (True, 8861725351612733179999554277473080924110981746402813108971046972581479777367, 6867356314802072500137672020365772398649811024958711628042637258408446576935),
     (True, 1629146967295707459833087767044304513434445771118578304807454679216681049649, 2623918248308615220828121720255052394918917448532756518915771777981733340549),
     (True, 237838250234737005399441533290637460414814956761644585837062302903020817331, 27289357948726713611986542207589493182563159105075691984536234051570781506683),
     (True, 25725731771794899367554746637524451810544976575527858686160411599106482776284, 24779736756518239262134786564833979098176951288651987557576585047857040035462),
     (True, 21211651254132705903606869028799928617524066286236292272655086648503571851196, 44073974636539183643196518952896103138684389691110778399627147914726074797884),
     (True, 67103556142979995951677411268714025613358797236225737859292948855529943662172, 57079518814717006129559040589390601886102144762720731787304697448910039485684),
     (True, 112549017452900656837600807460527727797542322127410421293783528396358024973824, 3071949427213583281562656910526188114764181754740924459574672836798483880736),
     (True, 325993713232584152403783305726775850020875897191370107993638466699407322542, 17144314256986813274476140473712444112177023766797766200554335356044944813034),
     (True, 10153630123726883954600382569867503067257969122756506876810668466206730065849, 3165891640717593200786762078156449118083566803391380297476050855428833748611),
     (True, 346236774784282048982287196507942687420048610765782093316028690887186637220, 54864376144835610778091815697625521774567190232236766343665203152016606956862),
     (True, 103982915917262684091713821539452261199422400941298162738031943512584732294036, 38167929923336629992940764174428308519642977592094795664038841569520591249924),
     (True, 50324366171407062071915938371308680622477068193435267725030145000815887663853, 40708934432730130651322167211264057559822842830536907232677053187710079408055),
     (True, 57248033214146416679004895045047970885313643423296373108434881316451182644036, 11547632910069633913615370700207887367810604134713919823128354979068299091886),
     (True, 4606457201145289209030883952814959167680934483499460463844363761512686800012, 9142642502628947595601055162406050501866612098636667730066404712196791034604),
     (True, 2887517186413785412147386624891128719852770957645866966101228741041567248543, 4882997256204588887345417740635705617157621401990104841753515336715323289325),
     (True, 823671543061422590538933473883423503098856488889328699614575005671998107518, 23831477938961091992659029161882590259549528906548330511742067278450904634668)]"])
    (simp only: pw_eval)+

lemma pkp255_n_12:
  "pw_ok 57896044618658097711785492504343953926634992332820282019728792003956564819968 19 2 (37551472053155023094598280749600284614585691400890565658685849766312449902312, 3533694129556768659166595001485837031654967793751237916243212402585239551)"
  by (rule pw_chain [OF pkp255_n_11, where steps = "[(True, 19619279503324135551736184995424164311143606891945765330952709817161126290394, 56713486864942564343515026382452337645161272677378998056718354471378196670542),
     (True, 111110166974807829943924490733480896646621990295083136777488477894090277179203, 21316658154331738910193541779585055043469702896516072202627221661286878826881),
     (True, 15697097024904490023314644856311081511390184007456081443080285325696271689298, 24605409678848788938025967347965514085894017404791575956843964561310096170520),
     (True, 20914250341339401260809467524537702095655217325448129132055419330101915082559, 52690110670145470389354969733677398040905379530483294791374464377200528971309),
     (True, 95904574508272335054729634748457204111150957928688871484759248037084303558943, 12329658577085121505735788901738140674414910983404876297849933017120786593055),
     (True, 5251497978101848495924295816387004670950041672497871491771754700927306395447, 168274596723269311747058085710366988357898918760177840875994024352600093847),
     (True, 978178737041163663962443647466362324135524544872190231728991176354193162, 47786050790763851049981906562182647077748863621709482674342791699566717530080),
     (True, 78882993310446606079518835831723378978727237688761759971463048956226180081609, 19503180772758402817567362257769427592749798537153604074569836368588198394859),
     (True, 13139897993387627732373127986684184230359577417313662381823690285498056949606, 16826699064328860228531004055853964690023742207467919279868379270196598769668),
     (True, 9780903108888347696821915469366969466452103835306477429771145416059591070340, 32688828802654143177559518765903582606604909550033534751544165635592339447788),
     (True, 36913040796740976079687075135687449967910678913365092604224181346215831692497, 37708960546153945843958973812618546261670618580507553614517327413904816963235),
     (True, 49121342048058996202818384028079788763593058647873047451064990681005274235703, 2057919991675863527054010271309791625846740817386352880445591432005900891303),
     (True, 146297893751946087527890098974944408979994736920338507732265225322737550232, 20249007912788656877858290429492512521631358125394076339539349770885218897450),
     (True, 14164087517648491448500441193429708359853486060666517814462096397014080965130, 42571996530428911894693132740212666761429091441709467178347503787900635626630),
     (True, 62607900091426251028123606207181133541054944544110251303837911916825046308784, 5435299199213152975492301500219858938085329969184343786141514702871513181784),
     (True, 1020535256926567958458839914698197869451370729839077744084739366158170552195, 33882242112267496923536051823032213047892495906645674409515910817898777107257),
     (True, 39657504691930067112915947409546498072870526491711844916946027419326767452697, 51123978885619834460123720657013633389779939782597154962641759658222584675645),
     (True, 90288075267062399135209955216705382931132191343215404981108169191282315586235, 43219276769744686065183324647184717045656222363829659343670365424300554530035),
     (True, 64526200254371939979393726796435021455763766592346840061891252458320216944910, 54540094052611622470445204756022498502301992064615059872118586784666432192860),
     (True, 102757343057217881138175483961920935187940444696857123649281189953567037407512, 37551472053155023094598280749600284614585691400890565658685849766312449902312)]"])
    (simp only: pw_eval)+

lemma pkp255_n_13:
  "pw_ok 57896044618658097711785492504343953926634992332820282019728792003956564819968 19 2 (1, 57896044618658097711785492504343953926634992332820282019728792003956564819948)"
  by (rule pw_chain [OF pkp255_n_12, where steps = "[(True, 48711896042184790895959322374384436421661016505908593212167207426933367124203, 3803914040724051894386236598260692734658987734458578662976073884998070765041),
     (True, 499853215345713923513103460321439700651913380186534994724074057614202994348, 3829772649397305401114698789991079656979851534689771153023122197422770815110),
     (True, 506672213712675151645405134118650569071260076722547223063257836022000498282, 17987939655220351027887281615378337919756346108173807249081199009637994796582),
     (True, 11177481127461117559186485083179962760857158521012151917702231051862375128175, 30348741544180654946814210571832604891148323009090688159164939748200445802373),
     (True, 31817237926428301716481629198920036835377433245612531690899656520295840587170, 15513182470649566372280220337745372463859220538938362347543710404034055407928),
     (True, 8313480893308283612982297008344614904647976932613507160336014299061426140185, 32785846204757843728184147904964674237443212419005095899022797234058411955803),
     (True, 37132474884670226093998080357299778750522178901260223182847880066502652096073, 25685400396258068827309542784701451615252568774064705527532856139406555789341),
     (True, 22790496237232776564747423127153361809538546195459431229453633992955460259161, 25910928650365661088611546722392363794011740157349981708915610625600295625773),
     (True, 23192472920955859091132356263708257444097148224505203993727824985973104756014, 57692109581687170544952182944730090749826224675958039702824471609347838771772),
     (False, 57488892892568471791421702514207109143894690784151447750986744052104094219481, 22961221025933304929473883566500786080839636259902234537901881337279050793515),
     (True, 18212562687982170203641850479078031168141106034460617211550174573135082294351, 38788602997682801834296285904666247971040529424372086091236406538540197302351),
     (True, 51974387280576871821953725479083298163253499104296142594374103994723114637850, 19681161376707505956807079304988542015446066515923890162744021073123829784752),
     (False, 6690407189080634018507799843845558368979872843924222843531373839242004886244, 57896044618658097711785492504343953926634992332820282019728792003956564819948),
     (False, 57896044618658097711785492504343953926634992332820282019728792003956564819947, 1)]"])
    (simp only: pw_eval)+

lemma pkp255_one: "(2::nat) ^ 57896044618658097711785492504343953926634992332820282019728792003956564819948 mod 57896044618658097711785492504343953926634992332820282019728792003956564819949 = 1"
  by (rule pw_ok_residue [OF pkp255_n_13, where h = 1 and k = 0]) simp_all

lemma pkp255_q1_1:
  "pw_ok 57896044618658097711785492504343953926634992332820282019728792003956564819968 19 2 (427094198651976259540344842774561673889945192655078505504941250475370961481, 781764)"
  by (rule pw_chain [OF pw_ok_start, where steps = "[(False, 0, 4),
     (True, 0, 32),
     (True, 0, 2048),
     (True, 0, 8388608),
     (True, 0, 140737488355328),
     (True, 0, 39614081257132168796771975168),
     (False, 0, 1569275433846670190958947355801916604025588861116008628224),
     (True, 85070591730234615865843651857942052864, 1616341242874457701451029385300899004416),
     (True, 90, 14474011154664524427946373126085988481658748083205070504932198000989141206702),
     (False, 3618502788666131106986593281521497120414687020801267626233049500247285302104, 10855508365998393320959779844564491361244061062403802878699148500741858844108),
     (True, 4070815637249397495359917441711684260466522898401426079512180687778198169178, 19449452489080454700052938888178047022228942736806813491002641081120681299406),
     (True, 13067600891100930501598068315494625343060070901292077814267399487995699632785, 5844730090286895362261548132457574450357316730865145506988119120372289477707),
     (True, 1180076119303530875144116285532815935167358627057121551494565672490314011965, 10011112483763715096745842972409582215110234036302095062009100585929643265913),
     (False, 1731074615247051634489172293683676124410868977223555680707173906843900652117, 50082932276091518066455387449031094497791709234718174193352973575247037041536),
     (False, 43324204993500061597826158612414131961250850909546105626879919447147686421064, 13343768986571359007854455104042816243275199009921288930213888121862028233560),
     (False, 3075446206036701470872393826992783401752763128678510908850634197157076446817, 29021988539057075980713355158958070277907045233294037432382353502841631121267),
     (True, 29096143762806239262705528706363760764796179979535943756800641576788782737836, 6814271218530413793737419123678870252773648441814096715214653977322709480214),
     (False, 802028749036987574340757424989663227075669220565584140869463940457761020232, 40021463743779041745397667549197261276748984932910244056888199122096431277628),
     (False, 27665405654990747157847101006816744579137975244959593346139654333549227807747, 427094198651976259540344842774561673889945192655078505504941250475370961481)]"])
    (simp only: pw_eval)+

lemma pkp255_rq1: "(2::nat) ^ 781764 mod 57896044618658097711785492504343953926634992332820282019728792003956564819949 = 427094198651976259540344842774561673889945192655078505504941250475370961481"
  by (rule pw_ok_residue [OF pkp255_q1_1, where h = 1 and k = 0]) simp_all

lemma pkp255_cong1: "prime_divisors_cong 57896044618658097711785492504343953926634992332820282019728792003956564819949 (74058212732561358302231226437062788676166966415465897661863160754340907 ^ 1)"
  by (rule pocklington_cert [where E = 57896044618658097711785492504343953926634992332820282019728792003956564819948 and R = 781764 and m = 781764 and a = 2
        and c = 427094198651976259540344842774561673889945192655078505504941250475370961481 and u = 55540832096118778044507775605005710249233119951144946814680141076505643269084 and v = 409719996120619553712206717513598108624848060785013849502386565616653579131, OF prime_r _ _ _ _ pkp255_rq1 pkp255_one])
    simp_all

lemma prime_p255: "prime_nat 57896044618658097711785492504343953926634992332820282019728792003956564819949"
  by (rule pocklington [OF _ pkp255_cong1]) simp_all

section \<open>The field axioms\<close>

lemma Field_init_mod: "Field_init cls (x mod MODULUS cls) = Inr (x mod MODULUS cls)"
  using MODULUS_gt_1 [of cls] by (simp add: Field_init_def gf_def)

lemma Field_neg_result: "Field_neg cls a = Inr ((- a) mod MODULUS cls)"
  by (simp add: Field_neg_def gf_def Field_init_mod)

lemma Field_init_0: "Field_init cls 0 = Inr 0"
  using MODULUS_gt_1 [of cls] by (simp add: Field_init_def gf_def)

lemma Field_init_1: "Field_init cls 1 = Inr 1"
  using MODULUS_gt_1 [of cls] by (simp add: Field_init_def gf_def)

lemma gf_inv_correct:
  assumes pr: "prime_nat (nat (MODULUS cls))" and el: "is_elem cls a" and nz: "a \<noteq> 0"
  shows "\<exists>y. gf_inv cls a = Inr y \<and> y = y mod MODULUS cls \<and> (a * y) mod MODULUS cls = 1"
proof -
  let ?p = "MODULUS cls"
  have p1: "1 < ?p" by (rule MODULUS_gt_1)
  from el nz have a: "0 < a" "a < ?p" by (simp_all add: is_elem_def)
  then have amod: "a mod ?p = a" by simp
  have "\<not> nat ?p dvd nat a"
  proof
    assume "nat ?p dvd nat a"
    moreover have "0 < nat a" using a by simp
    ultimately have "nat ?p \<le> nat a" by (rule dvd_imp_le)
    with a show False by simp
  qed
  with pr have "coprime (nat ?p) (nat a)" by (rule prime_nat_coprime)
  then have g: "gcd (nat a) (nat ?p) = 1" by (simp add: coprime_iff_gcd_eq_1 gcd.commute)
  let ?u = "fst (bezw (nat a) (nat ?p))"
  let ?v = "snd (bezw (nat a) (nat ?p))"
  have "?u * int (nat a) + ?v * int (nat ?p) = int (gcd (nat a) (nat ?p))"
    by (rule bezw_aux [symmetric])
  then have bez: "?u * a + ?v * ?p = 1" using a p1 g by simp
  have "(a * (?u mod ?p)) mod ?p = (a * ?u) mod ?p"
    by (simp add: mod_mult_right_eq)
  also have "a * ?u = 1 - ?v * ?p" using bez by (simp add: algebra_simps)
  also have "(1 - ?v * ?p) mod ?p = 1 mod ?p"
    by (metis mod_diff_right_eq mod_mult_self2_is_0 diff_zero)
  also have "\<dots> = 1" using p1 by simp
  finally have "(a * (?u mod ?p)) mod ?p = 1" .
  moreover have "gf_inv cls a = Inr (?u mod ?p)"
    using a by (simp add: gf_inv_def amod)
  ultimately show ?thesis by simp
qed

lemma field_axioms_of_prime:
  assumes pr: "prime_nat (nat (MODULUS cls))"
    and "is_elem cls a" and "is_elem cls b" and "is_elem cls c"
  shows "(\<exists>r. bindr (Field_add cls a b) (\<lambda>s. Field_add cls s c) = Inr r
              \<and> bindr (Field_add cls b c) (\<lambda>t. Field_add cls a t) = Inr r)
       \<and> (\<exists>r. bindr (Field_add cls b c) (\<lambda>s. Field_mul cls a s) = Inr r
              \<and> bindr (Field_mul cls a b)
                   (\<lambda>x. bindr (Field_mul cls a c) (\<lambda>y. Field_add cls x y)) = Inr r)
       \<and> bindr (Field_neg cls a) (\<lambda>n. Field_add cls a n) = Field_init cls 0
       \<and> Field_pow cls a 0 = Field_init cls 1
       \<and> (a \<noteq> 0 \<longrightarrow> bindr (Field_inv cls a) (\<lambda>i. Field_mul cls a i) = Field_init cls 1)"
proof (intro conjI impI)
  let ?p = "MODULUS cls"
  have "((a + b) mod ?p + c) mod ?p = (a + (b + c) mod ?p) mod ?p"
    by (simp add: mod_simps add.assoc)
  then show "\<exists>r. bindr (Field_add cls a b) (\<lambda>s. Field_add cls s c) = Inr r
              \<and> bindr (Field_add cls b c) (\<lambda>t. Field_add cls a t) = Inr r"
    by (simp add: Field_add_result)
next
  let ?p = "MODULUS cls"
  have "(a * ((b + c) mod ?p)) mod ?p = ((a * b) mod ?p + (a * c) mod ?p) mod ?p"
    by (simp add: mod_simps distrib_left)
  then show "\<exists>r. bindr (Field_add cls b c) (\<lambda>s. Field_mul cls a s) = Inr r
              \<and> bindr (Field_mul cls a b)
                   (\<lambda>x. bindr (Field_mul cls a c) (\<lambda>y. Field_add cls x y)) = Inr r"
    by (simp add: Field_add_result Field_mul_result)
next
  have "(a + (- a) mod MODULUS cls) mod MODULUS cls = 0"
    by (simp add: mod_simps)
  then show "bindr (Field_neg cls a) (\<lambda>n. Field_add cls a n) = Field_init cls 0"
    by (simp add: Field_neg_result Field_add_result Field_init_0)
next
  show "Field_pow cls a 0 = Field_init cls 1"
    using MODULUS_gt_1 [of cls] by (simp add: Field_pow_def gf_pow_def Field_init_def gf_def)
next
  assume "a \<noteq> 0"
  with pr assms(2) obtain y where y: "gf_inv cls a = Inr y" "y = y mod MODULUS cls"
      "(a * y) mod MODULUS cls = 1"
    using gf_inv_correct by blast
  have "Field_init cls y = Inr y"
    using Field_init_mod [of cls y] y(2) by simp
  then show "bindr (Field_inv cls a) (\<lambda>i. Field_mul cls a i) = Field_init cls 1"
    by (simp add: Field_inv_def y(1,3) Field_mul_result Field_init_1)
qed

lemma prime_MODULUS: "prime_nat (nat (MODULUS cls))"
  by (cases cls) (simp_all add: prime_2 prime_p64 prime_p96 prime_p128 prime_p255)

text \<open>
  C9. For every field class and all its elements \<open>a\<close>, \<open>b\<close>, \<open>c\<close>: addition is
  associative, multiplication distributes over addition, \<open>a + (-a)\<close> is \<open>Field(0)\<close>,
  \<open>a ** 0\<close> is \<open>Field(1)\<close>, and \<open>a * a.inv()\<close> is \<open>Field(1)\<close> when \<open>a\<close> is not zero. No
  operation raises.
\<close>

theorem field_axioms:
  assumes "is_elem cls a" and "is_elem cls b" and "is_elem cls c"
  shows "(\<exists>r. bindr (Field_add cls a b) (\<lambda>s. Field_add cls s c) = Inr r
              \<and> bindr (Field_add cls b c) (\<lambda>t. Field_add cls a t) = Inr r)
       \<and> (\<exists>r. bindr (Field_add cls b c) (\<lambda>s. Field_mul cls a s) = Inr r
              \<and> bindr (Field_mul cls a b)
                   (\<lambda>x. bindr (Field_mul cls a c) (\<lambda>y. Field_add cls x y)) = Inr r)
       \<and> bindr (Field_neg cls a) (\<lambda>n. Field_add cls a n) = Field_init cls 0
       \<and> Field_pow cls a 0 = Field_init cls 1
       \<and> (a \<noteq> 0 \<longrightarrow> bindr (Field_inv cls a) (\<lambda>i. Field_mul cls a i) = Field_init cls 1)"
  using prime_MODULUS assms by (rule field_axioms_of_prime)

theorem field_axioms_witness:
  "is_elem Field64 3 \<and> is_elem Field64 5 \<and> is_elem Field64 18446744069414584320
   \<and> (3::int) \<noteq> 0
   \<and> bindr (Field_inv Field64 3) (\<lambda>i. Field_mul Field64 3 i) = Inr 1
   \<and> bindr (Field_neg Field64 3) (\<lambda>n. Field_add Field64 3 n) = Inr 0
   \<and> Field_pow Field64 3 0 = Inr 1
   \<and> Field_inv Field64 3 = Inr 12297829379609722881"
proof -
  have e: "is_elem Field64 3" "is_elem Field64 5" "is_elem Field64 18446744069414584320"
    by (simp_all add: is_elem_def)
  have i: "Field_inv Field64 3 = Inr 12297829379609722881"
    by (simp add: Field_inv_def gf_inv_def Field_init_def gf_def bezw.simps)
  from field_axioms [OF e] show ?thesis
    using e i by (simp add: Field_init_0 Field_init_1)
qed

section \<open>The generators of the FFT-friendly fields\<close>

lemma int_power_mod_eq:
  fixes a n c E :: nat
  assumes "a ^ E mod n = c" and "b = int a" and "p = int n" and "r = int c" and "E' = E"
  shows "b ^ E' mod p = r"
  using assms by (metis of_nat_mod of_nat_power)

lemma gen_order_facts:
  fixes p G b e :: int
  assumes p: "1 < p" and G: "G = 2 ^ k" and k: "0 < k" and pe: "p - 1 = G * e" and odd: "odd e"
    and e0: "0 \<le> e"
    and half: "b ^ nat ((p - 1) div 2) mod p = p - 1" and pgt: "2 < p"
  shows "(b ^ nat e mod p) ^ nat G mod p = 1"
    and "(b ^ nat e mod p) ^ nat (G div 2) mod p \<noteq> 1"
    and "G dvd p - 1" and "\<forall>j. 2 ^ j dvd p - 1 \<longrightarrow> (2::int) ^ j \<le> G"
proof -
  have G0: "0 < G" using G by simp
  have G2: "G = 2 * (G div 2)" using G k by (cases k) simp_all
  have half_exp: "(p - 1) div 2 = e * (G div 2)"
    using pe G2 by (metis mult.assoc mult.commute nonzero_mult_div_cancel_left zero_neq_numeral)
  have nat_half: "nat ((p - 1) div 2) = nat e * nat (G div 2)"
    using half_exp e0 by (simp add: nat_mult_distrib)
  have h: "(b ^ nat e mod p) ^ nat (G div 2) mod p = p - 1"
    using half by (simp add: power_mod nat_half power_mult)
  then show "(b ^ nat e mod p) ^ nat (G div 2) mod p \<noteq> 1" using pgt by simp
  define X where "X = (b ^ nat e mod p) ^ nat (G div 2)"
  have X: "X mod p = p - 1" using h by (simp add: X_def)
  have "nat G = nat (G div 2) * 2"
    using G2 G0 by (metis mult.commute nat_mult_distrib nat_numeral zero_le_numeral)
  then have "(b ^ nat e mod p) ^ nat G = X ^ 2"
    by (simp only: power_mult X_def)
  also have "X ^ 2 mod p = (X mod p) ^ 2 mod p"
    by (rule power_mod [symmetric])
  also have "\<dots> = ((p - 1) ^ 2) mod p" by (simp only: X)
  also have "(p - 1) ^ 2 = p * (p - 2) + 1" by (simp add: power2_eq_square algebra_simps)
  also have "(p * (p - 2) + 1) mod p = 1" using p by simp
  finally show "(b ^ nat e mod p) ^ nat G mod p = 1" .
  show "G dvd p - 1" using pe by simp
  show "\<forall>j. 2 ^ j dvd p - 1 \<longrightarrow> (2::int) ^ j \<le> G"
  proof (intro allI impI)
    fix j assume j: "(2::int) ^ j dvd p - 1"
    show "(2::int) ^ j \<le> G"
    proof (rule ccontr)
      assume "\<not> (2::int) ^ j \<le> G"
      then have "(2::int) ^ k < 2 ^ j" using G by simp
      then have "k < j" by simp
      then have "(2::int) ^ Suc k dvd 2 ^ j" by (intro le_imp_power_dvd) simp
      with j have "(2::int) ^ Suc k dvd G * e" using pe by (metis dvd_trans)
      then have "2 * G dvd G * e" using G by (simp add: mult.commute)
      then have "2 dvd e" using G0 by (simp add: mult.commute [of 2 G])
      with odd show False by simp
    qed
  qed
qed
lemma gen_generic:
  assumes GO: "GEN_ORDER cls = Some G"
    and gen: "gen cls = bindr (Field_init cls b) (\<lambda>x. Field_pow cls x e)"
    and b: "is_elem cls b" and G: "G = 2 ^ k" and k: "0 < k"
    and pe: "MODULUS cls - 1 = G * e" and odd: "odd e" and e0: "0 \<le> e"
    and half: "b ^ nat ((MODULUS cls - 1) div 2) mod MODULUS cls = MODULUS cls - 1"
    and p2: "2 < MODULUS cls"
  shows "\<exists>G g. GEN_ORDER cls = Some G \<and> gen cls = Inr g
           \<and> gen cls = bindr (Field_init cls b)
                          (\<lambda>x. Field_pow cls x ((MODULUS cls - 1) div G))
           \<and> Field_pow cls g G = Field_init cls 1
           \<and> (\<exists>h. Field_pow cls g (G div 2) = Inr h \<and> h \<noteq> 1)
           \<and> G dvd MODULUS cls - 1
           \<and> (\<exists>k. G = 2 ^ k) \<and> (\<forall>j. 2 ^ j dvd MODULUS cls - 1 \<longrightarrow> 2 ^ j \<le> G)"
proof -
  let ?p = "MODULUS cls"
  let ?g = "b ^ nat e mod ?p"
  have p1: "1 < ?p" by (rule MODULUS_gt_1)
  have G0: "0 < G" using G by simp
  have Gh: "0 \<le> G div 2" using G0 by simp
  have ediv: "(?p - 1) div G = e" using pe G0 by simp
  note facts = gen_order_facts [OF p1 G k pe odd e0 half p2]
  have g: "gen cls = Inr ?g"
    using e0 by (simp add: gen Field_init_elem [OF b] Field_pow_def gf_pow_def Field_init_mod)
  have "Field_pow cls ?g G = Inr (?g ^ nat G mod ?p)"
    using G0 by (simp add: Field_pow_def gf_pow_def Field_init_mod)
  then have one: "Field_pow cls ?g G = Field_init cls 1"
    by (simp only: facts(1) Field_init_1)
  have hf: "Field_pow cls ?g (G div 2) = Inr (?g ^ nat (G div 2) mod ?p)"
    using Gh by (simp add: Field_pow_def gf_pow_def Field_init_mod)
  have "\<exists>k. G = 2 ^ k" using G by blast
  with GO g gen ediv one hf facts(2,3,4) show ?thesis by simp
qed

lemma half_p64:
  "(7::int) ^ nat ((MODULUS Field64 - 1) div 2) mod MODULUS Field64 = MODULUS Field64 - 1"
  by (rule int_power_mod_eq [OF pkp64_r2]) simp_all

lemma half_p96:
  "(3::int) ^ nat ((MODULUS Field96 - 1) div 2) mod MODULUS Field96 = MODULUS Field96 - 1"
  by (rule int_power_mod_eq [OF pkp96_r2]) simp_all

lemma half_p128:
  "(7::int) ^ nat ((MODULUS Field128 - 1) div 2) mod MODULUS Field128 = MODULUS Field128 - 1"
  by (rule int_power_mod_eq [OF pkp128_r2]) simp_all

text \<open>
  C7. For \<open>Field64\<close>, \<open>Field96\<close> and \<open>Field128\<close>, with the bases 7, 3 and 7:
  \<open>gen()\<close> is the base raised to \<open>(MODULUS - 1) / GEN_ORDER\<close>, its power
  \<open>GEN_ORDER\<close> is one, its power \<open>GEN_ORDER / 2\<close> is not one, and \<open>GEN_ORDER\<close> is a
  power of two that divides \<open>MODULUS - 1\<close> and is the largest such power.
\<close>

theorem gen_order:
  assumes "(cls, base) \<in> {(Field64, 7), (Field96, 3), (Field128, 7)}"
  shows "\<exists>G g. GEN_ORDER cls = Some G \<and> gen cls = Inr g
           \<and> gen cls = bindr (Field_init cls base)
                          (\<lambda>x. Field_pow cls x ((MODULUS cls - 1) div G))
           \<and> Field_pow cls g G = Field_init cls 1
           \<and> (\<exists>h. Field_pow cls g (G div 2) = Inr h \<and> h \<noteq> 1)
           \<and> G dvd MODULUS cls - 1
           \<and> (\<exists>k. G = 2 ^ k) \<and> (\<forall>j. 2 ^ j dvd MODULUS cls - 1 \<longrightarrow> 2 ^ j \<le> G)"
proof -
  from assms consider "cls = Field64" "base = 7" | "cls = Field96" "base = 3"
    | "cls = Field128" "base = 7"
    by auto
  then show ?thesis
  proof cases
    case 1
    show ?thesis unfolding 1
      by (rule gen_generic [where k = 32 and e = 4294967295 and G = "2 ^ 32", OF _ _ _ _ _ _ _ _ half_p64])
        (simp_all add: is_elem_def)
  next
    case 2
    show ?thesis unfolding 2
      by (rule gen_generic [where k = 64 and e = 4294966555 and G = "2 ^ 64", OF _ _ _ _ _ _ _ _ half_p96])
        (simp_all add: is_elem_def)
  next
    case 3
    show ?thesis unfolding 3
      by (rule gen_generic [where k = 66 and e = 4611686018427387897 and G = "2 ^ 66", OF _ _ _ _ _ _ _ _ half_p128])
        (simp_all add: is_elem_def)
  qed
qed

theorem gen_order_witness:
  "(Field64, 7::int) \<in> {(Field64, 7), (Field96, 3), (Field128, 7)}
   \<and> GEN_ORDER Field64 = Some 4294967296
   \<and> (\<exists>g. gen Field64 = Inr g \<and> Field_pow Field64 g 4294967296 = Inr 1
          \<and> (\<exists>h. Field_pow Field64 g 2147483648 = Inr h \<and> h \<noteq> 1))"
  using gen_order [of Field64 7] by (auto simp: Field_init_1)

end
